theory Spec2Isabelle
  imports Complex_Main
begin

section \<open>Configuration records\<close>

text \<open>
  The enumerations \<open>CalibrationType\<close>, \<open>ParamType\<close> and \<open>CrossAssetModelTypes\<close> are
  declared outside \<open>crossassetmodelbuilder.cpp\<close>; the builder refers to
  \<open>CalibrationType::None\<close>, \<open>CalibrationType::Bootstrap\<close>, \<open>ParamType::Piecewise\<close>,
  \<open>CrossAssetModelTypes::FX\<close> and \<open>CrossAssetModelTypes::EQ\<close>. The remaining members
  follow the configuration contract (calibration type one of None, Bootstrap, Global).
\<close>

datatype CalibrationType = CalibrationType_None | CalibrationType_Bootstrap | CalibrationType_Global

datatype ParamType = ParamType_Constant | ParamType_Piecewise

datatype AssetType = IR | FX | INF_type | CR | EQ

text \<open>
  A currency is identified by its code, and \<open>==\<close> on currencies is equality. A
  \<open>Real\<close> is taken as a real number: of the arithmetic on \<open>Real\<close> the builder uses
  \<open>fabs\<close> and \<open><\<close> only. Quotes and curves stand for the handles of the market.
\<close>

datatype Currency = Currency (code: string)

type_synonym Real = real

type_synonym Quote = real

type_synonym Curve = nat

type_synonym Matrix = "real list list"

record IrLgmData =
  ir_ccy :: string

record FxBsData =
  fx_foreignCcy :: string
  fx_domesticCcy :: string
  fx_calibrationType :: CalibrationType
  fx_calibrateSigma :: bool
  fx_sigmaParamType :: ParamType

record EqBsData =
  eq_eqName :: string
  eq_currency :: string
  eq_calibrationType :: CalibrationType
  eq_calibrateSigma :: bool
  eq_sigmaParamType :: ParamType

record InfDkData =
  inf_infIndex :: string
  inf_calibrationType :: CalibrationType
  inf_calibrateA :: bool
  inf_calibrateH :: bool
  inf_aParamType :: ParamType
  inf_hParamType :: ParamType

record CrossAssetModelData =
  irConfigs :: "IrLgmData list"
  fxConfigs :: "FxBsData list"
  eqConfigs :: "EqBsData list"
  infConfigs :: "InfDkData list"
  bootstrapTolerance :: Real
  correlations :: "((string \<times> string) \<times> Quote) list"

section \<open>Objects the builder works with\<close>

text \<open>
  A parametrization is used by the builder through \<open>currency()\<close> and \<open>name()\<close> only.
  Pricing engines are recorded by constructor and arguments. A calibration helper is an
  instrument of a basket together with the engine attached to it, if any.
\<close>

record Parametrization =
  p_type :: AssetType
  p_currency :: Currency
  p_name :: string

datatype Engine =
    AnalyticCcLgmFxOptionEngine nat bool
  | AnalyticXAssetLgmEquityOptionEngine nat nat
  | AnalyticDkCpiCapFloorEngine nat Real

record CalibrationHelper =
  helper :: nat
  pricingEngine :: "Engine option"

type_synonym Basket = "CalibrationHelper list"

text \<open>
  The calibration entry points of the joint model that the builder calls. The joint model
  is kept symbolically: the parametrizations and correlation matrix it was constructed
  from, the calibrations applied to it so far, in order, and the number of \<open>update()\<close>
  calls.
\<close>

datatype Calibration =
    BsVolatilitiesIterative AssetType nat
  | BsVolatilitiesGlobal AssetType nat
  | InfDkVolatilitiesIterative nat
  | InfDkVolatilitiesGlobal nat
  | InfDkReversionsIterative nat
  | InfDkReversionsGlobal nat
  | Calibrate

record CrossAssetModel =
  cam_parametrizations :: "Parametrization list"
  cam_correlation :: Matrix
  cam_calibrations :: "Calibration list"
  cam_updates :: nat

record LgmBuilder =
  lgm_parametrization :: Parametrization
  lgm_swaptionBasket :: Basket
  lgm_discountCurve :: Curve
  lgm_error :: Real

record OptionBuilder =
  parametrization :: Parametrization
  optionBasket :: Basket

text \<open>
  An entry of \<open>subBuilders_\<close>: which sub-builder it is and what its
  \<open>requiresRecalibration()\<close> answers.
\<close>

record SubBuilder =
  sb_type :: AssetType
  sb_index :: nat
  sb_requiresRecalibration :: bool

section \<open>Errors\<close>

text \<open>
  Every \<open>QL_REQUIRE\<close> of the builder is one constructor; \<open>Propagated\<close> is an exception
  thrown by code the builder calls (sub-builders, market, parsers, the joint model).
\<close>

datatype Error =
    NoMarketGiven
  | MissingIrConfigurations
  | FxIrConfigurationSize nat nat
  | MissingIrParametrizations
  | FxCurrencyMismatch nat
  | FxDomesticCurrencyMismatch nat
  | EquityCurrencyNotCovered string
  | IrFxParametrizationSize
  | CalibrationErrorExceedsTolerance Real Real
  | Propagated string

datatype ErrorClass = ConfigurationError | CalibrationToleranceError | CollaboratorError

text \<open>
  Modelled from the spec: the error taxonomy of the design (the code raises every one of
  them as the same exception type, told apart by message only). Missing or mismatched
  configuration is a ConfigurationError, a bootstrap residual beyond the tolerance a
  CalibrationToleranceError, and errors of collaborators propagate unchanged.
\<close>

fun errorClass :: "Error \<Rightarrow> ErrorClass" where
  "errorClass (CalibrationErrorExceedsTolerance e t) = CalibrationToleranceError"
| "errorClass (Propagated m) = CollaboratorError"
| "errorClass e = ConfigurationError"

section \<open>Collaborators\<close>

text \<open>
  The market and the code called by the builder but defined elsewhere are parameters.
  A call that can throw returns the message on the left.
  \<open>zeroInflationIndex\<close> stands for the lookup of the index followed by the fixing at the
  base date of its curve, which is all the builder uses. \<open>logCalibrationErrors\<close> reads
  the state of the joint model and of the discount curve handles through the engines
  attached to the basket, so both are arguments here.
\<close>

record Market =
  discountCurve :: "string \<Rightarrow> string \<Rightarrow> string + Curve"
  zeroInflationIndex :: "string \<Rightarrow> string \<Rightarrow> string + Real"

record Collaborators =
  newLgmBuilder :: "Market \<Rightarrow> IrLgmData \<Rightarrow> string \<Rightarrow> Real \<Rightarrow> string + LgmBuilder"
  newFxBsBuilder :: "Market \<Rightarrow> FxBsData \<Rightarrow> string \<Rightarrow> string + OptionBuilder"
  newEqBsBuilder :: "Market \<Rightarrow> EqBsData \<Rightarrow> Currency \<Rightarrow> string \<Rightarrow> string + OptionBuilder"
  newInfDkBuilder :: "Market \<Rightarrow> InfDkData \<Rightarrow> string \<Rightarrow> string + OptionBuilder"
  parseCurrency :: "string \<Rightarrow> string + Currency"
  correlationMatrix :: "((string \<times> string) \<times> Quote) list \<Rightarrow> string list \<Rightarrow> string list
     \<Rightarrow> string list \<Rightarrow> string list \<Rightarrow> string + Matrix"
  newCrossAssetModel :: "Parametrization list \<Rightarrow> Matrix \<Rightarrow> string + CrossAssetModel"
  ccyIndex :: "CrossAssetModel \<Rightarrow> Currency \<Rightarrow> string + nat"
  logCalibrationErrors :: "Basket \<Rightarrow> Parametrization \<Rightarrow> Parametrization
     \<Rightarrow> CrossAssetModel \<Rightarrow> Curve list \<Rightarrow> Real"

section \<open>The builder\<close>

text \<open>
  The market observer: its flag and the correlation quotes registered with it.
\<close>

record MarketObserver =
  updated :: bool
  mo_observables :: "Quote list"

text \<open>
  Modelled from the spec: the class of the market observer is not part of the file. It
  tracks whether any registered correlation quote has changed since last consumed:
  \<open>hasUpdated reset\<close> answers the flag and clears it when \<open>reset\<close> is set.
\<close>

definition hasUpdated :: "bool \<Rightarrow> MarketObserver \<Rightarrow> bool \<times> MarketObserver" where
  "hasUpdated reset ob = (updated ob, if reset then ob\<lparr>updated := False\<rparr> else ob)"

definition addObservable :: "Quote \<Rightarrow> MarketObserver \<Rightarrow> MarketObserver" where
  "addObservable q ob = ob\<lparr>mo_observables := mo_observables ob @ [q]\<rparr>"

text \<open>
  Modelled from the spec: a change of a registered quote sets the flag.
\<close>

definition quoteChanged :: "MarketObserver \<Rightarrow> MarketObserver" where
  "quoteChanged ob = ob\<lparr>updated := True\<rparr>"

text \<open>
  The calls the builder makes, in the order it makes them. The entry of a sub-builder
  constructor, of the correlation matrix, of the joint model's constructor and of a relink
  is written when the call starts, so a call that throws is in the log.
  \<open>SetPricingEngines\<close> is written when the engine has been constructed and is attached
  to the helpers of the basket.
\<close>

datatype Event =
    BuildModel
  | Build AssetType nat
  | BuildCorrelationMatrix
  | BuildCrossAssetModel
  | IrError nat
  | LinkTo nat string
  | SetPricingEngines AssetType nat
  | Calibrated Calibration
  | LogCalibrationErrors AssetType nat
  | Update
  | HasUpdated bool

text \<open>
  The members of \<open>CrossAssetModelBuilder\<close> (prefix \<open>m_\<close> for the trailing underscore of
  the source), then the local variables of \<open>buildModel\<close>, which are created empty by
  each call, then the log of calls. The members that are only resized
  (\<open>optionExpiries_\<close>, \<open>swaptionMaturities_\<close>, \<open>fxOptionExpiries_\<close>,
  \<open>eqOptionExpiries_\<close>, \<open>infCapFloorExpiries_\<close>), the optimizer and its end criteria
  and the day counter are left out. \<open>m_observables\<close> is the set of sub-builders the
  builder is registered with as an observer.
\<close>

record CrossAssetModelBuilder =
  m_market :: "Market option"
  m_config :: CrossAssetModelData
  m_configurationLgmCalibration :: string
  m_configurationFxCalibration :: string
  m_configurationEqCalibration :: string
  m_configurationInfCalibration :: string
  m_configurationFinalModel :: string
  m_swaptionBaskets :: "Basket list"
  m_swaptionCalibrationErrors :: "Real list"
  m_fxOptionBaskets :: "Basket list"
  m_fxOptionCalibrationErrors :: "Real list"
  m_eqOptionBaskets :: "Basket list"
  m_eqOptionCalibrationErrors :: "Real list"
  m_infCapFloorBaskets :: "Basket list"
  m_infCapFloorCalibrationErrors :: "Real list"
  m_subBuilders :: "SubBuilder list"
  m_model :: "CrossAssetModel option"
  m_marketObserver :: MarketObserver
  m_observables :: "SubBuilder set"
  irParametrizations :: "Parametrization list"
  irDiscountCurves :: "Curve list"
  currencies :: "string list"
  crNames :: "string list"
  eqNames :: "string list"
  infIndices :: "string list"
  irBuilder :: "LgmBuilder list"
  domesticCcy :: Currency
  fxParametrizations :: "Parametrization list"
  eqParametrizations :: "Parametrization list"
  infParametrizations :: "Parametrization list"
  parametrizations :: "Parametrization list"
  corrMatrix :: Matrix
  trace :: "Event list"

text \<open>
  A step of the builder either completes or throws; in both cases the object is left as
  the step made it.
\<close>

type_synonym Stage = "CrossAssetModelBuilder \<Rightarrow> Error option \<times> CrossAssetModelBuilder"

definition QL_REQUIRE :: "bool \<Rightarrow> Error \<Rightarrow> Stage" where
  "QL_REQUIRE c e s = (if c then (None, s) else (Some e, s))"

definition called :: "Event \<Rightarrow> CrossAssetModelBuilder \<Rightarrow> CrossAssetModelBuilder" where
  "called ev s = s\<lparr>trace := trace s @ [ev]\<rparr>"

fun sequence :: "Stage list \<Rightarrow> Stage" where
  "sequence [] s = (None, s)"
| "sequence (a # as) s = (case a s of (Some e, s') \<Rightarrow> (Some e, s') | (None, s') \<Rightarrow> sequence as s')"

text \<open>
  \<open>for (Size i = 0; i < n; i++) body\<close>, with \<open>n\<close> read from the object; no loop of
  the builder changes its own bound.
\<close>

definition forLoop :: "(CrossAssetModelBuilder \<Rightarrow> nat) \<Rightarrow> (nat \<Rightarrow> Stage) \<Rightarrow> Stage" where
  "forLoop n body s = sequence (map body [0..<n s]) s"

text \<open>\<open>std::vector::resize\<close>: cut, or fill with value-initialised elements.\<close>

definition resize :: "nat \<Rightarrow> 'a \<Rightarrow> 'a list \<Rightarrow> 'a list" where
  "resize n d xs = take n xs @ replicate (n - length xs) d"

text \<open>
  \<open>market_->\<close> and \<open>model_->\<close>: the first \<open>QL_REQUIRE\<close> of \<open>buildModel\<close> keeps the
  market from being null wherever it is dereferenced; an empty model handle cannot be
  dereferenced. A call to a collaborator passes its exception on.
\<close>

definition withMarket :: "(Market \<Rightarrow> Stage) \<Rightarrow> Stage" where
  "withMarket f s = (case m_market s of None \<Rightarrow> (Some NoMarketGiven, s) | Some m \<Rightarrow> f m s)"

definition withModel :: "(CrossAssetModel \<Rightarrow> Stage) \<Rightarrow> Stage" where
  "withModel f s =
     (case m_model s of
        None \<Rightarrow> (Some (Propagated ''empty Handle cannot be dereferenced''), s)
      | Some m \<Rightarrow> f m s)"

definition calling :: "string + 'a \<Rightarrow> ('a \<Rightarrow> Stage) \<Rightarrow> Stage" where
  "calling r f s = (case r of Inl msg \<Rightarrow> (Some (Propagated msg), s) | Inr x \<Rightarrow> f x s)"

subsection \<open>buildModel: checks and sub-builders\<close>

definition checkMarket :: Stage where
  "checkMarket s = QL_REQUIRE (m_market s \<noteq> None) NoMarketGiven s"

definition checkIrConfigs :: Stage where
  "checkIrConfigs s = QL_REQUIRE (0 < length (irConfigs (m_config s))) MissingIrConfigurations s"

definition checkFxConfigs :: Stage where
  "checkFxConfigs s =
     QL_REQUIRE (length (irConfigs (m_config s)) = length (fxConfigs (m_config s)) + 1)
       (FxIrConfigurationSize (length (fxConfigs (m_config s))) (length (irConfigs (m_config s)))) s"

definition resizeMembers :: Stage where
  "resizeMembers s =
     (let c = m_config s in
      (None, s\<lparr>
        m_swaptionBaskets := resize (length (irConfigs c)) [] (m_swaptionBaskets s),
        m_swaptionCalibrationErrors := resize (length (irConfigs c)) 0 (m_swaptionCalibrationErrors s),
        m_fxOptionBaskets := resize (length (fxConfigs c)) [] (m_fxOptionBaskets s),
        m_fxOptionCalibrationErrors := resize (length (fxConfigs c)) 0 (m_fxOptionCalibrationErrors s),
        m_eqOptionBaskets := resize (length (eqConfigs c)) [] (m_eqOptionBaskets s),
        m_eqOptionCalibrationErrors := resize (length (eqConfigs c)) 0 (m_eqOptionCalibrationErrors s),
        m_infCapFloorBaskets := resize (length (infConfigs c)) [] (m_infCapFloorBaskets s),
        m_infCapFloorCalibrationErrors :=
          resize (length (infConfigs c)) 0 (m_infCapFloorCalibrationErrors s),
        m_subBuilders := []\<rparr>))"

definition declareLocals :: Stage where
  "declareLocals s =
     (None, s\<lparr>irParametrizations := [], irDiscountCurves := [], currencies := [], crNames := [],
        eqNames := [], infIndices := [], irBuilder := [], fxParametrizations := [],
        eqParametrizations := [], infParametrizations := [], parametrizations := []\<rparr>)"

text \<open>
  Modelled from the spec: a sub-builder requires recalibration when market data it used
  when last built have since changed, so one that has just been constructed does not.
\<close>

definition newSubBuilder :: "AssetType \<Rightarrow> nat \<Rightarrow> SubBuilder" where
  "newSubBuilder a i = \<lparr>sb_type = a, sb_index = i, sb_requiresRecalibration = False\<rparr>"

definition buildIrParametrization :: "Collaborators \<Rightarrow> nat \<Rightarrow> Stage" where
  "buildIrParametrization w i s =
     (let ir = irConfigs (m_config s) ! i in
      withMarket (\<lambda>m.
        calling (newLgmBuilder w m ir (m_configurationLgmCalibration s) (bootstrapTolerance (m_config s)))
          (\<lambda>builder s'. (None, s'\<lparr>
             irBuilder := irBuilder s' @ [builder],
             m_swaptionBaskets := (m_swaptionBaskets s')[i := lgm_swaptionBasket builder],
             currencies := currencies s' @ [ir_ccy ir],
             irParametrizations := irParametrizations s' @ [lgm_parametrization builder],
             irDiscountCurves := irDiscountCurves s' @ [lgm_discountCurve builder],
             m_subBuilders := m_subBuilders s' @ [newSubBuilder IR i]\<rparr>)))
        (called (Build IR i) s))"

definition checkIrParametrizations :: Stage where
  "checkIrParametrizations s = QL_REQUIRE (0 < length (irParametrizations s)) MissingIrParametrizations s"

definition setDomesticCcy :: Stage where
  "setDomesticCcy s = (None, s\<lparr>domesticCcy := p_currency (irParametrizations s ! 0)\<rparr>)"

definition buildFxParametrization :: "Collaborators \<Rightarrow> nat \<Rightarrow> Stage" where
  "buildFxParametrization w i s =
     (let fx = fxConfigs (m_config s) ! i in
      calling (parseCurrency w (fx_foreignCcy fx)) (\<lambda>ccy.
      calling (parseCurrency w (fx_domesticCcy fx)) (\<lambda>domCcy.
        sequence
          [QL_REQUIRE (code ccy = code (p_currency (irParametrizations s ! (i + 1)))) (FxCurrencyMismatch i),
           QL_REQUIRE (domCcy = domesticCcy s) (FxDomesticCurrencyMismatch i),
           \<lambda>s1. withMarket (\<lambda>m.
             calling (newFxBsBuilder w m fx (m_configurationFxCalibration s1))
               (\<lambda>builder s'. (None, s'\<lparr>
                  m_fxOptionBaskets := (m_fxOptionBaskets s')[i := optionBasket builder],
                  fxParametrizations := fxParametrizations s' @ [parametrization builder],
                  m_subBuilders := m_subBuilders s' @ [newSubBuilder FX i]\<rparr>)))
             (called (Build FX i) s1)])) s)"

definition buildEqParametrization :: "Collaborators \<Rightarrow> nat \<Rightarrow> Stage" where
  "buildEqParametrization w i s =
     (let eq = eqConfigs (m_config s) ! i; eqName = eq_eqName eq in
      calling (parseCurrency w (eq_currency eq)) (\<lambda>eqCcy.
        sequence
          [QL_REQUIRE (code eqCcy \<in> set (currencies s)) (EquityCurrencyNotCovered eqName),
           \<lambda>s1. withMarket (\<lambda>m.
             calling (newEqBsBuilder w m eq (domesticCcy s1) (m_configurationEqCalibration s1))
               (\<lambda>builder s'. (None, s'\<lparr>
                  m_eqOptionBaskets := (m_eqOptionBaskets s')[i := optionBasket builder],
                  eqParametrizations := eqParametrizations s' @ [parametrization builder],
                  eqNames := eqNames s' @ [eqName],
                  m_subBuilders := m_subBuilders s' @ [newSubBuilder EQ i]\<rparr>)))
             (called (Build EQ i) s1)]) s)"

definition buildInfParametrization :: "Collaborators \<Rightarrow> nat \<Rightarrow> Stage" where
  "buildInfParametrization w i s =
     (let infl = infConfigs (m_config s) ! i; infIndex = inf_infIndex infl in
      withMarket (\<lambda>m.
        calling (newInfDkBuilder w m infl (m_configurationInfCalibration s))
          (\<lambda>builder s'. (None, s'\<lparr>
             m_infCapFloorBaskets := (m_infCapFloorBaskets s')[i := optionBasket builder],
             infParametrizations := infParametrizations s' @ [parametrization builder],
             infIndices := infIndices s' @ [infIndex],
             m_subBuilders := m_subBuilders s' @ [newSubBuilder INF_type i]\<rparr>)))
        (called (Build INF_type i) s))"

definition collectParametrizations :: Stage where
  "collectParametrizations s =
     (None, s\<lparr>parametrizations := irParametrizations s @ fxParametrizations s
        @ eqParametrizations s @ infParametrizations s\<rparr>)"

definition checkParametrizationSizes :: Stage where
  "checkParametrizationSizes s =
     QL_REQUIRE (length (fxParametrizations s) = length (irParametrizations s) - 1)
       IrFxParametrizationSize s"

subsection \<open>buildModel: correlation matrix and joint model\<close>

definition buildCorrelationMatrix :: "Collaborators \<Rightarrow> Stage" where
  "buildCorrelationMatrix w s =
     calling (correlationMatrix w (correlations (m_config s)) (currencies s) (infIndices s)
                (crNames s) (eqNames s))
       (\<lambda>c s'. (None, s'\<lparr>corrMatrix := c\<rparr>))
       (called BuildCorrelationMatrix s)"

definition buildCrossAssetModel :: "Collaborators \<Rightarrow> Stage" where
  "buildCrossAssetModel w s =
     calling (newCrossAssetModel w (parametrizations s) (corrMatrix s))
       (\<lambda>m s'. (None, s'\<lparr>m_model := Some m\<rparr>))
       (called BuildCrossAssetModel s)"

subsection \<open>buildModel: the calibration cascade\<close>

definition collectIrError :: "nat \<Rightarrow> Stage" where
  "collectIrError i s =
     (None, (called (IrError i) s)\<lparr>m_swaptionCalibrationErrors :=
        (m_swaptionCalibrationErrors s)[i := lgm_error (irBuilder s ! i)]\<rparr>)"

definition relinkDiscountCurve :: "(CrossAssetModelBuilder \<Rightarrow> string) \<Rightarrow> nat \<Rightarrow> Stage" where
  "relinkDiscountCurve configuration i s =
     (let p = irParametrizations s ! i in
      withMarket (\<lambda>m.
        calling (discountCurve m (code (p_currency p)) (configuration s))
          (\<lambda>c s'. (None, s'\<lparr>irDiscountCurves := (irDiscountCurves s')[i := c]\<rparr>)))
        (called (LinkTo i (configuration s)) s))"

definition relinkDiscountCurves :: "(CrossAssetModelBuilder \<Rightarrow> string) \<Rightarrow> Stage" where
  "relinkDiscountCurves configuration =
     forLoop (\<lambda>s. length (irParametrizations s)) (relinkDiscountCurve configuration)"

definition setPricingEngine :: "Engine \<Rightarrow> Basket \<Rightarrow> Basket" where
  "setPricingEngine e b = map (\<lambda>h. h\<lparr>pricingEngine := Some e\<rparr>) b"

definition calibrate :: "Calibration \<Rightarrow> Stage" where
  "calibrate c =
     withModel (\<lambda>m s. (None, (called (Calibrated c) s)\<lparr>m_model :=
        Some (m\<lparr>cam_calibrations := cam_calibrations m @ [c]\<rparr>)\<rparr>))"

text \<open>The tolerance check that follows a calibration of type Bootstrap.\<close>

definition checkTolerance :: "(CrossAssetModelBuilder \<Rightarrow> Real list) \<Rightarrow> nat \<Rightarrow> Stage" where
  "checkTolerance errors i s =
     QL_REQUIRE (\<bar>errors s ! i\<bar> < bootstrapTolerance (m_config s))
       (CalibrationErrorExceedsTolerance (errors s ! i) (bootstrapTolerance (m_config s))) s"

definition checkToleranceIf :: "bool \<Rightarrow> (CrossAssetModelBuilder \<Rightarrow> Real list) \<Rightarrow> nat \<Rightarrow> Stage" where
  "checkToleranceIf b errors i s = (if b then checkTolerance errors i s else (None, s))"

definition setFxEngines :: "nat \<Rightarrow> Stage" where
  "setFxEngines i =
     withModel (\<lambda>m s. (None, (called (SetPricingEngines FX i) s)\<lparr>m_fxOptionBaskets :=
        (m_fxOptionBaskets s)[i := setPricingEngine (AnalyticCcLgmFxOptionEngine i True)
           (m_fxOptionBaskets s ! i)]\<rparr>))"

definition recordFxError :: "Collaborators \<Rightarrow> nat \<Rightarrow> Stage" where
  "recordFxError w i =
     withModel (\<lambda>m s. (None, (called (LogCalibrationErrors FX i) s)\<lparr>m_fxOptionCalibrationErrors :=
        (m_fxOptionCalibrationErrors s)[i := logCalibrationErrors w (m_fxOptionBaskets s ! i)
           (fxParametrizations s ! i) (irParametrizations s ! 0) m (irDiscountCurves s)]\<rparr>))"

definition fxSkipped :: "FxBsData \<Rightarrow> bool" where
  "fxSkipped fx = (fx_calibrationType fx = CalibrationType_None \<or> \<not> fx_calibrateSigma fx)"

definition fxCalibration :: "FxBsData \<Rightarrow> nat \<Rightarrow> Calibration" where
  "fxCalibration fx i =
     (if fx_calibrationType fx = CalibrationType_Bootstrap \<and> fx_sigmaParamType fx = ParamType_Piecewise
      then BsVolatilitiesIterative FX i else BsVolatilitiesGlobal FX i)"

definition calibrateFx :: "Collaborators \<Rightarrow> nat \<Rightarrow> Stage" where
  "calibrateFx w i s =
     (let fx = fxConfigs (m_config s) ! i in
      if fxSkipped fx then (None, s)
      else sequence
        [setFxEngines i,
         calibrate (fxCalibration fx i),
         recordFxError w i,
         checkToleranceIf (fx_calibrationType fx = CalibrationType_Bootstrap)
           m_fxOptionCalibrationErrors i] s)"

definition setEqEngines :: "Collaborators \<Rightarrow> nat \<Rightarrow> Stage" where
  "setEqEngines w i =
     withModel (\<lambda>m s.
       calling (ccyIndex w m (p_currency (eqParametrizations s ! i)))
         (\<lambda>eqCcyIdx s'. (None, (called (SetPricingEngines EQ i) s')\<lparr>m_eqOptionBaskets :=
            (m_eqOptionBaskets s')[i := setPricingEngine (AnalyticXAssetLgmEquityOptionEngine i eqCcyIdx)
               (m_eqOptionBaskets s' ! i)]\<rparr>)) s)"

definition recordEqError :: "Collaborators \<Rightarrow> nat \<Rightarrow> Stage" where
  "recordEqError w i =
     withModel (\<lambda>m s. (None, (called (LogCalibrationErrors EQ i) s)\<lparr>m_eqOptionCalibrationErrors :=
        (m_eqOptionCalibrationErrors s)[i := logCalibrationErrors w (m_eqOptionBaskets s ! i)
           (eqParametrizations s ! i) (irParametrizations s ! 0) m (irDiscountCurves s)]\<rparr>))"

definition eqSkipped :: "EqBsData \<Rightarrow> bool" where
  "eqSkipped eq = (\<not> eq_calibrateSigma eq)"

definition eqCalibration :: "EqBsData \<Rightarrow> nat \<Rightarrow> Calibration" where
  "eqCalibration eq i =
     (if eq_calibrationType eq = CalibrationType_Bootstrap \<and> eq_sigmaParamType eq = ParamType_Piecewise
      then BsVolatilitiesIterative EQ i else BsVolatilitiesGlobal EQ i)"

definition calibrateEq :: "Collaborators \<Rightarrow> nat \<Rightarrow> Stage" where
  "calibrateEq w i s =
     (let eq = eqConfigs (m_config s) ! i in
      if eqSkipped eq then (None, s)
      else sequence
        [setEqEngines w i,
         calibrate (eqCalibration eq i),
         recordEqError w i,
         checkToleranceIf (eq_calibrationType eq = CalibrationType_Bootstrap)
           m_eqOptionCalibrationErrors i] s)"

text \<open>
  \<open>model_->infdk(i)\<close> is the \<open>i\<close>-th inflation parametrization the joint model was
  constructed from.
\<close>

definition setInfEngines :: "nat \<Rightarrow> Stage" where
  "setInfEngines i =
     withModel (\<lambda>model. withMarket (\<lambda>m s.
       calling (zeroInflationIndex m (p_name (infParametrizations s ! i)) (m_configurationInfCalibration s))
         (\<lambda>baseCPI s'. (None, (called (SetPricingEngines INF_type i) s')\<lparr>m_infCapFloorBaskets :=
            (m_infCapFloorBaskets s')[i := setPricingEngine (AnalyticDkCpiCapFloorEngine i baseCPI)
               (m_infCapFloorBaskets s' ! i)]\<rparr>)) s))"

definition recordInfError :: "Collaborators \<Rightarrow> nat \<Rightarrow> Stage" where
  "recordInfError w i =
     withModel (\<lambda>m s. (None, (called (LogCalibrationErrors INF_type i) s)\<lparr>m_infCapFloorCalibrationErrors :=
        (m_infCapFloorCalibrationErrors s)[i := logCalibrationErrors w (m_infCapFloorBaskets s ! i)
           (infParametrizations s ! i) (irParametrizations s ! 0) m (irDiscountCurves s)]\<rparr>))"

definition infSkipped :: "InfDkData \<Rightarrow> bool" where
  "infSkipped infl =
     ((\<not> inf_calibrateA infl \<and> \<not> inf_calibrateH infl) \<or> inf_calibrationType infl = CalibrationType_None)"

definition infCalibration :: "InfDkData \<Rightarrow> nat \<Rightarrow> Calibration" where
  "infCalibration infl i =
     (if inf_calibrateA infl \<and> \<not> inf_calibrateH infl then
        (if inf_calibrationType infl = CalibrationType_Bootstrap \<and> inf_aParamType infl = ParamType_Piecewise
         then InfDkVolatilitiesIterative i else InfDkVolatilitiesGlobal i)
      else if \<not> inf_calibrateA infl \<and> inf_calibrateH infl then
        (if inf_calibrationType infl = CalibrationType_Bootstrap \<and> inf_hParamType infl = ParamType_Piecewise
         then InfDkReversionsIterative i else InfDkReversionsGlobal i)
      else Calibrate)"

definition calibrateInf :: "Collaborators \<Rightarrow> nat \<Rightarrow> Stage" where
  "calibrateInf w i s =
     (let infl = infConfigs (m_config s) ! i in
      if infSkipped infl then (None, s)
      else sequence
        [setInfEngines i,
         calibrate (infCalibration infl i),
         recordInfError w i,
         checkToleranceIf (inf_calibrationType infl = CalibrationType_Bootstrap)
           m_infCapFloorCalibrationErrors i] s)"

definition modelUpdate :: Stage where
  "modelUpdate =
     withModel (\<lambda>m s. (None, (called Update s)\<lparr>m_model := Some (m\<lparr>cam_updates := Suc (cam_updates m)\<rparr>)\<rparr>))"

subsection \<open>buildModel\<close>

definition subModels :: "Collaborators \<Rightarrow> Stage list" where
  "subModels w =
     [(\<lambda>s. (None, called BuildModel s)),
      checkMarket,
      checkIrConfigs,
      checkFxConfigs,
      resizeMembers,
      declareLocals,
      forLoop (\<lambda>s. length (irConfigs (m_config s))) (buildIrParametrization w),
      checkIrParametrizations,
      setDomesticCcy,
      forLoop (\<lambda>s. length (fxConfigs (m_config s))) (buildFxParametrization w),
      forLoop (\<lambda>s. length (eqConfigs (m_config s))) (buildEqParametrization w),
      forLoop (\<lambda>s. length (infConfigs (m_config s))) (buildInfParametrization w),
      collectParametrizations]"

definition construction :: "Collaborators \<Rightarrow> Stage list" where
  "construction w =
     subModels w @ [checkParametrizationSizes, buildCorrelationMatrix w, buildCrossAssetModel w]"

definition cascade :: "Collaborators \<Rightarrow> Stage list" where
  "cascade w =
     [forLoop (\<lambda>s. length (irBuilder s)) collectIrError,
      relinkDiscountCurves m_configurationFxCalibration,
      forLoop (\<lambda>s. length (fxParametrizations s)) (calibrateFx w),
      relinkDiscountCurves m_configurationEqCalibration,
      forLoop (\<lambda>s. length (eqParametrizations s)) (calibrateEq w),
      relinkDiscountCurves m_configurationFinalModel,
      forLoop (\<lambda>s. length (infParametrizations s)) (calibrateInf w),
      relinkDiscountCurves m_configurationFinalModel,
      modelUpdate]"

definition buildModel :: "Collaborators \<Rightarrow> Stage" where
  "buildModel w = sequence (construction w @ cascade w)"

subsection \<open>Lazy recalculation\<close>

definition unregisterWithSubBuilders :: "CrossAssetModelBuilder \<Rightarrow> CrossAssetModelBuilder" where
  "unregisterWithSubBuilders s = s\<lparr>m_observables := m_observables s - set (m_subBuilders s)\<rparr>"

definition registerWithSubBuilders :: "CrossAssetModelBuilder \<Rightarrow> CrossAssetModelBuilder" where
  "registerWithSubBuilders s = s\<lparr>m_observables := m_observables s \<union> set (m_subBuilders s)\<rparr>"

definition observerHasUpdated :: "bool \<Rightarrow> CrossAssetModelBuilder \<Rightarrow> bool \<times> CrossAssetModelBuilder" where
  "observerHasUpdated reset s =
     (fst (hasUpdated reset (m_marketObserver s)),
      (called (HasUpdated reset) s)\<lparr>m_marketObserver := snd (hasUpdated reset (m_marketObserver s))\<rparr>)"

definition requiresRecalibration :: "CrossAssetModelBuilder \<Rightarrow> bool \<times> CrossAssetModelBuilder" where
  "requiresRecalibration s =
     (if list_ex sb_requiresRecalibration (m_subBuilders s) then (True, s)
      else observerHasUpdated False s)"

definition performCalculations :: "Collaborators \<Rightarrow> Stage" where
  "performCalculations w s =
     (case requiresRecalibration s of
        (True, s1) \<Rightarrow>
          sequence
            [(\<lambda>s2. (None, snd (observerHasUpdated True s2))),
             (\<lambda>s2. (None, unregisterWithSubBuilders s2)),
             buildModel w,
             (\<lambda>s2. (None, registerWithSubBuilders s2))] s1
      | (False, s1) \<Rightarrow> (None, s1))"

text \<open>
  Modelled from the spec: \<open>calculate()\<close> is inherited and not part of the file. Whether
  the builder is stale is checked at every access to a public result, so every access
  runs \<open>performCalculations\<close>.
\<close>

definition calculate :: "Collaborators \<Rightarrow> Stage" where
  "calculate w = performCalculations w"

definition accessor :: "Collaborators \<Rightarrow> (CrossAssetModelBuilder \<Rightarrow> 'a)
    \<Rightarrow> CrossAssetModelBuilder \<Rightarrow> (Error + 'a) \<times> CrossAssetModelBuilder" where
  "accessor w member s =
     (case calculate w s of (Some e, s') \<Rightarrow> (Inl e, s') | (None, s') \<Rightarrow> (Inr (member s'), s'))"

definition model :: "Collaborators \<Rightarrow> CrossAssetModelBuilder
    \<Rightarrow> (Error + CrossAssetModel option) \<times> CrossAssetModelBuilder" where
  "model w = accessor w m_model"

definition swaptionCalibrationErrors :: "Collaborators \<Rightarrow> CrossAssetModelBuilder
    \<Rightarrow> (Error + Real list) \<times> CrossAssetModelBuilder" where
  "swaptionCalibrationErrors w = accessor w m_swaptionCalibrationErrors"

definition fxOptionCalibrationErrors :: "Collaborators \<Rightarrow> CrossAssetModelBuilder
    \<Rightarrow> (Error + Real list) \<times> CrossAssetModelBuilder" where
  "fxOptionCalibrationErrors w = accessor w m_fxOptionCalibrationErrors"

definition eqOptionCalibrationErrors :: "Collaborators \<Rightarrow> CrossAssetModelBuilder
    \<Rightarrow> (Error + Real list) \<times> CrossAssetModelBuilder" where
  "eqOptionCalibrationErrors w = accessor w m_eqOptionCalibrationErrors"

definition infCapFloorCalibrationErrors :: "Collaborators \<Rightarrow> CrossAssetModelBuilder
    \<Rightarrow> (Error + Real list) \<times> CrossAssetModelBuilder" where
  "infCapFloorCalibrationErrors w = accessor w m_infCapFloorCalibrationErrors"

subsection \<open>Constructor\<close>

text \<open>
  The constructor builds the model, registers with the sub-builders, creates the market
  observer over the correlation quotes and resets its flag (whatever a new observer's
  flag is; it is taken as set here).
\<close>

definition emptyBuilder :: "Market option \<Rightarrow> CrossAssetModelData \<Rightarrow> string \<Rightarrow> string \<Rightarrow> string
    \<Rightarrow> string \<Rightarrow> string \<Rightarrow> CrossAssetModelBuilder" where
  "emptyBuilder market config configurationLgmCalibration configurationFxCalibration
     configurationEqCalibration configurationInfCalibration configurationFinalModel =
     \<lparr>m_market = market, m_config = config,
      m_configurationLgmCalibration = configurationLgmCalibration,
      m_configurationFxCalibration = configurationFxCalibration,
      m_configurationEqCalibration = configurationEqCalibration,
      m_configurationInfCalibration = configurationInfCalibration,
      m_configurationFinalModel = configurationFinalModel,
      m_swaptionBaskets = [], m_swaptionCalibrationErrors = [],
      m_fxOptionBaskets = [], m_fxOptionCalibrationErrors = [],
      m_eqOptionBaskets = [], m_eqOptionCalibrationErrors = [],
      m_infCapFloorBaskets = [], m_infCapFloorCalibrationErrors = [],
      m_subBuilders = [], m_model = None,
      m_marketObserver = \<lparr>updated = True, mo_observables = []\<rparr>,
      m_observables = {},
      irParametrizations = [], irDiscountCurves = [], currencies = [], crNames = [],
      eqNames = [], infIndices = [], irBuilder = [], domesticCcy = Currency [],
      fxParametrizations = [], eqParametrizations = [], infParametrizations = [],
      parametrizations = [], corrMatrix = [], trace = []\<rparr>"

definition newCrossAssetModelBuilder :: "Collaborators \<Rightarrow> Market option \<Rightarrow> CrossAssetModelData
    \<Rightarrow> string \<Rightarrow> string \<Rightarrow> string \<Rightarrow> string \<Rightarrow> string \<Rightarrow> Error + CrossAssetModelBuilder" where
  "newCrossAssetModelBuilder w market config cLgm cFx cEq cInf cFinal =
     (case buildModel w (emptyBuilder market config cLgm cFx cEq cInf cFinal) of
        (Some e, s) \<Rightarrow> Inl e
      | (None, s) \<Rightarrow>
          Inr (snd (observerHasUpdated True
            ((registerWithSubBuilders s)\<lparr>m_marketObserver :=
               foldl (\<lambda>ob c. addObservable (snd c) ob) \<lparr>updated = True, mo_observables = []\<rparr>
                 (correlations config)\<rparr>))))"

section \<open>A two-currency example\<close>

text \<open>
  A market that has every curve and index, and collaborators that never throw; every
  calibration reports the residual \<open>err\<close>. Currency codes have three letters.
\<close>

definition exampleMarket :: Market where
  "exampleMarket =
     \<lparr>discountCurve = (\<lambda>ccy configuration. Inr (length configuration)),
      zeroInflationIndex = (\<lambda>name configuration. Inr 100)\<rparr>"

definition exampleHelper :: CalibrationHelper where
  "exampleHelper = \<lparr>helper = 0, pricingEngine = None\<rparr>"

definition exampleCollaborators :: "Real \<Rightarrow> Collaborators" where
  "exampleCollaborators err =
     \<lparr>newLgmBuilder = (\<lambda>m ir configuration tolerance. Inr
        \<lparr>lgm_parametrization = \<lparr>p_type = IR, p_currency = Currency (ir_ccy ir), p_name = ir_ccy ir\<rparr>,
         lgm_swaptionBasket = [exampleHelper], lgm_discountCurve = 0, lgm_error = 0\<rparr>),
      newFxBsBuilder = (\<lambda>m fx configuration. Inr
        \<lparr>parametrization =
           \<lparr>p_type = FX, p_currency = Currency (fx_foreignCcy fx), p_name = fx_foreignCcy fx\<rparr>,
         optionBasket = [exampleHelper]\<rparr>),
      newEqBsBuilder = (\<lambda>m eq dom configuration. Inr
        \<lparr>parametrization =
           \<lparr>p_type = EQ, p_currency = Currency (eq_currency eq), p_name = eq_eqName eq\<rparr>,
         optionBasket = [exampleHelper]\<rparr>),
      newInfDkBuilder = (\<lambda>m infl configuration. Inr
        \<lparr>parametrization =
           \<lparr>p_type = INF_type, p_currency = Currency ''EUR'', p_name = inf_infIndex infl\<rparr>,
         optionBasket = [exampleHelper]\<rparr>),
      parseCurrency = (\<lambda>c. if length c = 3 then Inr (Currency c) else Inl ''unknown currency''),
      correlationMatrix = (\<lambda>cs currencies infIndices crNames eqNames. Inr []),
      newCrossAssetModel = (\<lambda>ps c. Inr
        \<lparr>cam_parametrizations = ps, cam_correlation = c, cam_calibrations = [], cam_updates = 0\<rparr>),
      ccyIndex = (\<lambda>m c. Inr 0),
      logCalibrationErrors = (\<lambda>b p q m curves. err)\<rparr>"

definition exampleFx :: FxBsData where
  "exampleFx =
     \<lparr>fx_foreignCcy = ''USD'', fx_domesticCcy = ''EUR'',
      fx_calibrationType = CalibrationType_Bootstrap, fx_calibrateSigma = True,
      fx_sigmaParamType = ParamType_Piecewise\<rparr>"

definition exampleEq :: EqBsData where
  "exampleEq =
     \<lparr>eq_eqName = ''SP5'', eq_currency = ''USD'',
      eq_calibrationType = CalibrationType_None, eq_calibrateSigma = True,
      eq_sigmaParamType = ParamType_Constant\<rparr>"

definition exampleInf :: InfDkData where
  "exampleInf =
     \<lparr>inf_infIndex = ''EUHICPXT'', inf_calibrationType = CalibrationType_Bootstrap,
      inf_calibrateA = True, inf_calibrateH = True,
      inf_aParamType = ParamType_Piecewise, inf_hParamType = ParamType_Piecewise\<rparr>"

definition exampleConfig :: CrossAssetModelData where
  "exampleConfig =
     \<lparr>irConfigs = [\<lparr>ir_ccy = ''EUR''\<rparr>, \<lparr>ir_ccy = ''USD''\<rparr>],
      fxConfigs = [exampleFx], eqConfigs = [exampleEq], infConfigs = [exampleInf],
      bootstrapTolerance = 1 / 100, correlations = []\<rparr>"

definition exampleBuilder :: "CrossAssetModelData \<Rightarrow> CrossAssetModelBuilder" where
  "exampleBuilder config =
     emptyBuilder (Some exampleMarket) config ''lgm'' ''fx'' ''eq'' ''inf'' ''final''"

section \<open>Notions used in the statements\<close>

subsection \<open>Steps and what they leave unchanged\<close>

text \<open>
  A relation between the builder before a step and after it, whether the step completes
  or throws.
\<close>

definition preserves :: "(CrossAssetModelBuilder \<Rightarrow> CrossAssetModelBuilder \<Rightarrow> bool) \<Rightarrow> Stage \<Rightarrow> bool" where
  "preserves R f = (\<forall>s. R s (snd (f s)))"

text \<open>
  What no step of a build changes: the market, the configuration, the configuration
  labels, the market observer and the registrations.
\<close>

definition ctx :: "CrossAssetModelBuilder \<Rightarrow> Market option \<times> CrossAssetModelData \<times> string
    \<times> string \<times> string \<times> string \<times> string \<times> MarketObserver \<times> SubBuilder set" where
  "ctx s = (m_market s, m_config s, m_configurationLgmCalibration s, m_configurationFxCalibration s,
     m_configurationEqCalibration s, m_configurationInfCalibration s, m_configurationFinalModel s,
     m_marketObserver s, m_observables s)"

text \<open>
  The local variables filled by the loop over the rate configurations, by the FX loop,
  and all that is fixed once the sub-builders are constructed.
\<close>

definition irLocals :: "CrossAssetModelBuilder \<Rightarrow> Parametrization list \<times> LgmBuilder list
    \<times> string list \<times> nat" where
  "irLocals s = (irParametrizations s, irBuilder s, currencies s, length (irDiscountCurves s))"

definition fxLocals :: "CrossAssetModelBuilder \<Rightarrow> Parametrization list \<times> Currency" where
  "fxLocals s = (fxParametrizations s, domesticCcy s)"

definition built :: "CrossAssetModelBuilder \<Rightarrow> Parametrization list \<times> LgmBuilder list \<times> string list
    \<times> Parametrization list \<times> Currency \<times> Parametrization list \<times> Parametrization list
    \<times> SubBuilder list" where
  "built s = (irParametrizations s, irBuilder s, currencies s, fxParametrizations s, domesticCcy s,
     eqParametrizations s, infParametrizations s, m_subBuilders s)"

text \<open>
  The four vectors of recorded calibration errors.
\<close>

definition vectors :: "CrossAssetModelBuilder \<Rightarrow> Real list \<times> Real list \<times> Real list \<times> Real list" where
  "vectors s = (m_swaptionCalibrationErrors s, m_fxOptionCalibrationErrors s,
     m_eqOptionCalibrationErrors s, m_infCapFloorCalibrationErrors s)"

text \<open>
  A step that leaves the context alone and adds to the log only events of a given kind.
\<close>

definition emits :: "Event set \<Rightarrow> CrossAssetModelBuilder \<Rightarrow> CrossAssetModelBuilder \<Rightarrow> bool" where
  "emits E s s' = (ctx s' = ctx s \<and> (\<exists>t. trace s' = trace s @ t \<and> set t \<subseteq> E))"

text \<open>
  The events before the joint model is constructed, and all events of a build after its
  entry.
\<close>

definition constructionEvents :: "Event set" where
  "constructionEvents = {e. \<exists>a i. e = Build a i} \<union> {BuildCorrelationMatrix}"

definition buildEvents :: "Event set" where
  "buildEvents = - ({BuildModel} \<union> range HasUpdated)"

definition proceeds :: "CrossAssetModelBuilder \<Rightarrow> CrossAssetModelBuilder \<Rightarrow> bool" where
  "proceeds s s' = (emits buildEvents s s' \<and> built s' = built s)"

text \<open>
  What a step can throw. An ordinary error is neither the mismatch of the assembled
  parametrization counts nor a calibration tolerance error.
\<close>

definition raises :: "Stage \<Rightarrow> (Error \<Rightarrow> bool) \<Rightarrow> bool" where
  "raises f P = (\<forall>s e s'. f s = (Some e, s') \<longrightarrow> P e)"

definition ordinary :: "Error \<Rightarrow> bool" where
  "ordinary e = (e \<noteq> IrFxParametrizationSize \<and> errorClass e \<noteq> CalibrationToleranceError)"

text \<open>
  No sub-builder of the builder requires recalibration.
\<close>

definition allFresh :: "CrossAssetModelBuilder \<Rightarrow> bool" where
  "allFresh s = (\<not> list_ex sb_requiresRecalibration (m_subBuilders s))"

text \<open>
  Every discount curve handle is linked to the curve the market has for its currency
  under the configuration \<open>c\<close>.
\<close>

definition linkedTo :: "string \<Rightarrow> CrossAssetModelBuilder \<Rightarrow> bool" where
  "linkedTo c s =
     (length (irDiscountCurves s) = length (irParametrizations s)
      \<and> (\<forall>j<length (irParametrizations s). \<exists>m. m_market s = Some m
            \<and> discountCurve m (code (p_currency (irParametrizations s ! j))) c
                = Inr (irDiscountCurves s ! j)))"

subsection \<open>Notions of the specification\<close>

text \<open>
  The currency checks: FX configuration \<open>i\<close> against rate
  parametrization \<open>i + 1\<close> and the first rate parametrization, and equity configuration
  \<open>i\<close> against the configured rate currencies.
\<close>

definition fxChecked :: "Collaborators \<Rightarrow> CrossAssetModelBuilder \<Rightarrow> nat \<Rightarrow> bool" where
  "fxChecked w s i =
     (case (parseCurrency w (fx_foreignCcy (fxConfigs (m_config s) ! i)),
            parseCurrency w (fx_domesticCcy (fxConfigs (m_config s) ! i))) of
        (Inr ccy, Inr domCcy) \<Rightarrow>
          code ccy = code (p_currency (irParametrizations s ! (i + 1)))
          \<and> domCcy = p_currency (irParametrizations s ! 0)
      | _ \<Rightarrow> False)"

definition eqChecked :: "Collaborators \<Rightarrow> CrossAssetModelBuilder \<Rightarrow> nat \<Rightarrow> bool" where
  "eqChecked w s i =
     (case parseCurrency w (eq_currency (eqConfigs (m_config s) ! i)) of
        Inr eqCcy \<Rightarrow> code eqCcy \<in> set (map ir_ccy (irConfigs (m_config s)))
      | _ \<Rightarrow> False)"

text \<open>
  The calls the cascade makes for one factor: none if it is skipped, otherwise the
  engines, one calibration and the recording of the error.
\<close>

definition fxEvents :: "FxBsData \<Rightarrow> nat \<Rightarrow> Event list" where
  "fxEvents fx i =
     (if fxSkipped fx then []
      else [SetPricingEngines FX i, Calibrated (fxCalibration fx i), LogCalibrationErrors FX i])"

definition eqEvents :: "EqBsData \<Rightarrow> nat \<Rightarrow> Event list" where
  "eqEvents eq i =
     (if eqSkipped eq then []
      else [SetPricingEngines EQ i, Calibrated (eqCalibration eq i), LogCalibrationErrors EQ i])"

definition infEvents :: "InfDkData \<Rightarrow> nat \<Rightarrow> Event list" where
  "infEvents infl i =
     (if infSkipped infl then []
      else [SetPricingEngines INF_type i, Calibrated (infCalibration infl i),
            LogCalibrationErrors INF_type i])"

text \<open>
  The order of the calls of a completed build as the specification gives it, for a
  configuration and the three configuration labels of the relinks.
\<close>

definition specifiedOrder :: "CrossAssetModelData \<Rightarrow> string \<Rightarrow> string \<Rightarrow> string \<Rightarrow> Event list" where
  "specifiedOrder c cFx cEq cFinal =
     [BuildModel]
     @ map (Build IR) [0..<length (irConfigs c)]
     @ map (Build FX) [0..<length (fxConfigs c)]
     @ map (Build EQ) [0..<length (eqConfigs c)]
     @ map (Build INF_type) [0..<length (infConfigs c)]
     @ [BuildCorrelationMatrix, BuildCrossAssetModel]
     @ map IrError [0..<length (irConfigs c)]
     @ map (\<lambda>i. LinkTo i cFx) [0..<length (irConfigs c)]
     @ concat (map (\<lambda>i. fxEvents (fxConfigs c ! i) i) [0..<length (fxConfigs c)])
     @ map (\<lambda>i. LinkTo i cEq) [0..<length (irConfigs c)]
     @ concat (map (\<lambda>i. eqEvents (eqConfigs c ! i) i) [0..<length (eqConfigs c)])
     @ map (\<lambda>i. LinkTo i cFinal) [0..<length (irConfigs c)]
     @ concat (map (\<lambda>i. infEvents (infConfigs c ! i) i) [0..<length (infConfigs c)])
     @ map (\<lambda>i. LinkTo i cFinal) [0..<length (irConfigs c)]
     @ [Update]"

text \<open>
  The calibration the cascade applies to the joint model for one factor: none if the
  factor is skipped. The calibrations of a completed build in the order of the
  specification: those of the FX factors, then of the equity factors, then of the
  inflation factors. A joint model that has undergone calibrations.
\<close>

definition fxCalibrations :: "CrossAssetModelData \<Rightarrow> nat \<Rightarrow> Calibration list" where
  "fxCalibrations c i =
     (if fxSkipped (fxConfigs c ! i) then [] else [fxCalibration (fxConfigs c ! i) i])"

definition eqCalibrations :: "CrossAssetModelData \<Rightarrow> nat \<Rightarrow> Calibration list" where
  "eqCalibrations c i =
     (if eqSkipped (eqConfigs c ! i) then [] else [eqCalibration (eqConfigs c ! i) i])"

definition infCalibrations :: "CrossAssetModelData \<Rightarrow> nat \<Rightarrow> Calibration list" where
  "infCalibrations c i =
     (if infSkipped (infConfigs c ! i) then [] else [infCalibration (infConfigs c ! i) i])"

definition specifiedCalibrations :: "CrossAssetModelData \<Rightarrow> Calibration list" where
  "specifiedCalibrations c =
     concat (map (fxCalibrations c) [0..<length (fxConfigs c)])
     @ concat (map (eqCalibrations c) [0..<length (eqConfigs c)])
     @ concat (map (infCalibrations c) [0..<length (infConfigs c)])"

definition calibrated :: "Calibration list \<Rightarrow> CrossAssetModel \<Rightarrow> CrossAssetModel" where
  "calibrated cs m = m\<lparr>cam_calibrations := cam_calibrations m @ cs\<rparr>"

text \<open>
  The sub-models are those the sub-builders delivered: one rate sub-builder per rate
  configuration, constructed from the market, the configuration, the label of the rate
  calibration and the bootstrap tolerance, whose parametrization is the rate
  parametrization; the FX, equity and inflation parametrizations are those of the
  sub-builders constructed from their configurations, the equity ones against the currency
  of the first rate parametrization; and the sub-builders are kept in the order rate, FX,
  equity, inflation.
\<close>

definition subModelsBuilt :: "Collaborators \<Rightarrow> CrossAssetModelBuilder \<Rightarrow> bool" where
  "subModelsBuilt w s =
     (case m_market s of
        None \<Rightarrow> False
      | Some m \<Rightarrow>
          map Inr (irBuilder s)
            = map (\<lambda>ir. newLgmBuilder w m ir (m_configurationLgmCalibration s)
                     (bootstrapTolerance (m_config s))) (irConfigs (m_config s))
          \<and> irParametrizations s = map lgm_parametrization (irBuilder s)
          \<and> map Inr (fxParametrizations s)
            = map (\<lambda>fx. map_sum id parametrization
                     (newFxBsBuilder w m fx (m_configurationFxCalibration s))) (fxConfigs (m_config s))
          \<and> map Inr (eqParametrizations s)
            = map (\<lambda>eq. map_sum id parametrization
                     (newEqBsBuilder w m eq (p_currency (irParametrizations s ! 0))
                        (m_configurationEqCalibration s))) (eqConfigs (m_config s))
          \<and> map Inr (infParametrizations s)
            = map (\<lambda>infl. map_sum id parametrization
                     (newInfDkBuilder w m infl (m_configurationInfCalibration s))) (infConfigs (m_config s))
          \<and> m_subBuilders s
            = map (newSubBuilder IR) [0..<length (irConfigs (m_config s))]
              @ map (newSubBuilder FX) [0..<length (fxConfigs (m_config s))]
              @ map (newSubBuilder EQ) [0..<length (eqConfigs (m_config s))]
              @ map (newSubBuilder INF_type) [0..<length (infConfigs (m_config s))])"

text \<open>
  The joint model as its constructor delivers it: over the parametrizations in the order
  rate, FX, equity, inflation, with the correlation matrix assembled from the configured
  correlations and the names of the factors (there are no credit names).
\<close>

definition jointModelOf :: "Collaborators \<Rightarrow> CrossAssetModelBuilder \<Rightarrow> string + CrossAssetModel" where
  "jointModelOf w s =
     (case correlationMatrix w (correlations (m_config s)) (map ir_ccy (irConfigs (m_config s)))
             (map inf_infIndex (infConfigs (m_config s))) []
             (map eq_eqName (eqConfigs (m_config s))) of
        Inl msg \<Rightarrow> Inl msg
      | Inr c \<Rightarrow> newCrossAssetModel w (irParametrizations s @ fxParametrizations s
                   @ eqParametrizations s @ infParametrizations s) c)"

text \<open>
  The outcome of the tolerance check: a calibration of type Bootstrap fails when the
  magnitude of the error is not strictly below the tolerance.
\<close>

definition gateOutcome :: "bool \<Rightarrow> Real \<Rightarrow> Real \<Rightarrow> Error option" where
  "gateOutcome bootstrap e tolerance =
     (if bootstrap \<and> \<not> \<bar>e\<bar> < tolerance then Some (CalibrationErrorExceedsTolerance e tolerance)
      else None)"

text \<open>
  The error \<open>e\<close> is the tolerance error of a calibrated FX, equity or inflation factor of
  type Bootstrap, whose recorded error has a magnitude that is not below the tolerance.
\<close>

definition toleranceBreach :: "CrossAssetModelBuilder \<Rightarrow> Error \<Rightarrow> bool" where
  "toleranceBreach s e =
     ((\<exists>i<length (fxConfigs (m_config s)).
         fx_calibrationType (fxConfigs (m_config s) ! i) = CalibrationType_Bootstrap
         \<and> \<not> fxSkipped (fxConfigs (m_config s) ! i)
         \<and> \<not> \<bar>m_fxOptionCalibrationErrors s ! i\<bar> < bootstrapTolerance (m_config s)
         \<and> e = CalibrationErrorExceedsTolerance (m_fxOptionCalibrationErrors s ! i)
               (bootstrapTolerance (m_config s)))
      \<or> (\<exists>i<length (eqConfigs (m_config s)).
         eq_calibrationType (eqConfigs (m_config s) ! i) = CalibrationType_Bootstrap
         \<and> \<not> eqSkipped (eqConfigs (m_config s) ! i)
         \<and> \<not> \<bar>m_eqOptionCalibrationErrors s ! i\<bar> < bootstrapTolerance (m_config s)
         \<and> e = CalibrationErrorExceedsTolerance (m_eqOptionCalibrationErrors s ! i)
               (bootstrapTolerance (m_config s)))
      \<or> (\<exists>i<length (infConfigs (m_config s)).
         inf_calibrationType (infConfigs (m_config s) ! i) = CalibrationType_Bootstrap
         \<and> \<not> infSkipped (infConfigs (m_config s) ! i)
         \<and> \<not> \<bar>m_infCapFloorCalibrationErrors s ! i\<bar> < bootstrapTolerance (m_config s)
         \<and> e = CalibrationErrorExceedsTolerance (m_infCapFloorCalibrationErrors s ! i)
               (bootstrapTolerance (m_config s))))"

text \<open>
  Every calibrated FX, equity and inflation factor of type Bootstrap has a recorded error
  whose magnitude is strictly below the tolerance.
\<close>

definition withinTolerance :: "CrossAssetModelBuilder \<Rightarrow> bool" where
  "withinTolerance s =
     ((\<forall>i<length (fxConfigs (m_config s)).
         fx_calibrationType (fxConfigs (m_config s) ! i) = CalibrationType_Bootstrap
         \<and> \<not> fxSkipped (fxConfigs (m_config s) ! i)
         \<longrightarrow> \<bar>m_fxOptionCalibrationErrors s ! i\<bar> < bootstrapTolerance (m_config s))
      \<and> (\<forall>i<length (eqConfigs (m_config s)).
         eq_calibrationType (eqConfigs (m_config s) ! i) = CalibrationType_Bootstrap
         \<and> \<not> eqSkipped (eqConfigs (m_config s) ! i)
         \<longrightarrow> \<bar>m_eqOptionCalibrationErrors s ! i\<bar> < bootstrapTolerance (m_config s))
      \<and> (\<forall>i<length (infConfigs (m_config s)).
         inf_calibrationType (infConfigs (m_config s) ! i) = CalibrationType_Bootstrap
         \<and> \<not> infSkipped (infConfigs (m_config s) ! i)
         \<longrightarrow> \<bar>m_infCapFloorCalibrationErrors s ! i\<bar> < bootstrapTolerance (m_config s)))"

text \<open>
  The builder is stale when a sub-builder requires recalibration or the market observer
  reports a change. A rebuild starts from the builder with the observer reset and the
  registrations with the current sub-builders removed.
\<close>

definition stale :: "CrossAssetModelBuilder \<Rightarrow> bool" where
  "stale s = (list_ex sb_requiresRecalibration (m_subBuilders s) \<or> updated (m_marketObserver s))"

definition rebuildStart :: "CrossAssetModelBuilder \<Rightarrow> CrossAssetModelBuilder" where
  "rebuildStart s =
     unregisterWithSubBuilders (snd (observerHasUpdated True (snd (requiresRecalibration s))))"

text \<open>
  Modelled from the spec: the notification of the market observer that a registered
  correlation quote has changed.
\<close>

definition correlationQuoteChanged :: "CrossAssetModelBuilder \<Rightarrow> CrossAssetModelBuilder" where
  "correlationQuoteChanged s = s\<lparr>m_marketObserver := quoteChanged (m_marketObserver s)\<rparr>"

text \<open>
  The log entries that are queries of the market observer.
\<close>

definition isQuery :: "Event \<Rightarrow> bool" where
  "isQuery e = (case e of HasUpdated r \<Rightarrow> True | _ \<Rightarrow> False)"

subsection \<open>Further examples\<close>

text \<open>
  The example with one rate configuration only, so that the counts do not fit; the
  example after the construction of the joint model, before the cascade; the joint model
  it has then.
\<close>

definition mismatchedConfig :: CrossAssetModelData where
  "mismatchedConfig = exampleConfig\<lparr>irConfigs := [\<lparr>ir_ccy = ''EUR''\<rparr>]\<rparr>"

definition exampleBuilt :: CrossAssetModelBuilder where
  "exampleBuilt = snd (sequence (construction (exampleCollaborators 0)) (exampleBuilder exampleConfig))"

definition exampleModel :: CrossAssetModel where
  "exampleModel =
     \<lparr>cam_parametrizations =
        [\<lparr>p_type = IR, p_currency = Currency ''EUR'', p_name = ''EUR''\<rparr>,
         \<lparr>p_type = IR, p_currency = Currency ''USD'', p_name = ''USD''\<rparr>,
         \<lparr>p_type = FX, p_currency = Currency ''USD'', p_name = ''USD''\<rparr>,
         \<lparr>p_type = EQ, p_currency = Currency ''USD'', p_name = ''SP5''\<rparr>,
         \<lparr>p_type = INF_type, p_currency = Currency ''EUR'', p_name = ''EUHICPXT''\<rparr>],
      cam_correlation = [], cam_calibrations = [], cam_updates = 0\<rparr>"

text \<open>
  The same example with an equity factor of type Bootstrap and an inflation factor that
  fits the volatility only.
\<close>

definition exampleConfig2 :: CrossAssetModelData where
  "exampleConfig2 = exampleConfig
     \<lparr>eqConfigs := [exampleEq\<lparr>eq_calibrationType := CalibrationType_Bootstrap,
                               eq_sigmaParamType := ParamType_Piecewise\<rparr>],
      infConfigs := [exampleInf\<lparr>inf_calibrateH := False\<rparr>]\<rparr>"

definition exampleBuilt2 :: CrossAssetModelBuilder where
  "exampleBuilt2 = snd (sequence (construction (exampleCollaborators 0)) (exampleBuilder exampleConfig2))"



text \<open>
  Collaborators whose rate sub-builders report a calibration error of one half, far above
  the tolerance of the example, and whose calibrations report a residual of half the
  tolerance.
\<close>

definition rateErrorCollaborators :: Collaborators where
  "rateErrorCollaborators = (exampleCollaborators (1 / 200))
     \<lparr>newLgmBuilder := (\<lambda>m ir configuration tolerance. Inr
        \<lparr>lgm_parametrization = \<lparr>p_type = IR, p_currency = Currency (ir_ccy ir), p_name = ir_ccy ir\<rparr>,
         lgm_swaptionBasket = [exampleHelper], lgm_discountCurve = 0, lgm_error = 1 / 2\<rparr>)\<rparr>"

text \<open>
  A builder one of whose sub-builders requires recalibration, and the builder of the
  example as its constructor leaves it.
\<close>

definition staleBuilder :: CrossAssetModelBuilder where
  "staleBuilder = (exampleBuilder exampleConfig)
     \<lparr>m_subBuilders := [\<lparr>sb_type = IR, sb_index = 0, sb_requiresRecalibration = True\<rparr>],
      m_marketObserver := \<lparr>updated = False, mo_observables = []\<rparr>\<rparr>"

text \<open>
  The stale builder, registered with its sub-builder.
\<close>

definition staleRegistered :: CrossAssetModelBuilder where
  "staleRegistered = staleBuilder\<lparr>m_observables := set (m_subBuilders staleBuilder)\<rparr>"

definition exampleCalibrated :: CrossAssetModelBuilder where
  "exampleCalibrated =
     snd (observerHasUpdated True
       ((registerWithSubBuilders
          (snd (buildModel (exampleCollaborators 0) (exampleBuilder exampleConfig))))
        \<lparr>m_marketObserver := \<lparr>updated = True, mo_observables = []\<rparr>\<rparr>))"

section \<open>Properties\<close>

lemma sequence_append:
  "sequence (as @ bs) s =
     (case sequence as s of (Some e, s') \<Rightarrow> (Some e, s') | (None, s') \<Rightarrow> sequence bs s')"
  by (induction as arbitrary: s) (auto split: prod.splits option.splits)

lemma sequence_Some: "sequence fs s = (Some e, s') \<Longrightarrow> \<exists>f\<in>set fs. \<exists>s1. f s1 = (Some e, s')"
proof (induction fs arbitrary: s)
  case Nil
  then show ?case by simp
next
  case (Cons a fs)
  show ?case
  proof (cases "a s")
    case (Pair r s1)
    show ?thesis
    proof (cases r)
      case None
      with Pair Cons.prems have "sequence fs s1 = (Some e, s')" by simp
      from Cons.IH[OF this] show ?thesis by auto
    next
      case (Some e')
      with Pair Cons.prems have "a s = (Some e, s')" by simp
      then show ?thesis by auto
    qed
  qed
qed

lemma forLoop_Some: "forLoop n body s = (Some e, s') \<Longrightarrow> \<exists>i<n s. \<exists>s1. body i s1 = (Some e, s')"
  unfolding forLoop_def by (drule sequence_Some) auto

lemma sequence_None_Cons:
  "sequence (a # as) s = (None, s') \<longleftrightarrow> (\<exists>s1. a s = (None, s1) \<and> sequence as s1 = (None, s'))"
  by (auto split: prod.splits option.splits)

lemma preserves_sequence:
  assumes "\<And>s. R s s" and "\<And>a b c. R a b \<Longrightarrow> R b c \<Longrightarrow> R a c"
    and "\<And>f. f \<in> set fs \<Longrightarrow> preserves R f"
  shows "preserves R (sequence fs)"
  using assms(3)
proof (induction fs)
  case Nil
  then show ?case by (simp add: preserves_def assms(1))
next
  case (Cons a fs)
  have a: "preserves R a" and fs: "preserves R (sequence fs)"
    using Cons by auto
  show ?case
    unfolding preserves_def
  proof
    fix s
    show "R s (snd (sequence (a # fs) s))"
    proof (cases "a s")
      case (Pair r s1)
      have 1: "R s s1" using a Pair by (auto simp: preserves_def dest: spec[where x=s])
      show ?thesis
      proof (cases r)
        case None
        have "R s1 (snd (sequence fs s1))" using fs by (simp add: preserves_def)
        with 1 have "R s (snd (sequence fs s1))" by (rule assms(2))
        with Pair None show ?thesis by simp
      next
        case (Some e)
        with Pair 1 show ?thesis by simp
      qed
    qed
  qed
qed

lemma preserves_forLoop:
  assumes "\<And>s. R s s" and "\<And>a b c. R a b \<Longrightarrow> R b c \<Longrightarrow> R a c"
    and "\<And>i. preserves R (body i)"
  shows "preserves R (forLoop n body)"
proof -
  have "\<And>k. preserves R (sequence (map body [0..<k]))"
    by (rule preserves_sequence[of R, OF assms(1) assms(2)]) (auto simp: assms(3))
  then show ?thesis by (simp add: preserves_def forLoop_def)
qed

lemma sequence_upt_invariant:
  assumes "sequence (map body [k..<N]) s = (None, s')" and "k \<le> N" and "I k s"
    and "\<And>i s1 s2. k \<le> i \<Longrightarrow> i < N \<Longrightarrow> I i s1 \<Longrightarrow> body i s1 = (None, s2) \<Longrightarrow> I (Suc i) s2"
  shows "I N s'"
  using assms
proof (induction "N - k" arbitrary: k s)
  case 0
  then show ?case by simp
next
  case (Suc d)
  then have lt: "k < N" by simp
  then have upt: "[k..<N] = k # [Suc k..<N]" by (simp add: upt_conv_Cons)
  from Suc.prems(1) obtain s1 where 1: "body k s = (None, s1)"
    and 2: "sequence (map body [Suc k..<N]) s1 = (None, s')"
    unfolding upt by (auto split: prod.splits option.splits)
  have 3: "I (Suc k) s1" using Suc.prems(4)[of k s s1] lt Suc.prems(3) 1 by simp
  have 4: "d = N - Suc k" using Suc.hyps(2) by simp
  show ?case
  proof (rule Suc.hyps(1)[OF 4 2 _ 3])
    show "Suc k \<le> N" using lt by simp
  next
    fix i s1 s2
    assume "Suc k \<le> i" "i < N" "I i s1" "body i s1 = (None, s2)"
    then show "I (Suc i) s2" using Suc.prems(4)[of i s1 s2] by simp
  qed
qed

lemma forLoop_invariant:
  assumes "forLoop n body s = (None, s')" and "I 0 s"
    and "\<And>i s1 s2. i < n s \<Longrightarrow> I i s1 \<Longrightarrow> body i s1 = (None, s2) \<Longrightarrow> I (Suc i) s2"
  shows "I (n s) s'"
  using assms(1) unfolding forLoop_def
  by (rule sequence_upt_invariant[where I=I and k=0]) (use assms in auto)

lemmas stage_defs = QL_REQUIRE_def called_def withMarket_def withModel_def calling_def
  checkMarket_def checkIrConfigs_def checkFxConfigs_def resizeMembers_def declareLocals_def
  buildIrParametrization_def checkIrParametrizations_def setDomesticCcy_def
  buildFxParametrization_def buildEqParametrization_def buildInfParametrization_def
  collectParametrizations_def checkParametrizationSizes_def buildCorrelationMatrix_def
  buildCrossAssetModel_def collectIrError_def relinkDiscountCurve_def calibrate_def
  checkTolerance_def checkToleranceIf_def setFxEngines_def recordFxError_def calibrateFx_def
  setEqEngines_def recordEqError_def calibrateEq_def setInfEngines_def recordInfError_def
  calibrateInf_def modelUpdate_def newSubBuilder_def

lemma buildIr_step:
  assumes "buildIrParametrization w i s = (None, s')"
  shows "ctx s' = ctx s" and "trace s' = trace s @ [Build IR i]"
    and "length (irParametrizations s') = Suc (length (irParametrizations s))"
    and "length (irBuilder s') = Suc (length (irBuilder s))"
    and "length (irDiscountCurves s') = Suc (length (irDiscountCurves s))"
    and "currencies s' = currencies s @ [ir_ccy (irConfigs (m_config s) ! i)]"
    and "fxParametrizations s' = fxParametrizations s"
    and "eqParametrizations s' = eqParametrizations s"
    and "infParametrizations s' = infParametrizations s"
    and "allFresh s \<Longrightarrow> allFresh s'"
  using assms
  by (auto simp: stage_defs ctx_def allFresh_def Let_def split: option.splits sum.splits)

lemma buildIr_loop:
  assumes "forLoop (\<lambda>s. length (irConfigs (m_config s))) (buildIrParametrization w) s = (None, s')"
  shows "ctx s' = ctx s
    \<and> trace s' = trace s @ map (Build IR) [0..<length (irConfigs (m_config s))]
    \<and> length (irParametrizations s') = length (irParametrizations s) + length (irConfigs (m_config s))
    \<and> length (irBuilder s') = length (irBuilder s) + length (irConfigs (m_config s))
    \<and> length (irDiscountCurves s') = length (irDiscountCurves s) + length (irConfigs (m_config s))
    \<and> currencies s' = currencies s @ map ir_ccy (irConfigs (m_config s))
    \<and> fxParametrizations s' = fxParametrizations s
    \<and> eqParametrizations s' = eqParametrizations s
    \<and> infParametrizations s' = infParametrizations s
    \<and> (allFresh s \<longrightarrow> allFresh s')"
proof -
  let ?n = "\<lambda>s. length (irConfigs (m_config s))"
  let ?I = "\<lambda>i s1. ctx s1 = ctx s
    \<and> trace s1 = trace s @ map (Build IR) [0..<i]
    \<and> length (irParametrizations s1) = length (irParametrizations s) + i
    \<and> length (irBuilder s1) = length (irBuilder s) + i
    \<and> length (irDiscountCurves s1) = length (irDiscountCurves s) + i
    \<and> currencies s1 = currencies s @ map ir_ccy (take i (irConfigs (m_config s)))
    \<and> fxParametrizations s1 = fxParametrizations s
    \<and> eqParametrizations s1 = eqParametrizations s
    \<and> infParametrizations s1 = infParametrizations s
    \<and> (allFresh s \<longrightarrow> allFresh s1)"
  have "?I (?n s) s'"
  proof (rule forLoop_invariant[OF assms, where I="?I"])
    show "?I 0 s" by simp
  next
    fix i s1 s2
    assume i: "i < ?n s" and I: "?I i s1" and b: "buildIrParametrization w i s1 = (None, s2)"
    have c: "m_config s1 = m_config s" using I by (simp add: ctx_def)
    show "?I (Suc i) s2"
      using I i buildIr_step[OF b] c by (simp add: take_Suc_conv_app_nth)
  qed
  then show ?thesis by simp
qed

lemma buildFx_step:
  assumes "buildFxParametrization w i s = (None, s')"
  shows "ctx s' = ctx s" and "trace s' = trace s @ [Build FX i]"
    and "irLocals s' = irLocals s" and "domesticCcy s' = domesticCcy s"
    and "length (fxParametrizations s') = Suc (length (fxParametrizations s))"
    and "eqParametrizations s' = eqParametrizations s"
    and "infParametrizations s' = infParametrizations s"
    and "allFresh s \<Longrightarrow> allFresh s'"
    and "domesticCcy s = p_currency (irParametrizations s ! 0) \<Longrightarrow> fxChecked w s i"
  using assms
  by (auto simp: stage_defs ctx_def irLocals_def allFresh_def fxChecked_def Let_def
      split: option.splits sum.splits if_splits)

lemma buildFx_loop:
  assumes "forLoop (\<lambda>s. length (fxConfigs (m_config s))) (buildFxParametrization w) s = (None, s')"
  shows "ctx s' = ctx s
    \<and> trace s' = trace s @ map (Build FX) [0..<length (fxConfigs (m_config s))]
    \<and> irLocals s' = irLocals s \<and> domesticCcy s' = domesticCcy s
    \<and> length (fxParametrizations s') = length (fxParametrizations s) + length (fxConfigs (m_config s))
    \<and> eqParametrizations s' = eqParametrizations s
    \<and> infParametrizations s' = infParametrizations s
    \<and> (allFresh s \<longrightarrow> allFresh s')
    \<and> (domesticCcy s = p_currency (irParametrizations s ! 0)
        \<longrightarrow> (\<forall>j<length (fxConfigs (m_config s)). fxChecked w s j))"
proof -
  let ?n = "\<lambda>s. length (fxConfigs (m_config s))"
  let ?I = "\<lambda>i s1. ctx s1 = ctx s
    \<and> trace s1 = trace s @ map (Build FX) [0..<i]
    \<and> irLocals s1 = irLocals s \<and> domesticCcy s1 = domesticCcy s
    \<and> length (fxParametrizations s1) = length (fxParametrizations s) + i
    \<and> eqParametrizations s1 = eqParametrizations s
    \<and> infParametrizations s1 = infParametrizations s
    \<and> (allFresh s \<longrightarrow> allFresh s1)
    \<and> (domesticCcy s = p_currency (irParametrizations s ! 0) \<longrightarrow> (\<forall>j<i. fxChecked w s j))"
  have "?I (?n s) s'"
  proof (rule forLoop_invariant[OF assms, where I="?I"])
    show "?I 0 s" by simp
  next
    fix i s1 s2
    assume i: "i < ?n s" and I: "?I i s1" and b: "buildFxParametrization w i s1 = (None, s2)"
    have c: "m_config s1 = m_config s" "irParametrizations s1 = irParametrizations s"
      using I by (simp_all add: ctx_def irLocals_def)
    have f: "fxChecked w s1 i = fxChecked w s i" unfolding fxChecked_def c by (rule refl)
    show "?I (Suc i) s2"
      using I i buildFx_step[OF b] c f by (auto simp: less_Suc_eq)
  qed
  then show ?thesis by simp
qed

lemma buildEq_step:
  assumes "buildEqParametrization w i s = (None, s')"
  shows "ctx s' = ctx s" and "trace s' = trace s @ [Build EQ i]"
    and "irLocals s' = irLocals s" and "fxLocals s' = fxLocals s"
    and "length (eqParametrizations s') = Suc (length (eqParametrizations s))"
    and "infParametrizations s' = infParametrizations s"
    and "allFresh s \<Longrightarrow> allFresh s'"
    and "currencies s = map ir_ccy (irConfigs (m_config s)) \<Longrightarrow> eqChecked w s i"
  using assms
  by (auto simp: stage_defs ctx_def irLocals_def fxLocals_def allFresh_def eqChecked_def Let_def
      split: option.splits sum.splits if_splits)

lemma buildEq_loop:
  assumes "forLoop (\<lambda>s. length (eqConfigs (m_config s))) (buildEqParametrization w) s = (None, s')"
  shows "ctx s' = ctx s
    \<and> trace s' = trace s @ map (Build EQ) [0..<length (eqConfigs (m_config s))]
    \<and> irLocals s' = irLocals s \<and> fxLocals s' = fxLocals s
    \<and> length (eqParametrizations s') = length (eqParametrizations s) + length (eqConfigs (m_config s))
    \<and> infParametrizations s' = infParametrizations s
    \<and> (allFresh s \<longrightarrow> allFresh s')
    \<and> (currencies s = map ir_ccy (irConfigs (m_config s))
        \<longrightarrow> (\<forall>j<length (eqConfigs (m_config s)). eqChecked w s j))"
proof -
  let ?n = "\<lambda>s. length (eqConfigs (m_config s))"
  let ?I = "\<lambda>i s1. ctx s1 = ctx s
    \<and> trace s1 = trace s @ map (Build EQ) [0..<i]
    \<and> irLocals s1 = irLocals s \<and> fxLocals s1 = fxLocals s
    \<and> length (eqParametrizations s1) = length (eqParametrizations s) + i
    \<and> infParametrizations s1 = infParametrizations s
    \<and> (allFresh s \<longrightarrow> allFresh s1)
    \<and> (currencies s = map ir_ccy (irConfigs (m_config s)) \<longrightarrow> (\<forall>j<i. eqChecked w s j))"
  have "?I (?n s) s'"
  proof (rule forLoop_invariant[OF assms, where I="?I"])
    show "?I 0 s" by simp
  next
    fix i s1 s2
    assume i: "i < ?n s" and I: "?I i s1" and b: "buildEqParametrization w i s1 = (None, s2)"
    have c: "m_config s1 = m_config s" "currencies s1 = currencies s"
      using I by (simp_all add: ctx_def irLocals_def)
    have f: "eqChecked w s1 i = eqChecked w s i" unfolding eqChecked_def c by (rule refl)
    show "?I (Suc i) s2"
      using I i buildEq_step[OF b] c f by (auto simp: less_Suc_eq)
  qed
  then show ?thesis by simp
qed

lemma buildInf_step:
  assumes "buildInfParametrization w i s = (None, s')"
  shows "ctx s' = ctx s" and "trace s' = trace s @ [Build INF_type i]"
    and "irLocals s' = irLocals s" and "fxLocals s' = fxLocals s"
    and "eqParametrizations s' = eqParametrizations s"
    and "length (infParametrizations s') = Suc (length (infParametrizations s))"
    and "allFresh s \<Longrightarrow> allFresh s'"
  using assms
  by (auto simp: stage_defs ctx_def irLocals_def fxLocals_def allFresh_def Let_def
      split: option.splits sum.splits if_splits)

lemma buildInf_loop:
  assumes "forLoop (\<lambda>s. length (infConfigs (m_config s))) (buildInfParametrization w) s = (None, s')"
  shows "ctx s' = ctx s
    \<and> trace s' = trace s @ map (Build INF_type) [0..<length (infConfigs (m_config s))]
    \<and> irLocals s' = irLocals s \<and> fxLocals s' = fxLocals s
    \<and> eqParametrizations s' = eqParametrizations s
    \<and> length (infParametrizations s') = length (infParametrizations s) + length (infConfigs (m_config s))
    \<and> (allFresh s \<longrightarrow> allFresh s')"
proof -
  let ?n = "\<lambda>s. length (infConfigs (m_config s))"
  let ?I = "\<lambda>i s1. ctx s1 = ctx s
    \<and> trace s1 = trace s @ map (Build INF_type) [0..<i]
    \<and> irLocals s1 = irLocals s \<and> fxLocals s1 = fxLocals s
    \<and> eqParametrizations s1 = eqParametrizations s
    \<and> length (infParametrizations s1) = length (infParametrizations s) + i
    \<and> (allFresh s \<longrightarrow> allFresh s1)"
  have "?I (?n s) s'"
  proof (rule forLoop_invariant[OF assms, where I="?I"])
    show "?I 0 s" by simp
  next
    fix i s1 s2
    assume i: "i < ?n s" and I: "?I i s1" and b: "buildInfParametrization w i s1 = (None, s2)"
    show "?I (Suc i) s2"
      using I i buildInf_step[OF b] by auto
  qed
  then show ?thesis by simp
qed

lemma subModels_success:
  assumes "sequence (subModels w) s = (None, s')"
  shows "ctx s' = ctx s"
    and "trace s' = trace s @ [BuildModel]
          @ map (Build IR) [0..<length (irConfigs (m_config s))]
          @ map (Build FX) [0..<length (fxConfigs (m_config s))]
          @ map (Build EQ) [0..<length (eqConfigs (m_config s))]
          @ map (Build INF_type) [0..<length (infConfigs (m_config s))]"
    and "length (irParametrizations s') = length (irConfigs (m_config s))"
    and "length (irBuilder s') = length (irConfigs (m_config s))"
    and "length (irDiscountCurves s') = length (irConfigs (m_config s))"
    and "length (fxParametrizations s') = length (fxConfigs (m_config s))"
    and "length (eqParametrizations s') = length (eqConfigs (m_config s))"
    and "length (infParametrizations s') = length (infConfigs (m_config s))"
    and "length (irConfigs (m_config s)) = length (fxConfigs (m_config s)) + 1"
    and "m_market s \<noteq> None" and "allFresh s'"
    and "\<forall>j<length (fxConfigs (m_config s)). fxChecked w s' j"
    and "\<forall>j<length (eqConfigs (m_config s)). eqChecked w s' j"
proof -
  from assms obtain s1 s2 s3 s4 s5 s6 s7 s8 s9 s10 s11 s12 where
    st: "s1 = called BuildModel s" "checkMarket s1 = (None, s2)" "checkIrConfigs s2 = (None, s3)"
      "checkFxConfigs s3 = (None, s4)" "resizeMembers s4 = (None, s5)" "declareLocals s5 = (None, s6)"
      "forLoop (\<lambda>s. length (irConfigs (m_config s))) (buildIrParametrization w) s6 = (None, s7)"
      "checkIrParametrizations s7 = (None, s8)" "setDomesticCcy s8 = (None, s9)"
      "forLoop (\<lambda>s. length (fxConfigs (m_config s))) (buildFxParametrization w) s9 = (None, s10)"
      "forLoop (\<lambda>s. length (eqConfigs (m_config s))) (buildEqParametrization w) s10 = (None, s11)"
      "forLoop (\<lambda>s. length (infConfigs (m_config s))) (buildInfParametrization w) s11 = (None, s12)"
      "collectParametrizations s12 = (None, s')"
    unfolding subModels_def sequence_None_Cons by auto
  note ir = buildIr_loop[OF st(7)] and fx = buildFx_loop[OF st(10)]
    and eq = buildEq_loop[OF st(11)] and inf = buildInf_loop[OF st(12)]
  have a: "s2 = s1" "m_market s \<noteq> None" "s3 = s2" "s4 = s3"
    "length (irConfigs (m_config s)) = length (fxConfigs (m_config s)) + 1"
    using st(1-4) by (auto simp: stage_defs split: if_splits)
  have b: "ctx s6 = ctx s" "trace s6 = trace s @ [BuildModel]" "allFresh s6"
    "irParametrizations s6 = []" "irBuilder s6 = []" "irDiscountCurves s6 = []"
    "fxParametrizations s6 = []" "eqParametrizations s6 = []" "infParametrizations s6 = []"
    "currencies s6 = []"
    using st(1,5,6) a(1,3,4) by (auto simp: stage_defs ctx_def allFresh_def Let_def)
  have c6: "m_config s6 = m_config s" using b(1) by (simp add: ctx_def)
  have c: "ctx s9 = ctx s7" "trace s9 = trace s7" "allFresh s9 = allFresh s7"
    "irLocals s9 = irLocals s7" "irDiscountCurves s9 = irDiscountCurves s7"
    "fxParametrizations s9 = fxParametrizations s7" "eqParametrizations s9 = eqParametrizations s7"
    "infParametrizations s9 = infParametrizations s7"
    "domesticCcy s9 = p_currency (irParametrizations s9 ! 0)"
    using st(8,9) by (auto simp: stage_defs ctx_def allFresh_def irLocals_def split: if_splits)
  have c7: "m_config s7 = m_config s" using ir c6 by (simp add: ctx_def)
  have c9: "m_config s9 = m_config s" using c(1) c7 by (simp add: ctx_def)
  have c10: "m_config s10 = m_config s" using fx c9 by (simp add: ctx_def)
  have c11: "m_config s11 = m_config s" using eq c10 by (simp add: ctx_def)
  have d: "ctx s' = ctx s12" "trace s' = trace s12"
    "allFresh s' = allFresh s12" "irLocals s' = irLocals s12"
    "irDiscountCurves s' = irDiscountCurves s12"
    "fxParametrizations s' = fxParametrizations s12" "eqParametrizations s' = eqParametrizations s12"
    "infParametrizations s' = infParametrizations s12"
    using st(13)
    by (auto simp: stage_defs ctx_def allFresh_def irLocals_def split: if_splits sum.splits)
  show "ctx s' = ctx s" using d(1) inf eq fx c(1) ir b(1) by simp
  show "trace s' = trace s @ [BuildModel]
          @ map (Build IR) [0..<length (irConfigs (m_config s))]
          @ map (Build FX) [0..<length (fxConfigs (m_config s))]
          @ map (Build EQ) [0..<length (eqConfigs (m_config s))]
          @ map (Build INF_type) [0..<length (infConfigs (m_config s))]"
    using d(2) inf eq fx c(2) ir b(2) c6 c9 c10 c11 by simp
  have irl: "irLocals s' = irLocals s7" using d(4) inf eq fx c(4) by simp
  show "length (irParametrizations s') = length (irConfigs (m_config s))"
    using irl ir b(4) c6 by (simp add: irLocals_def)
  show "length (irBuilder s') = length (irConfigs (m_config s))"
    using irl ir b(5) c6 by (simp add: irLocals_def)
  show "length (irDiscountCurves s') = length (irConfigs (m_config s))"
    using irl ir b(6) c6 by (simp add: irLocals_def)
  show "length (fxParametrizations s') = length (fxConfigs (m_config s))"
    using d(6) inf eq fx c(6) ir b(7) c9 by (simp add: fxLocals_def)
  show "length (eqParametrizations s') = length (eqConfigs (m_config s))"
    using d(7) inf eq fx c(7) ir b(8) c10 by simp
  show "length (infParametrizations s') = length (infConfigs (m_config s))"
    using d(8) inf eq fx c(8) ir b(9) c11 by simp
  show "length (irConfigs (m_config s)) = length (fxConfigs (m_config s)) + 1" by (rule a(5))
  show "m_market s \<noteq> None" by (rule a(2))
  show "allFresh s'" using d(3) inf eq fx c(3) ir b(3) by simp
  have cs: "m_config s' = m_config s" using \<open>ctx s' = ctx s\<close> by (simp add: ctx_def)
  have irp9: "irParametrizations s' = irParametrizations s9"
    using d(4) inf eq fx by (simp add: irLocals_def)
  have "\<forall>j<length (fxConfigs (m_config s9)). fxChecked w s9 j" using fx c(9) by simp
  moreover have "\<And>j. fxChecked w s' j = fxChecked w s9 j"
    unfolding fxChecked_def cs c9 irp9 by (rule refl)
  ultimately show "\<forall>j<length (fxConfigs (m_config s)). fxChecked w s' j" using c9 by simp
  have cur: "currencies s10 = map ir_ccy (irConfigs (m_config s10))"
    using fx c(4) ir b(10) c6 c10 by (simp add: irLocals_def)
  then have "\<forall>j<length (eqConfigs (m_config s10)). eqChecked w s10 j" using eq by simp
  moreover have "\<And>j. eqChecked w s' j = eqChecked w s10 j"
    unfolding eqChecked_def cs c10 by (rule refl)
  ultimately show "\<forall>j<length (eqConfigs (m_config s)). eqChecked w s' j" using c10 by simp
qed

lemma construction_success:
  assumes "sequence (construction w) s = (None, s')"
  shows "ctx s' = ctx s"
    and "trace s' = trace s @ [BuildModel]
          @ map (Build IR) [0..<length (irConfigs (m_config s))]
          @ map (Build FX) [0..<length (fxConfigs (m_config s))]
          @ map (Build EQ) [0..<length (eqConfigs (m_config s))]
          @ map (Build INF_type) [0..<length (infConfigs (m_config s))]
          @ [BuildCorrelationMatrix, BuildCrossAssetModel]"
    and "length (irParametrizations s') = length (irConfigs (m_config s))"
    and "length (irBuilder s') = length (irConfigs (m_config s))"
    and "length (irDiscountCurves s') = length (irConfigs (m_config s))"
    and "length (fxParametrizations s') = length (fxConfigs (m_config s))"
    and "length (eqParametrizations s') = length (eqConfigs (m_config s))"
    and "length (infParametrizations s') = length (infConfigs (m_config s))"
    and "m_model s' \<noteq> None" and "allFresh s'"
proof -
  from assms obtain s1 s2 s3 where st: "sequence (subModels w) s = (None, s1)"
    "checkParametrizationSizes s1 = (None, s2)" "buildCorrelationMatrix w s2 = (None, s3)"
    "buildCrossAssetModel w s3 = (None, s')"
    by (auto simp: construction_def sequence_append split: prod.splits option.splits)
  note k = subModels_success[OF st(1)]
  have d: "ctx s' = ctx s1" "trace s' = trace s1 @ [BuildCorrelationMatrix, BuildCrossAssetModel]"
    "allFresh s' = allFresh s1" "irLocals s' = irLocals s1"
    "irDiscountCurves s' = irDiscountCurves s1"
    "fxParametrizations s' = fxParametrizations s1" "eqParametrizations s' = eqParametrizations s1"
    "infParametrizations s' = infParametrizations s1" "m_model s' \<noteq> None"
    using st(2-4)
    by (auto simp: stage_defs ctx_def allFresh_def irLocals_def split: if_splits sum.splits)
  show "ctx s' = ctx s" using d(1) k(1) by simp
  show "trace s' = trace s @ [BuildModel]
          @ map (Build IR) [0..<length (irConfigs (m_config s))]
          @ map (Build FX) [0..<length (fxConfigs (m_config s))]
          @ map (Build EQ) [0..<length (eqConfigs (m_config s))]
          @ map (Build INF_type) [0..<length (infConfigs (m_config s))]
          @ [BuildCorrelationMatrix, BuildCrossAssetModel]"
    using d(2) k(2) by simp
  show "length (irParametrizations s') = length (irConfigs (m_config s))"
    using d(4) k(3) by (simp add: irLocals_def)
  show "length (irBuilder s') = length (irConfigs (m_config s))"
    using d(4) k(4) by (simp add: irLocals_def)
  show "length (irDiscountCurves s') = length (irConfigs (m_config s))"
    using d(5) k(5) by simp
  show "length (fxParametrizations s') = length (fxConfigs (m_config s))"
    using d(6) k(6) by simp
  show "length (eqParametrizations s') = length (eqConfigs (m_config s))"
    using d(7) k(7) by simp
  show "length (infParametrizations s') = length (infConfigs (m_config s))"
    using d(8) k(8) by simp
  show "m_model s' \<noteq> None" by (rule d(9))
  show "allFresh s'" using d(3) k(11) by simp
qed

lemma collectIrError_step:
  assumes "collectIrError i s = (r, s')"
  shows "r = None" and "ctx s' = ctx s" and "built s' = built s"
    and "irDiscountCurves s' = irDiscountCurves s" and "m_model s' = m_model s"
    and "trace s' = trace s @ [IrError i]"
  using assms by (auto simp: stage_defs ctx_def built_def)

lemma collectIrError_loop:
  assumes "forLoop (\<lambda>s. length (irBuilder s)) collectIrError s = (None, s')"
  shows "ctx s' = ctx s \<and> built s' = built s \<and> irDiscountCurves s' = irDiscountCurves s
    \<and> m_model s' = m_model s
    \<and> trace s' = trace s @ map IrError [0..<length (irBuilder s)]"
proof -
  let ?I = "\<lambda>i s1. ctx s1 = ctx s \<and> built s1 = built s \<and> irDiscountCurves s1 = irDiscountCurves s
    \<and> m_model s1 = m_model s \<and> trace s1 = trace s @ map IrError [0..<i]"
  have "?I (length (irBuilder s)) s'"
  proof (rule forLoop_invariant[OF assms, where I="?I"])
    show "?I 0 s" by simp
  next
    fix i s1 s2
    assume "i < length (irBuilder s)" and I: "?I i s1" and b: "collectIrError i s1 = (None, s2)"
    show "?I (Suc i) s2" using I collectIrError_step[OF b] by simp
  qed
  then show ?thesis by simp
qed

lemma relink_step:
  assumes "relinkDiscountCurve cfg i s = (None, s')"
  shows "ctx s' = ctx s" and "built s' = built s" and "m_model s' = m_model s"
    and "trace s' = trace s @ [LinkTo i (cfg s)]"
    and "length (irDiscountCurves s') = length (irDiscountCurves s)"
    and "\<exists>m c. m_market s = Some m
          \<and> discountCurve m (code (p_currency (irParametrizations s ! i))) (cfg s) = Inr c
          \<and> irDiscountCurves s' = (irDiscountCurves s)[i := c]"
  using assms
  by (auto simp: stage_defs ctx_def built_def Let_def split: option.splits sum.splits)

lemma relink_loop:
  assumes "relinkDiscountCurves cfg s = (None, s')"
    and cfg: "\<And>a b. ctx a = ctx b \<Longrightarrow> cfg a = cfg b"
  shows "ctx s' = ctx s \<and> built s' = built s \<and> m_model s' = m_model s
    \<and> trace s' = trace s @ map (\<lambda>i. LinkTo i (cfg s)) [0..<length (irParametrizations s)]
    \<and> length (irDiscountCurves s') = length (irDiscountCurves s)
    \<and> (length (irDiscountCurves s) = length (irParametrizations s) \<longrightarrow> linkedTo (cfg s) s')
    \<and> (linkedTo (cfg s) s \<longrightarrow> irDiscountCurves s' = irDiscountCurves s)"
proof -
  let ?n = "\<lambda>s. length (irParametrizations s)"
  let ?I = "\<lambda>i s1. ctx s1 = ctx s \<and> built s1 = built s \<and> m_model s1 = m_model s
    \<and> trace s1 = trace s @ map (\<lambda>i. LinkTo i (cfg s)) [0..<i]
    \<and> length (irDiscountCurves s1) = length (irDiscountCurves s)
    \<and> (length (irDiscountCurves s) = length (irParametrizations s) \<longrightarrow>
         (\<forall>j<i. \<exists>m. m_market s = Some m
            \<and> discountCurve m (code (p_currency (irParametrizations s ! j))) (cfg s)
                = Inr (irDiscountCurves s1 ! j)))
    \<and> (linkedTo (cfg s) s \<longrightarrow> irDiscountCurves s1 = irDiscountCurves s)"
  have loop: "forLoop ?n (relinkDiscountCurve cfg) s = (None, s')"
    using assms(1) by (simp add: relinkDiscountCurves_def)
  have "?I (?n s) s'"
  proof (rule forLoop_invariant[OF loop, where I="?I"])
    show "?I 0 s" by simp
  next
    fix i s1 s2
    assume i: "i < ?n s" and I: "?I i s1" and b: "relinkDiscountCurve cfg i s1 = (None, s2)"
    note st = relink_step[OF b]
    have c: "cfg s1 = cfg s" "m_market s1 = m_market s" "irParametrizations s1 = irParametrizations s"
      using I cfg[of s1 s] by (simp_all add: ctx_def built_def)
    from st(6) obtain m c where m: "m_market s = Some m"
      and dc: "discountCurve m (code (p_currency (irParametrizations s ! i))) (cfg s) = Inr c"
      and upd: "irDiscountCurves s2 = (irDiscountCurves s1)[i := c]"
      using c by auto
    have 1: "length (irDiscountCurves s) = length (irParametrizations s) \<longrightarrow>
         (\<forall>j<Suc i. \<exists>m. m_market s = Some m
            \<and> discountCurve m (code (p_currency (irParametrizations s ! j))) (cfg s)
                = Inr (irDiscountCurves s2 ! j))"
    proof (intro impI allI)
      fix j
      assume len: "length (irDiscountCurves s) = length (irParametrizations s)" and j: "j < Suc i"
      show "\<exists>m. m_market s = Some m
            \<and> discountCurve m (code (p_currency (irParametrizations s ! j))) (cfg s)
                = Inr (irDiscountCurves s2 ! j)"
      proof (cases "j = i")
        case True
        then show ?thesis using m dc upd I i len by simp
      next
        case False
        then have "j < i" using j by simp
        then show ?thesis using I len upd False by simp
      qed
    qed
    have 2: "linkedTo (cfg s) s \<longrightarrow> irDiscountCurves s2 = irDiscountCurves s"
    proof
      assume l: "linkedTo (cfg s) s"
      then have "Inr (irDiscountCurves s ! i) = (Inr c :: string + Curve)"
        using i m dc by (auto simp: linkedTo_def)
      then have "irDiscountCurves s ! i = c" by simp
      then have "(irDiscountCurves s)[i := c] = irDiscountCurves s" by (metis list_update_id)
      then show "irDiscountCurves s2 = irDiscountCurves s" using upd I l by simp
    qed
    show "?I (Suc i) s2" using I st(1-5) c 1 2 by simp
  qed
  then have I: "?I (?n s) s'" .
  have "length (irDiscountCurves s) = length (irParametrizations s) \<longrightarrow> linkedTo (cfg s) s'"
    using I by (simp add: linkedTo_def ctx_def built_def)
  then show ?thesis using I by simp
qed

lemma calibrateFx_step:
  assumes "calibrateFx w i s = (None, s')"
  shows "ctx s' = ctx s" and "built s' = built s" and "irDiscountCurves s' = irDiscountCurves s"
    and "trace s' = trace s @ fxEvents (fxConfigs (m_config s) ! i) i"
  using assms
  by (auto simp: stage_defs fxEvents_def ctx_def built_def Let_def
      split: option.splits sum.splits if_splits)

lemma calibrateEq_step:
  assumes "calibrateEq w i s = (None, s')"
  shows "ctx s' = ctx s" and "built s' = built s" and "irDiscountCurves s' = irDiscountCurves s"
    and "trace s' = trace s @ eqEvents (eqConfigs (m_config s) ! i) i"
  using assms
  by (auto simp: stage_defs eqEvents_def ctx_def built_def Let_def
      split: option.splits sum.splits if_splits)

lemma calibrateInf_step:
  assumes "calibrateInf w i s = (None, s')"
  shows "ctx s' = ctx s" and "built s' = built s" and "irDiscountCurves s' = irDiscountCurves s"
    and "trace s' = trace s @ infEvents (infConfigs (m_config s) ! i) i"
  using assms
  by (auto simp: stage_defs infEvents_def ctx_def built_def Let_def
      split: option.splits sum.splits if_splits)

lemma calibrate_loop:
  assumes "forLoop n body s = (None, s')"
    and "\<And>i s1 s2. body i s1 = (None, s2) \<Longrightarrow> ctx s2 = ctx s1 \<and> built s2 = built s1
          \<and> irDiscountCurves s2 = irDiscountCurves s1 \<and> trace s2 = trace s1 @ ev (m_config s1) i"
  shows "ctx s' = ctx s \<and> built s' = built s \<and> irDiscountCurves s' = irDiscountCurves s
    \<and> trace s' = trace s @ concat (map (ev (m_config s)) [0..<n s])"
proof -
  let ?I = "\<lambda>i s1. ctx s1 = ctx s \<and> built s1 = built s \<and> irDiscountCurves s1 = irDiscountCurves s
    \<and> trace s1 = trace s @ concat (map (ev (m_config s)) [0..<i])"
  have "?I (n s) s'"
  proof (rule forLoop_invariant[OF assms(1), where I="?I"])
    show "?I 0 s" by simp
  next
    fix i s1 s2
    assume "i < n s" and I: "?I i s1" and b: "body i s1 = (None, s2)"
    have c: "m_config s1 = m_config s" using I by (simp add: ctx_def)
    show "?I (Suc i) s2" using I assms(2)[OF b] c by simp
  qed
  then show ?thesis by simp
qed

lemma modelUpdate_step:
  assumes "modelUpdate s = (None, s')"
  shows "ctx s' = ctx s" and "built s' = built s" and "irDiscountCurves s' = irDiscountCurves s"
    and "trace s' = trace s @ [Update]"
  using assms by (auto simp: stage_defs ctx_def built_def split: option.splits)

lemma cascade_success:
  assumes "sequence (cascade w) s = (None, s')"
    and len: "length (irParametrizations s) = length (irConfigs (m_config s))"
      "length (irBuilder s) = length (irConfigs (m_config s))"
      "length (irDiscountCurves s) = length (irConfigs (m_config s))"
      "length (fxParametrizations s) = length (fxConfigs (m_config s))"
      "length (eqParametrizations s) = length (eqConfigs (m_config s))"
      "length (infParametrizations s) = length (infConfigs (m_config s))"
  shows "ctx s' = ctx s \<and> built s' = built s
    \<and> trace s' = trace s
       @ map IrError [0..<length (irConfigs (m_config s))]
       @ map (\<lambda>i. LinkTo i (m_configurationFxCalibration s)) [0..<length (irConfigs (m_config s))]
       @ concat (map (\<lambda>i. fxEvents (fxConfigs (m_config s) ! i) i) [0..<length (fxConfigs (m_config s))])
       @ map (\<lambda>i. LinkTo i (m_configurationEqCalibration s)) [0..<length (irConfigs (m_config s))]
       @ concat (map (\<lambda>i. eqEvents (eqConfigs (m_config s) ! i) i) [0..<length (eqConfigs (m_config s))])
       @ map (\<lambda>i. LinkTo i (m_configurationFinalModel s)) [0..<length (irConfigs (m_config s))]
       @ concat (map (\<lambda>i. infEvents (infConfigs (m_config s) ! i) i) [0..<length (infConfigs (m_config s))])
       @ map (\<lambda>i. LinkTo i (m_configurationFinalModel s)) [0..<length (irConfigs (m_config s))]
       @ [Update]
    \<and> (\<exists>s7 s8. sequence (butlast (butlast (cascade w))) s = (None, s7)
          \<and> relinkDiscountCurves m_configurationFinalModel s7 = (None, s8)
          \<and> irDiscountCurves s8 = irDiscountCurves s7
          \<and> modelUpdate s8 = (None, s'))"
proof -
  from assms(1) obtain s1 s2 s3 s4 s5 s6 s7 s8 where
    st: "forLoop (\<lambda>s. length (irBuilder s)) collectIrError s = (None, s1)"
      "relinkDiscountCurves m_configurationFxCalibration s1 = (None, s2)"
      "forLoop (\<lambda>s. length (fxParametrizations s)) (calibrateFx w) s2 = (None, s3)"
      "relinkDiscountCurves m_configurationEqCalibration s3 = (None, s4)"
      "forLoop (\<lambda>s. length (eqParametrizations s)) (calibrateEq w) s4 = (None, s5)"
      "relinkDiscountCurves m_configurationFinalModel s5 = (None, s6)"
      "forLoop (\<lambda>s. length (infParametrizations s)) (calibrateInf w) s6 = (None, s7)"
      "relinkDiscountCurves m_configurationFinalModel s7 = (None, s8)"
      "modelUpdate s8 = (None, s')"
    unfolding cascade_def sequence_None_Cons by auto
  note l1 = collectIrError_loop[OF st(1)]
  have l2: "ctx s2 = ctx s1 \<and> built s2 = built s1
    \<and> trace s2 = trace s1 @ map (\<lambda>i. LinkTo i (m_configurationFxCalibration s1)) [0..<length (irParametrizations s1)]
    \<and> length (irDiscountCurves s2) = length (irDiscountCurves s1)"
    using relink_loop[OF st(2)] by (simp add: ctx_def)
  have l3: "ctx s3 = ctx s2 \<and> built s3 = built s2 \<and> irDiscountCurves s3 = irDiscountCurves s2
    \<and> trace s3 = trace s2 @ concat (map (\<lambda>i. fxEvents (fxConfigs (m_config s2) ! i) i) [0..<length (fxParametrizations s2)])"
    using calibrate_loop[OF st(3), where ev="\<lambda>c i. fxEvents (fxConfigs c ! i) i"] calibrateFx_step
    by simp
  have l4: "ctx s4 = ctx s3 \<and> built s4 = built s3
    \<and> trace s4 = trace s3 @ map (\<lambda>i. LinkTo i (m_configurationEqCalibration s3)) [0..<length (irParametrizations s3)]
    \<and> length (irDiscountCurves s4) = length (irDiscountCurves s3)"
    using relink_loop[OF st(4)] by (simp add: ctx_def)
  have l5: "ctx s5 = ctx s4 \<and> built s5 = built s4 \<and> irDiscountCurves s5 = irDiscountCurves s4
    \<and> trace s5 = trace s4 @ concat (map (\<lambda>i. eqEvents (eqConfigs (m_config s4) ! i) i) [0..<length (eqParametrizations s4)])"
    using calibrate_loop[OF st(5), where ev="\<lambda>c i. eqEvents (eqConfigs c ! i) i"] calibrateEq_step
    by simp
  have l6: "ctx s6 = ctx s5 \<and> built s6 = built s5
    \<and> trace s6 = trace s5 @ map (\<lambda>i. LinkTo i (m_configurationFinalModel s5)) [0..<length (irParametrizations s5)]
    \<and> length (irDiscountCurves s6) = length (irDiscountCurves s5)
    \<and> (length (irDiscountCurves s5) = length (irParametrizations s5)
         \<longrightarrow> linkedTo (m_configurationFinalModel s5) s6)"
    using relink_loop[OF st(6)] by (simp add: ctx_def)
  have l7: "ctx s7 = ctx s6 \<and> built s7 = built s6 \<and> irDiscountCurves s7 = irDiscountCurves s6
    \<and> trace s7 = trace s6 @ concat (map (\<lambda>i. infEvents (infConfigs (m_config s6) ! i) i) [0..<length (infParametrizations s6)])"
    using calibrate_loop[OF st(7), where ev="\<lambda>c i. infEvents (infConfigs c ! i) i"] calibrateInf_step
    by simp
  have l8: "ctx s8 = ctx s7 \<and> built s8 = built s7
    \<and> trace s8 = trace s7 @ map (\<lambda>i. LinkTo i (m_configurationFinalModel s7)) [0..<length (irParametrizations s7)]
    \<and> (linkedTo (m_configurationFinalModel s7) s7 \<longrightarrow> irDiscountCurves s8 = irDiscountCurves s7)"
    using relink_loop[OF st(8)] by (simp add: ctx_def)
  note l9 = modelUpdate_step[OF st(9)]
  have c: "ctx s1 = ctx s" "ctx s2 = ctx s" "ctx s3 = ctx s" "ctx s4 = ctx s" "ctx s5 = ctx s"
    "ctx s6 = ctx s" "ctx s7 = ctx s" "ctx s8 = ctx s" "ctx s' = ctx s"
    using l1 l2 l3 l4 l5 l6 l7 l8 l9 by simp_all
  have b: "built s1 = built s" "built s2 = built s" "built s3 = built s" "built s4 = built s"
    "built s5 = built s" "built s6 = built s" "built s7 = built s" "built s8 = built s"
    "built s' = built s"
    using l1 l2 l3 l4 l5 l6 l7 l8 l9 by simp_all
  have d: "length (irDiscountCurves s5) = length (irParametrizations s5)"
    using l1 l2 l3 l4 l5 b(5) len by (simp add: built_def)
  have "linkedTo (m_configurationFinalModel s5) s6" using l6 d by simp
  then have "linkedTo (m_configurationFinalModel s7) s7"
    using l7 b(6,7) c(5,6,7) by (simp add: linkedTo_def built_def ctx_def)
  then have idem: "irDiscountCurves s8 = irDiscountCurves s7" using l8 by simp
  have pre: "sequence (butlast (butlast (cascade w))) s = (None, s7)"
    using st(1-7) by (simp add: cascade_def)
  have tr: "trace s' = trace s
       @ map IrError [0..<length (irConfigs (m_config s))]
       @ map (\<lambda>i. LinkTo i (m_configurationFxCalibration s)) [0..<length (irConfigs (m_config s))]
       @ concat (map (\<lambda>i. fxEvents (fxConfigs (m_config s) ! i) i) [0..<length (fxConfigs (m_config s))])
       @ map (\<lambda>i. LinkTo i (m_configurationEqCalibration s)) [0..<length (irConfigs (m_config s))]
       @ concat (map (\<lambda>i. eqEvents (eqConfigs (m_config s) ! i) i) [0..<length (eqConfigs (m_config s))])
       @ map (\<lambda>i. LinkTo i (m_configurationFinalModel s)) [0..<length (irConfigs (m_config s))]
       @ concat (map (\<lambda>i. infEvents (infConfigs (m_config s) ! i) i) [0..<length (infConfigs (m_config s))])
       @ map (\<lambda>i. LinkTo i (m_configurationFinalModel s)) [0..<length (irConfigs (m_config s))]
       @ [Update]"
    using l1 l2 l3 l4 l5 l6 l7 l8 l9(4) b c len by (simp add: built_def ctx_def)
  show ?thesis using c(9) b(9) tr pre st(8,9) idem by blast
qed

lemma buildIr_built_step:
  assumes "buildIrParametrization w i s = (None, s')"
  shows "\<exists>m b. m_market s = Some m
      \<and> newLgmBuilder w m (irConfigs (m_config s) ! i) (m_configurationLgmCalibration s)
          (bootstrapTolerance (m_config s)) = Inr b
      \<and> irBuilder s' = irBuilder s @ [b]
      \<and> irParametrizations s' = irParametrizations s @ [lgm_parametrization b]"
    and "m_subBuilders s' = m_subBuilders s @ [newSubBuilder IR i]"
    and "vectors s' = vectors s" and "crNames s' = crNames s"
    and "eqNames s' = eqNames s" and "infIndices s' = infIndices s"
  using assms
  by (auto simp: stage_defs vectors_def Let_def split: option.splits sum.splits)

lemma buildFx_built_step:
  assumes "buildFxParametrization w i s = (None, s')"
  shows "\<exists>m b. m_market s = Some m
      \<and> newFxBsBuilder w m (fxConfigs (m_config s) ! i) (m_configurationFxCalibration s) = Inr b
      \<and> fxParametrizations s' = fxParametrizations s @ [parametrization b]"
    and "m_subBuilders s' = m_subBuilders s @ [newSubBuilder FX i]"
    and "vectors s' = vectors s" and "crNames s' = crNames s"
    and "eqNames s' = eqNames s" and "infIndices s' = infIndices s"
  using assms
  by (auto simp: stage_defs vectors_def Let_def split: option.splits sum.splits if_splits)

lemma buildEq_built_step:
  assumes "buildEqParametrization w i s = (None, s')"
  shows "\<exists>m b. m_market s = Some m
      \<and> newEqBsBuilder w m (eqConfigs (m_config s) ! i) (domesticCcy s)
          (m_configurationEqCalibration s) = Inr b
      \<and> eqParametrizations s' = eqParametrizations s @ [parametrization b]"
    and "m_subBuilders s' = m_subBuilders s @ [newSubBuilder EQ i]"
    and "vectors s' = vectors s" and "crNames s' = crNames s"
    and "eqNames s' = eqNames s @ [eq_eqName (eqConfigs (m_config s) ! i)]"
    and "infIndices s' = infIndices s"
  using assms
  by (auto simp: stage_defs vectors_def Let_def split: option.splits sum.splits if_splits)

lemma buildInf_built_step:
  assumes "buildInfParametrization w i s = (None, s')"
  shows "\<exists>m b. m_market s = Some m
      \<and> newInfDkBuilder w m (infConfigs (m_config s) ! i) (m_configurationInfCalibration s) = Inr b
      \<and> infParametrizations s' = infParametrizations s @ [parametrization b]"
    and "m_subBuilders s' = m_subBuilders s @ [newSubBuilder INF_type i]"
    and "vectors s' = vectors s" and "crNames s' = crNames s"
    and "eqNames s' = eqNames s"
    and "infIndices s' = infIndices s @ [inf_infIndex (infConfigs (m_config s) ! i)]"
  using assms
  by (auto simp: stage_defs vectors_def Let_def split: option.splits sum.splits if_splits)

lemma buildIr_built_loop:
  assumes "forLoop (\<lambda>s. length (irConfigs (m_config s))) (buildIrParametrization w) s = (None, s')"
    and "irBuilder s = []" and "irParametrizations s = []" and "m_market s = Some m"
  shows "map Inr (irBuilder s')
      = map (\<lambda>ir. newLgmBuilder w m ir (m_configurationLgmCalibration s)
               (bootstrapTolerance (m_config s))) (irConfigs (m_config s))
    \<and> irParametrizations s' = map lgm_parametrization (irBuilder s')
    \<and> m_subBuilders s' = m_subBuilders s @ map (newSubBuilder IR) [0..<length (irConfigs (m_config s))]
    \<and> vectors s' = vectors s \<and> crNames s' = crNames s
    \<and> eqNames s' = eqNames s \<and> infIndices s' = infIndices s"
proof -
  let ?n = "\<lambda>s. length (irConfigs (m_config s))"
  let ?f = "\<lambda>ir. newLgmBuilder w m ir (m_configurationLgmCalibration s) (bootstrapTolerance (m_config s))"
  let ?I = "\<lambda>i s1. ctx s1 = ctx s
    \<and> map Inr (irBuilder s1) = map ?f (take i (irConfigs (m_config s)))
    \<and> irParametrizations s1 = map lgm_parametrization (irBuilder s1)
    \<and> m_subBuilders s1 = m_subBuilders s @ map (newSubBuilder IR) [0..<i]
    \<and> vectors s1 = vectors s \<and> crNames s1 = crNames s
    \<and> eqNames s1 = eqNames s \<and> infIndices s1 = infIndices s"
  have "?I (?n s) s'"
  proof (rule forLoop_invariant[OF assms(1), where I="?I"])
    show "?I 0 s" using assms(2,3) by simp
  next
    fix i s1 s2
    assume i: "i < ?n s" and I: "?I i s1" and b: "buildIrParametrization w i s1 = (None, s2)"
    have c: "m_config s1 = m_config s" "m_market s1 = Some m"
      "m_configurationLgmCalibration s1 = m_configurationLgmCalibration s"
      using I assms(4) by (simp_all add: ctx_def)
    from buildIr_built_step(1)[OF b] obtain x where
      x: "?f (irConfigs (m_config s) ! i) = Inr x" "irBuilder s2 = irBuilder s1 @ [x]"
        "irParametrizations s2 = irParametrizations s1 @ [lgm_parametrization x]"
      using c by auto
    show "?I (Suc i) s2"
      using I i x buildIr_step(1)[OF b] buildIr_built_step(2-6)[OF b]
      by (simp add: take_Suc_conv_app_nth)
  qed
  then show ?thesis by simp
qed

lemma buildFx_built_loop:
  assumes "forLoop (\<lambda>s. length (fxConfigs (m_config s))) (buildFxParametrization w) s = (None, s')"
    and "fxParametrizations s = []" and "m_market s = Some m"
  shows "map Inr (fxParametrizations s')
      = map (\<lambda>fx. map_sum id parametrization
               (newFxBsBuilder w m fx (m_configurationFxCalibration s))) (fxConfigs (m_config s))
    \<and> m_subBuilders s' = m_subBuilders s @ map (newSubBuilder FX) [0..<length (fxConfigs (m_config s))]
    \<and> vectors s' = vectors s \<and> crNames s' = crNames s
    \<and> eqNames s' = eqNames s \<and> infIndices s' = infIndices s"
proof -
  let ?n = "\<lambda>s. length (fxConfigs (m_config s))"
  let ?f = "\<lambda>fx. map_sum id parametrization (newFxBsBuilder w m fx (m_configurationFxCalibration s))"
  let ?I = "\<lambda>i s1. ctx s1 = ctx s
    \<and> map Inr (fxParametrizations s1) = map ?f (take i (fxConfigs (m_config s)))
    \<and> m_subBuilders s1 = m_subBuilders s @ map (newSubBuilder FX) [0..<i]
    \<and> vectors s1 = vectors s \<and> crNames s1 = crNames s
    \<and> eqNames s1 = eqNames s \<and> infIndices s1 = infIndices s"
  have "?I (?n s) s'"
  proof (rule forLoop_invariant[OF assms(1), where I="?I"])
    show "?I 0 s" using assms(2) by simp
  next
    fix i s1 s2
    assume i: "i < ?n s" and I: "?I i s1" and b: "buildFxParametrization w i s1 = (None, s2)"
    have c: "m_config s1 = m_config s" "m_market s1 = Some m"
      "m_configurationFxCalibration s1 = m_configurationFxCalibration s"
      using I assms(3) by (simp_all add: ctx_def)
    from buildFx_built_step(1)[OF b] obtain x where
      x: "newFxBsBuilder w m (fxConfigs (m_config s) ! i) (m_configurationFxCalibration s) = Inr x"
        "fxParametrizations s2 = fxParametrizations s1 @ [parametrization x]"
      using c by auto
    show "?I (Suc i) s2"
      using I i x buildFx_step(1)[OF b] buildFx_built_step(2-6)[OF b]
      by (simp add: take_Suc_conv_app_nth)
  qed
  then show ?thesis by simp
qed

lemma buildEq_built_loop:
  assumes "forLoop (\<lambda>s. length (eqConfigs (m_config s))) (buildEqParametrization w) s = (None, s')"
    and "eqParametrizations s = []" and "eqNames s = []" and "m_market s = Some m"
  shows "map Inr (eqParametrizations s')
      = map (\<lambda>eq. map_sum id parametrization
               (newEqBsBuilder w m eq (domesticCcy s) (m_configurationEqCalibration s)))
          (eqConfigs (m_config s))
    \<and> m_subBuilders s' = m_subBuilders s @ map (newSubBuilder EQ) [0..<length (eqConfigs (m_config s))]
    \<and> vectors s' = vectors s \<and> crNames s' = crNames s
    \<and> eqNames s' = map eq_eqName (eqConfigs (m_config s)) \<and> infIndices s' = infIndices s"
proof -
  let ?n = "\<lambda>s. length (eqConfigs (m_config s))"
  let ?f = "\<lambda>eq. map_sum id parametrization
      (newEqBsBuilder w m eq (domesticCcy s) (m_configurationEqCalibration s))"
  let ?I = "\<lambda>i s1. ctx s1 = ctx s \<and> domesticCcy s1 = domesticCcy s
    \<and> map Inr (eqParametrizations s1) = map ?f (take i (eqConfigs (m_config s)))
    \<and> m_subBuilders s1 = m_subBuilders s @ map (newSubBuilder EQ) [0..<i]
    \<and> vectors s1 = vectors s \<and> crNames s1 = crNames s
    \<and> eqNames s1 = map eq_eqName (take i (eqConfigs (m_config s))) \<and> infIndices s1 = infIndices s"
  have "?I (?n s) s'"
  proof (rule forLoop_invariant[OF assms(1), where I="?I"])
    show "?I 0 s" using assms(2,3) by simp
  next
    fix i s1 s2
    assume i: "i < ?n s" and I: "?I i s1" and b: "buildEqParametrization w i s1 = (None, s2)"
    have c: "m_config s1 = m_config s" "m_market s1 = Some m"
      "m_configurationEqCalibration s1 = m_configurationEqCalibration s"
      "domesticCcy s1 = domesticCcy s"
      using I assms(4) by (simp_all add: ctx_def)
    from buildEq_built_step(1)[OF b] obtain x where
      x: "newEqBsBuilder w m (eqConfigs (m_config s) ! i) (domesticCcy s)
            (m_configurationEqCalibration s) = Inr x"
        "eqParametrizations s2 = eqParametrizations s1 @ [parametrization x]"
      using c by auto
    have d: "domesticCcy s2 = domesticCcy s"
      using buildEq_step(4)[OF b] c(4) by (simp add: fxLocals_def)
    show "?I (Suc i) s2"
      using I i x d c(1) buildEq_step(1)[OF b] buildEq_built_step(2-6)[OF b]
      by (simp add: take_Suc_conv_app_nth)
  qed
  then show ?thesis by simp
qed

lemma buildInf_built_loop:
  assumes "forLoop (\<lambda>s. length (infConfigs (m_config s))) (buildInfParametrization w) s = (None, s')"
    and "infParametrizations s = []" and "infIndices s = []" and "m_market s = Some m"
  shows "map Inr (infParametrizations s')
      = map (\<lambda>infl. map_sum id parametrization
               (newInfDkBuilder w m infl (m_configurationInfCalibration s)))
          (infConfigs (m_config s))
    \<and> m_subBuilders s' = m_subBuilders s @ map (newSubBuilder INF_type) [0..<length (infConfigs (m_config s))]
    \<and> vectors s' = vectors s \<and> crNames s' = crNames s
    \<and> eqNames s' = eqNames s \<and> infIndices s' = map inf_infIndex (infConfigs (m_config s))"
proof -
  let ?n = "\<lambda>s. length (infConfigs (m_config s))"
  let ?f = "\<lambda>infl. map_sum id parametrization
      (newInfDkBuilder w m infl (m_configurationInfCalibration s))"
  let ?I = "\<lambda>i s1. ctx s1 = ctx s
    \<and> map Inr (infParametrizations s1) = map ?f (take i (infConfigs (m_config s)))
    \<and> m_subBuilders s1 = m_subBuilders s @ map (newSubBuilder INF_type) [0..<i]
    \<and> vectors s1 = vectors s \<and> crNames s1 = crNames s
    \<and> eqNames s1 = eqNames s \<and> infIndices s1 = map inf_infIndex (take i (infConfigs (m_config s)))"
  have "?I (?n s) s'"
  proof (rule forLoop_invariant[OF assms(1), where I="?I"])
    show "?I 0 s" using assms(2,3) by simp
  next
    fix i s1 s2
    assume i: "i < ?n s" and I: "?I i s1" and b: "buildInfParametrization w i s1 = (None, s2)"
    have c: "m_config s1 = m_config s" "m_market s1 = Some m"
      "m_configurationInfCalibration s1 = m_configurationInfCalibration s"
      using I assms(4) by (simp_all add: ctx_def)
    from buildInf_built_step(1)[OF b] obtain x where
      x: "newInfDkBuilder w m (infConfigs (m_config s) ! i) (m_configurationInfCalibration s) = Inr x"
        "infParametrizations s2 = infParametrizations s1 @ [parametrization x]"
      using c by auto
    show "?I (Suc i) s2"
      using I i x c(1) buildInf_step(1)[OF b] buildInf_built_step(2-6)[OF b]
      by (simp add: take_Suc_conv_app_nth)
  qed
  then show ?thesis by simp
qed

lemma construction_built:
  assumes "sequence (construction w) s = (None, s')"
  shows "subModelsBuilt w s'"
    and "\<exists>m. jointModelOf w s' = Inr m \<and> m_model s' = Some m"
    and "length (m_swaptionCalibrationErrors s') = length (irConfigs (m_config s))"
    and "length (m_fxOptionCalibrationErrors s') = length (fxConfigs (m_config s))"
    and "length (m_eqOptionCalibrationErrors s') = length (eqConfigs (m_config s))"
    and "length (m_infCapFloorCalibrationErrors s') = length (infConfigs (m_config s))"
proof -
  let ?v = "\<lambda>s. (irBuilder s, irParametrizations s, fxParametrizations s, eqParametrizations s,
    infParametrizations s, m_subBuilders s, vectors s, crNames s, eqNames s, infIndices s,
    currencies s)"
  from assms obtain s13 s14 s15 where st2: "sequence (subModels w) s = (None, s13)"
    "checkParametrizationSizes s13 = (None, s14)" "buildCorrelationMatrix w s14 = (None, s15)"
    "buildCrossAssetModel w s15 = (None, s')"
    by (auto simp: construction_def sequence_append split: prod.splits option.splits)
  from st2(1) obtain s1 s2 s3 s4 s5 s6 s7 s8 s9 s10 s11 s12 where
    st: "s1 = called BuildModel s" "checkMarket s1 = (None, s2)" "checkIrConfigs s2 = (None, s3)"
      "checkFxConfigs s3 = (None, s4)" "resizeMembers s4 = (None, s5)" "declareLocals s5 = (None, s6)"
      "forLoop (\<lambda>s. length (irConfigs (m_config s))) (buildIrParametrization w) s6 = (None, s7)"
      "checkIrParametrizations s7 = (None, s8)" "setDomesticCcy s8 = (None, s9)"
      "forLoop (\<lambda>s. length (fxConfigs (m_config s))) (buildFxParametrization w) s9 = (None, s10)"
      "forLoop (\<lambda>s. length (eqConfigs (m_config s))) (buildEqParametrization w) s10 = (None, s11)"
      "forLoop (\<lambda>s. length (infConfigs (m_config s))) (buildInfParametrization w) s11 = (None, s12)"
      "collectParametrizations s12 = (None, s13)"
    unfolding subModels_def sequence_None_Cons by auto
  note ir = buildIr_loop[OF st(7)] and fx = buildFx_loop[OF st(10)]
    and eq = buildEq_loop[OF st(11)] and inf = buildInf_loop[OF st(12)]
  have a: "s2 = s1" "s3 = s2" "s4 = s3"
    using st(1-4) by (auto simp: stage_defs split: if_splits)
  obtain m where m: "m_market s = Some m"
    using st(1,2) by (auto simp: stage_defs split: if_splits)
  have b: "ctx s6 = ctx s" "irBuilder s6 = []" "irParametrizations s6 = []"
    "fxParametrizations s6 = []" "eqParametrizations s6 = []" "infParametrizations s6 = []"
    "currencies s6 = []" "crNames s6 = []" "eqNames s6 = []" "infIndices s6 = []"
    "m_subBuilders s6 = []"
    "length (m_swaptionCalibrationErrors s6) = length (irConfigs (m_config s))"
    "length (m_fxOptionCalibrationErrors s6) = length (fxConfigs (m_config s))"
    "length (m_eqOptionCalibrationErrors s6) = length (eqConfigs (m_config s))"
    "length (m_infCapFloorCalibrationErrors s6) = length (infConfigs (m_config s))"
    using st(1,5,6) a by (auto simp: stage_defs ctx_def Let_def resize_def)
  have c: "ctx s9 = ctx s7" "?v s9 = ?v s7" "domesticCcy s9 = p_currency (irParametrizations s9 ! 0)"
    using st(8,9) by (auto simp: stage_defs ctx_def vectors_def split: if_splits)
  have d: "ctx s15 = ctx s12" "?v s15 = ?v s12" "domesticCcy s15 = domesticCcy s12"
    "\<exists>cm. correlationMatrix w (correlations (m_config s12)) (currencies s12) (infIndices s12)
        (crNames s12) (eqNames s12) = Inr cm \<and> corrMatrix s15 = cm"
    "parametrizations s15 = irParametrizations s12 @ fxParametrizations s12
        @ eqParametrizations s12 @ infParametrizations s12"
    using st(13) st2(2,3)
    by (auto simp: stage_defs ctx_def vectors_def split: if_splits sum.splits)
  have e: "ctx s' = ctx s15" "?v s' = ?v s15" "domesticCcy s' = domesticCcy s15"
    "\<exists>jm. newCrossAssetModel w (parametrizations s15) (corrMatrix s15) = Inr jm
        \<and> m_model s' = Some jm"
    using st2(4)
    by (auto simp: stage_defs ctx_def vectors_def split: if_splits sum.splits)
  have x6: "ctx s6 = ctx s" by (rule b(1))
  have x7: "ctx s7 = ctx s" using ir x6 by simp
  have x9: "ctx s9 = ctx s" using c(1) x7 by simp
  have x10: "ctx s10 = ctx s" using fx x9 by simp
  have x11: "ctx s11 = ctx s" using eq x10 by simp
  have x12: "ctx s12 = ctx s" using inf x11 by simp
  have x': "ctx s' = ctx s" using e(1) d(1) x12 by simp
  have m6: "m_market s6 = Some m" using x6 m by (simp add: ctx_def)
  have m9: "m_market s9 = Some m" using x9 m by (simp add: ctx_def)
  have m10: "m_market s10 = Some m" using x10 m by (simp add: ctx_def)
  have m11: "m_market s11 = Some m" using x11 m by (simp add: ctx_def)
  note irb = buildIr_built_loop[OF st(7) b(2,3) m6]
  have f9: "fxParametrizations s9 = []" "eqParametrizations s9 = []" "infParametrizations s9 = []"
    using c(2) ir b(4-6) by simp_all
  note fxb = buildFx_built_loop[OF st(10) f9(1) m9]
  have n9: "eqNames s9 = []" "infIndices s9 = []" "crNames s9 = []"
    using c(2) irb b(8-10) by simp_all
  have f10: "eqParametrizations s10 = []" "infParametrizations s10 = []"
    "eqNames s10 = []" "infIndices s10 = []" "crNames s10 = []"
    using fx fxb f9 n9 by simp_all
  note eqb = buildEq_built_loop[OF st(11) f10(1,3) m10]
  have f11: "infParametrizations s11 = []" "infIndices s11 = []" "crNames s11 = []"
    using eq eqb f10 by simp_all
  note infb = buildInf_built_loop[OF st(12) f11(1,2) m11]
  have k: "m_config s6 = m_config s" "m_config s9 = m_config s" "m_config s10 = m_config s"
    "m_config s11 = m_config s" "m_config s12 = m_config s" "m_config s' = m_config s"
    "m_configurationLgmCalibration s6 = m_configurationLgmCalibration s'"
    "m_configurationFxCalibration s9 = m_configurationFxCalibration s'"
    "m_configurationEqCalibration s10 = m_configurationEqCalibration s'"
    "m_configurationInfCalibration s11 = m_configurationInfCalibration s'"
    "m_market s' = Some m"
    using x6 x9 x10 x11 x12 x' m by (simp_all add: ctx_def)
  have irB: "irBuilder s' = irBuilder s7" "irParametrizations s' = irParametrizations s7"
    "currencies s' = currencies s7"
    using e(2) d(2) inf eq fx c(2) by (simp_all add: irLocals_def)
  have fxP: "fxParametrizations s' = fxParametrizations s10"
    using e(2) d(2) inf eq by (simp_all add: fxLocals_def)
  have eqP: "eqParametrizations s' = eqParametrizations s11" "eqNames s' = eqNames s11"
    using e(2) d(2) inf infb by simp_all
  have infP: "infParametrizations s' = infParametrizations s12" "infIndices s' = infIndices s12"
    using e(2) d(2) by simp_all
  have dom: "domesticCcy s10 = p_currency (irParametrizations s' ! 0)"
    using fx c(3) c(2) irB by simp
  have sub: "m_subBuilders s' = map (newSubBuilder IR) [0..<length (irConfigs (m_config s))]
              @ map (newSubBuilder FX) [0..<length (fxConfigs (m_config s))]
              @ map (newSubBuilder EQ) [0..<length (eqConfigs (m_config s))]
              @ map (newSubBuilder INF_type) [0..<length (infConfigs (m_config s))]"
    using e(2) d(2) infb eqb fxb c(2) irb b(11) k(1-5) by simp
  show "subModelsBuilt w s'"
    unfolding subModelsBuilt_def k(11) option.case k(6)
    using irb fxb eqb infb irB fxP eqP(1) infP(1) sub dom k(1-5) k(7-10)
    by simp
  have vec: "vectors s' = vectors s6"
    using e(2) d(2) infb eqb fxb c(2) irb by simp
  show "length (m_swaptionCalibrationErrors s') = length (irConfigs (m_config s))"
    "length (m_fxOptionCalibrationErrors s') = length (fxConfigs (m_config s))"
    "length (m_eqOptionCalibrationErrors s') = length (eqConfigs (m_config s))"
    "length (m_infCapFloorCalibrationErrors s') = length (infConfigs (m_config s))"
    using vec b(12-15) by (simp_all add: vectors_def)
  have cur: "currencies s12 = map ir_ccy (irConfigs (m_config s))"
    using inf eq fx c(2) ir b(7) k(1) by (simp add: irLocals_def)
  have nm: "crNames s12 = []" "eqNames s12 = map eq_eqName (eqConfigs (m_config s))"
    "infIndices s12 = map inf_infIndex (infConfigs (m_config s))"
    using infb eqb f11 k(3,4) by simp_all
  have ps: "parametrizations s15 = irParametrizations s' @ fxParametrizations s'
        @ eqParametrizations s' @ infParametrizations s'"
    using d(5) e(2) d(2) by simp
  from d(4) obtain cm where cm: "correlationMatrix w (correlations (m_config s))
      (map ir_ccy (irConfigs (m_config s))) (map inf_infIndex (infConfigs (m_config s))) []
      (map eq_eqName (eqConfigs (m_config s))) = Inr cm" "corrMatrix s15 = cm"
    using cur nm k(5) by auto
  from e(4) obtain jm where jm: "newCrossAssetModel w (parametrizations s15) (corrMatrix s15) = Inr jm"
    "m_model s' = Some jm" by blast
  have "jointModelOf w s' = Inr jm"
    unfolding jointModelOf_def k(6) cm(1) using jm(1) ps cm(2) by simp
  then show "\<exists>m. jointModelOf w s' = Inr m \<and> m_model s' = Some m" using jm(2) by blast
qed

lemma calibrated_simps:
  "calibrated [] m = m"
  "calibrated b (calibrated a m) = calibrated (a @ b) m"
  by (simp_all add: calibrated_def)

lemma keeps_forLoop:
  assumes "\<And>i. preserves (\<lambda>s s'. f s' = f s) (body i)"
  shows "preserves (\<lambda>s s'. f s' = f s) (forLoop n body)"
  by (rule preserves_forLoop) (auto simp: assms)

lemma keeps_sequence:
  assumes "\<And>g. g \<in> set gs \<Longrightarrow> preserves (\<lambda>s s'. f s' = f s) g"
  shows "preserves (\<lambda>s s'. f s' = f s) (sequence gs)"
  by (rule preserves_sequence) (auto simp: assms)

lemma keepsD:
  assumes "preserves (\<lambda>s s'. f s' = f s) g" and "g s = (r, s')"
  shows "f s' = f s"
  using assms by (auto simp: preserves_def dest: spec[of _ s])

lemma cascade_stage_keeps:
  "preserves (\<lambda>s s'. vectors s' = vectors s) (relinkDiscountCurve cfg i)"
  "preserves (\<lambda>s s'. vectors s' = vectors s) modelUpdate"
  "preserves (\<lambda>s s'. m_fxOptionCalibrationErrors s' = m_fxOptionCalibrationErrors s) (collectIrError i)"
  "preserves (\<lambda>s s'. m_eqOptionCalibrationErrors s' = m_eqOptionCalibrationErrors s) (collectIrError i)"
  "preserves (\<lambda>s s'. m_infCapFloorCalibrationErrors s' = m_infCapFloorCalibrationErrors s) (collectIrError i)"
  "preserves (\<lambda>s s'. m_swaptionCalibrationErrors s' = m_swaptionCalibrationErrors s) (calibrateFx w i)"
  "preserves (\<lambda>s s'. m_eqOptionCalibrationErrors s' = m_eqOptionCalibrationErrors s) (calibrateFx w i)"
  "preserves (\<lambda>s s'. m_infCapFloorCalibrationErrors s' = m_infCapFloorCalibrationErrors s) (calibrateFx w i)"
  "preserves (\<lambda>s s'. m_swaptionCalibrationErrors s' = m_swaptionCalibrationErrors s) (calibrateEq w i)"
  "preserves (\<lambda>s s'. m_fxOptionCalibrationErrors s' = m_fxOptionCalibrationErrors s) (calibrateEq w i)"
  "preserves (\<lambda>s s'. m_infCapFloorCalibrationErrors s' = m_infCapFloorCalibrationErrors s) (calibrateEq w i)"
  "preserves (\<lambda>s s'. m_swaptionCalibrationErrors s' = m_swaptionCalibrationErrors s) (calibrateInf w i)"
  "preserves (\<lambda>s s'. m_fxOptionCalibrationErrors s' = m_fxOptionCalibrationErrors s) (calibrateInf w i)"
  "preserves (\<lambda>s s'. m_eqOptionCalibrationErrors s' = m_eqOptionCalibrationErrors s) (calibrateInf w i)"
  by (auto simp: preserves_def stage_defs vectors_def Let_def split: option.splits sum.splits)

lemma relink_keeps:
  "preserves (\<lambda>s s'. m_swaptionCalibrationErrors s' = m_swaptionCalibrationErrors s) (relinkDiscountCurve cfg i)"
  "preserves (\<lambda>s s'. m_fxOptionCalibrationErrors s' = m_fxOptionCalibrationErrors s) (relinkDiscountCurve cfg i)"
  "preserves (\<lambda>s s'. m_eqOptionCalibrationErrors s' = m_eqOptionCalibrationErrors s) (relinkDiscountCurve cfg i)"
  "preserves (\<lambda>s s'. m_infCapFloorCalibrationErrors s' = m_infCapFloorCalibrationErrors s) (relinkDiscountCurve cfg i)"
  "preserves (\<lambda>s s'. m_swaptionCalibrationErrors s' = m_swaptionCalibrationErrors s) modelUpdate"
  "preserves (\<lambda>s s'. m_fxOptionCalibrationErrors s' = m_fxOptionCalibrationErrors s) modelUpdate"
  "preserves (\<lambda>s s'. m_eqOptionCalibrationErrors s' = m_eqOptionCalibrationErrors s) modelUpdate"
  "preserves (\<lambda>s s'. m_infCapFloorCalibrationErrors s' = m_infCapFloorCalibrationErrors s) modelUpdate"
  using cascade_stage_keeps(1)[of cfg i] cascade_stage_keeps(2) by (auto simp: preserves_def vectors_def)

lemma cascade_keeps:
  "g \<in> set (tl (cascade w)) \<Longrightarrow>
     preserves (\<lambda>s s'. m_swaptionCalibrationErrors s' = m_swaptionCalibrationErrors s) g"
  "g \<in> set (drop 3 (cascade w)) \<Longrightarrow>
     preserves (\<lambda>s s'. m_fxOptionCalibrationErrors s' = m_fxOptionCalibrationErrors s) g"
  "g \<in> set (drop 5 (cascade w)) \<Longrightarrow>
     preserves (\<lambda>s s'. m_eqOptionCalibrationErrors s' = m_eqOptionCalibrationErrors s) g"
  "g \<in> set (drop 7 (cascade w)) \<Longrightarrow>
     preserves (\<lambda>s s'. m_infCapFloorCalibrationErrors s' = m_infCapFloorCalibrationErrors s) g"
  by (auto simp: cascade_def relinkDiscountCurves_def
      intro: keeps_forLoop cascade_stage_keeps relink_keeps)

lemma collectIrError_recorded:
  assumes "forLoop (\<lambda>s. length (irBuilder s)) collectIrError s = (None, s')"
    and "length (m_swaptionCalibrationErrors s) = length (irBuilder s)"
  shows "m_swaptionCalibrationErrors s' = map lgm_error (irBuilder s)"
proof -
  let ?I = "\<lambda>i s1. irBuilder s1 = irBuilder s
    \<and> length (m_swaptionCalibrationErrors s1) = length (irBuilder s)
    \<and> (\<forall>j<i. m_swaptionCalibrationErrors s1 ! j = lgm_error (irBuilder s ! j))"
  have "?I (length (irBuilder s)) s'"
  proof (rule forLoop_invariant[OF assms(1), where I="?I"])
    show "?I 0 s" using assms(2) by simp
  next
    fix i s1 s2
    assume i: "i < length (irBuilder s)" and I: "?I i s1" and b: "collectIrError i s1 = (None, s2)"
    have u: "irBuilder s2 = irBuilder s1"
      "m_swaptionCalibrationErrors s2
        = (m_swaptionCalibrationErrors s1)[i := lgm_error (irBuilder s1 ! i)]"
      using b by (auto simp: stage_defs)
    show "?I (Suc i) s2"
      using I i u by (auto simp: less_Suc_eq nth_list_update)
  qed
  then show ?thesis by (auto intro: nth_equalityI)
qed

lemma calibrateFx_effect:
  assumes "calibrateFx w i s = (None, s')"
  shows "\<forall>j. j \<noteq> i \<longrightarrow> m_fxOptionCalibrationErrors s' ! j = m_fxOptionCalibrationErrors s ! j"
    and "fx_calibrationType (fxConfigs (m_config s) ! i) = CalibrationType_Bootstrap
          \<and> \<not> fxSkipped (fxConfigs (m_config s) ! i)
          \<longrightarrow> \<bar>m_fxOptionCalibrationErrors s' ! i\<bar> < bootstrapTolerance (m_config s)"
    and "\<forall>m. m_model s = Some m \<longrightarrow> m_model s' = Some (calibrated (fxCalibrations (m_config s) i) m)"
  using assms
  by (auto simp: stage_defs fxCalibrations_def calibrated_def Let_def
      split: option.splits sum.splits if_splits)

lemma calibrateEq_effect:
  assumes "calibrateEq w i s = (None, s')"
  shows "\<forall>j. j \<noteq> i \<longrightarrow> m_eqOptionCalibrationErrors s' ! j = m_eqOptionCalibrationErrors s ! j"
    and "eq_calibrationType (eqConfigs (m_config s) ! i) = CalibrationType_Bootstrap
          \<and> \<not> eqSkipped (eqConfigs (m_config s) ! i)
          \<longrightarrow> \<bar>m_eqOptionCalibrationErrors s' ! i\<bar> < bootstrapTolerance (m_config s)"
    and "\<forall>m. m_model s = Some m \<longrightarrow> m_model s' = Some (calibrated (eqCalibrations (m_config s) i) m)"
  using assms
  by (auto simp: stage_defs eqCalibrations_def calibrated_def Let_def
      split: option.splits sum.splits if_splits)

lemma calibrateInf_effect:
  assumes "calibrateInf w i s = (None, s')"
  shows "\<forall>j. j \<noteq> i \<longrightarrow> m_infCapFloorCalibrationErrors s' ! j = m_infCapFloorCalibrationErrors s ! j"
    and "inf_calibrationType (infConfigs (m_config s) ! i) = CalibrationType_Bootstrap
          \<and> \<not> infSkipped (infConfigs (m_config s) ! i)
          \<longrightarrow> \<bar>m_infCapFloorCalibrationErrors s' ! i\<bar> < bootstrapTolerance (m_config s)"
    and "\<forall>m. m_model s = Some m \<longrightarrow> m_model s' = Some (calibrated (infCalibrations (m_config s) i) m)"
  using assms
  by (auto simp: stage_defs infCalibrations_def calibrated_def Let_def
      split: option.splits sum.splits if_splits)

lemma gate_loop:
  assumes "forLoop n body s = (None, s')"
    and "\<And>i s1 s2. body i s1 = (None, s2) \<Longrightarrow> ctx s2 = ctx s1
          \<and> (\<forall>j. j \<noteq> i \<longrightarrow> errs s2 ! j = errs s1 ! j)
          \<and> (gated (m_config s1) i \<longrightarrow> \<bar>errs s2 ! i\<bar> < bootstrapTolerance (m_config s1))"
  shows "\<forall>j<n s. gated (m_config s) j \<longrightarrow> \<bar>errs s' ! j\<bar> < bootstrapTolerance (m_config s)"
proof -
  let ?I = "\<lambda>i s1. ctx s1 = ctx s
    \<and> (\<forall>j<i. gated (m_config s) j \<longrightarrow> \<bar>errs s1 ! j\<bar> < bootstrapTolerance (m_config s))"
  have "?I (n s) s'"
  proof (rule forLoop_invariant[OF assms(1), where I="?I"])
    show "?I 0 s" by simp
  next
    fix i s1 s2
    assume "i < n s" and I: "?I i s1" and b: "body i s1 = (None, s2)"
    have c: "m_config s1 = m_config s" using I by (simp add: ctx_def)
    note st = assms(2)[OF b, unfolded c]
    show "?I (Suc i) s2"
    proof (intro conjI allI impI)
      show "ctx s2 = ctx s" using st I by simp
    next
      fix j
      assume j: "j < Suc i" and g: "gated (m_config s) j"
      show "\<bar>errs s2 ! j\<bar> < bootstrapTolerance (m_config s)"
      proof (cases "j = i")
        case True
        then show ?thesis using st g by simp
      next
        case False
        then have "j < i" using j by simp
        then show ?thesis using st I g False by simp
      qed
    qed
  qed
  then show ?thesis by simp
qed

lemma model_loop:
  assumes "forLoop n body s = (None, s')" and "m_model s = Some m"
    and "\<And>i s1 s2. body i s1 = (None, s2) \<Longrightarrow> ctx s2 = ctx s1
          \<and> (\<forall>m1. m_model s1 = Some m1 \<longrightarrow> m_model s2 = Some (calibrated (cs (m_config s1) i) m1))"
  shows "m_model s' = Some (calibrated (concat (map (cs (m_config s)) [0..<n s])) m)"
proof -
  let ?I = "\<lambda>i s1. ctx s1 = ctx s
    \<and> m_model s1 = Some (calibrated (concat (map (cs (m_config s)) [0..<i])) m)"
  have "?I (n s) s'"
  proof (rule forLoop_invariant[OF assms(1), where I="?I"])
    show "?I 0 s" using assms(2) by (simp add: calibrated_simps)
  next
    fix i s1 s2
    assume "i < n s" and I: "?I i s1" and b: "body i s1 = (None, s2)"
    have c: "m_config s1 = m_config s" using I by (simp add: ctx_def)
    show "?I (Suc i) s2" using I assms(3)[OF b, unfolded c] by (simp add: calibrated_simps)
  qed
  then show ?thesis by simp
qed

lemma linkedTo_cong:
  assumes "ctx a = ctx b" and "built a = built b" and "irDiscountCurves a = irDiscountCurves b"
  shows "linkedTo c a = linkedTo c b"
  using assms by (simp add: linkedTo_def ctx_def built_def)

lemma cascade_effects:
  assumes "sequence (cascade w) s = (None, s')"
    and len: "length (irParametrizations s) = length (irConfigs (m_config s))"
      "length (irBuilder s) = length (irConfigs (m_config s))"
      "length (irDiscountCurves s) = length (irConfigs (m_config s))"
      "length (fxParametrizations s) = length (fxConfigs (m_config s))"
      "length (eqParametrizations s) = length (eqConfigs (m_config s))"
      "length (infParametrizations s) = length (infConfigs (m_config s))"
    and sw: "length (m_swaptionCalibrationErrors s) = length (irConfigs (m_config s))"
    and mo: "m_model s = Some m"
  shows "\<exists>s1 s2 s3 s4 s5 s6 s7 s8.
      forLoop (\<lambda>s. length (irBuilder s)) collectIrError s = (None, s1)
      \<and> m_swaptionCalibrationErrors s1 = map lgm_error (irBuilder s1)
      \<and> relinkDiscountCurves m_configurationFxCalibration s1 = (None, s2)
      \<and> linkedTo (m_configurationFxCalibration s) s2
      \<and> forLoop (\<lambda>s. length (fxParametrizations s)) (calibrateFx w) s2 = (None, s3)
      \<and> irDiscountCurves s3 = irDiscountCurves s2
      \<and> relinkDiscountCurves m_configurationEqCalibration s3 = (None, s4)
      \<and> linkedTo (m_configurationEqCalibration s) s4
      \<and> forLoop (\<lambda>s. length (eqParametrizations s)) (calibrateEq w) s4 = (None, s5)
      \<and> irDiscountCurves s5 = irDiscountCurves s4
      \<and> relinkDiscountCurves m_configurationFinalModel s5 = (None, s6)
      \<and> linkedTo (m_configurationFinalModel s) s6
      \<and> forLoop (\<lambda>s. length (infParametrizations s)) (calibrateInf w) s6 = (None, s7)
      \<and> irDiscountCurves s7 = irDiscountCurves s6
      \<and> relinkDiscountCurves m_configurationFinalModel s7 = (None, s8)
      \<and> irDiscountCurves s8 = irDiscountCurves s7
      \<and> modelUpdate s8 = (None, s')"
    and "m_swaptionCalibrationErrors s' = map lgm_error (irBuilder s')"
    and "withinTolerance s'"
    and "m_model s' = Some ((calibrated (specifiedCalibrations (m_config s)) m)
           \<lparr>cam_updates := Suc (cam_updates m)\<rparr>)"
    and "linkedTo (m_configurationFinalModel s) s'"
proof -
  from assms(1) obtain s1 s2 s3 s4 s5 s6 s7 s8 where
    st: "forLoop (\<lambda>s. length (irBuilder s)) collectIrError s = (None, s1)"
      "relinkDiscountCurves m_configurationFxCalibration s1 = (None, s2)"
      "forLoop (\<lambda>s. length (fxParametrizations s)) (calibrateFx w) s2 = (None, s3)"
      "relinkDiscountCurves m_configurationEqCalibration s3 = (None, s4)"
      "forLoop (\<lambda>s. length (eqParametrizations s)) (calibrateEq w) s4 = (None, s5)"
      "relinkDiscountCurves m_configurationFinalModel s5 = (None, s6)"
      "forLoop (\<lambda>s. length (infParametrizations s)) (calibrateInf w) s6 = (None, s7)"
      "relinkDiscountCurves m_configurationFinalModel s7 = (None, s8)"
      "modelUpdate s8 = (None, s')"
    unfolding cascade_def sequence_None_Cons by auto
  note l1 = collectIrError_loop[OF st(1)]
  have l2: "ctx s2 = ctx s1 \<and> built s2 = built s1 \<and> m_model s2 = m_model s1
    \<and> length (irDiscountCurves s2) = length (irDiscountCurves s1)
    \<and> (length (irDiscountCurves s1) = length (irParametrizations s1)
         \<longrightarrow> linkedTo (m_configurationFxCalibration s1) s2)"
    using relink_loop[OF st(2)] by (simp add: ctx_def)
  have l3: "ctx s3 = ctx s2 \<and> built s3 = built s2 \<and> irDiscountCurves s3 = irDiscountCurves s2"
    using calibrate_loop[OF st(3), where ev="\<lambda>c i. fxEvents (fxConfigs c ! i) i"] calibrateFx_step
    by simp
  have l4: "ctx s4 = ctx s3 \<and> built s4 = built s3 \<and> m_model s4 = m_model s3
    \<and> length (irDiscountCurves s4) = length (irDiscountCurves s3)
    \<and> (length (irDiscountCurves s3) = length (irParametrizations s3)
         \<longrightarrow> linkedTo (m_configurationEqCalibration s3) s4)"
    using relink_loop[OF st(4)] by (simp add: ctx_def)
  have l5: "ctx s5 = ctx s4 \<and> built s5 = built s4 \<and> irDiscountCurves s5 = irDiscountCurves s4"
    using calibrate_loop[OF st(5), where ev="\<lambda>c i. eqEvents (eqConfigs c ! i) i"] calibrateEq_step
    by simp
  have l6: "ctx s6 = ctx s5 \<and> built s6 = built s5 \<and> m_model s6 = m_model s5
    \<and> length (irDiscountCurves s6) = length (irDiscountCurves s5)
    \<and> (length (irDiscountCurves s5) = length (irParametrizations s5)
         \<longrightarrow> linkedTo (m_configurationFinalModel s5) s6)"
    using relink_loop[OF st(6)] by (simp add: ctx_def)
  have l7: "ctx s7 = ctx s6 \<and> built s7 = built s6 \<and> irDiscountCurves s7 = irDiscountCurves s6"
    using calibrate_loop[OF st(7), where ev="\<lambda>c i. infEvents (infConfigs c ! i) i"] calibrateInf_step
    by simp
  have l8: "ctx s8 = ctx s7 \<and> built s8 = built s7 \<and> m_model s8 = m_model s7
    \<and> (linkedTo (m_configurationFinalModel s7) s7 \<longrightarrow> irDiscountCurves s8 = irDiscountCurves s7)"
    using relink_loop[OF st(8)] by (simp add: ctx_def)
  note l9 = modelUpdate_step[OF st(9)]
  have c: "ctx s1 = ctx s" "ctx s2 = ctx s" "ctx s3 = ctx s" "ctx s4 = ctx s" "ctx s5 = ctx s"
    "ctx s6 = ctx s" "ctx s7 = ctx s" "ctx s8 = ctx s" "ctx s' = ctx s"
    using l1 l2 l3 l4 l5 l6 l7 l8 l9 by simp_all
  have b: "built s1 = built s" "built s2 = built s" "built s3 = built s" "built s4 = built s"
    "built s5 = built s" "built s6 = built s" "built s7 = built s" "built s8 = built s"
    "built s' = built s"
    using l1 l2 l3 l4 l5 l6 l7 l8 l9 by simp_all
  have cfgs: "m_config s2 = m_config s" "m_config s4 = m_config s" "m_config s6 = m_config s"
    "m_config s' = m_config s"
    "m_configurationFxCalibration s1 = m_configurationFxCalibration s"
    "m_configurationEqCalibration s3 = m_configurationEqCalibration s"
    "m_configurationFinalModel s5 = m_configurationFinalModel s"
    "m_configurationFinalModel s7 = m_configurationFinalModel s"
    using c by (simp_all add: ctx_def)
  have ns: "length (fxParametrizations s2) = length (fxConfigs (m_config s))"
    "length (eqParametrizations s4) = length (eqConfigs (m_config s))"
    "length (infParametrizations s6) = length (infConfigs (m_config s))"
    "irBuilder s1 = irBuilder s" "irBuilder s' = irBuilder s"
    using b len by (simp_all add: built_def)
  have d: "length (irDiscountCurves s1) = length (irParametrizations s1)"
    "length (irDiscountCurves s3) = length (irParametrizations s3)"
    "length (irDiscountCurves s5) = length (irParametrizations s5)"
    using l1 l2 l3 l4 l5 b len by (simp_all add: built_def)
  have k2: "linkedTo (m_configurationFxCalibration s) s2" using l2 d(1) cfgs by simp
  have k4: "linkedTo (m_configurationEqCalibration s) s4" using l4 d(2) cfgs by simp
  have k6: "linkedTo (m_configurationFinalModel s) s6" using l6 d(3) cfgs by simp
  have k7: "linkedTo (m_configurationFinalModel s) s7"
    using k6 linkedTo_cong[of s7 s6] l7 by simp
  then have idem: "irDiscountCurves s8 = irDiscountCurves s7" using l8 cfgs by simp
  have k8: "linkedTo (m_configurationFinalModel s) s8"
    using k7 linkedTo_cong[of s8 s7] l8 idem by simp
  show "linkedTo (m_configurationFinalModel s) s'"
    using k8 linkedTo_cong[of s' s8] l9 by simp
  have r1: "m_swaptionCalibrationErrors s1 = map lgm_error (irBuilder s)"
    using collectIrError_recorded[OF st(1)] sw len(2) by simp
  then have r1': "m_swaptionCalibrationErrors s1 = map lgm_error (irBuilder s1)"
    using ns(4) by simp
  have "preserves (\<lambda>s s'. m_swaptionCalibrationErrors s' = m_swaptionCalibrationErrors s)
      (sequence (tl (cascade w)))"
    by (rule keeps_sequence) (rule cascade_keeps(1))
  moreover have "sequence (tl (cascade w)) s1 = (None, s')"
    using st(2-9) by (simp add: cascade_def)
  ultimately have "m_swaptionCalibrationErrors s' = m_swaptionCalibrationErrors s1"
    by (rule keepsD)
  then show "m_swaptionCalibrationErrors s' = map lgm_error (irBuilder s')"
    using r1 ns(5) by simp
  have g3: "\<forall>j<length (fxConfigs (m_config s)).
      fx_calibrationType (fxConfigs (m_config s) ! j) = CalibrationType_Bootstrap
      \<and> \<not> fxSkipped (fxConfigs (m_config s) ! j)
      \<longrightarrow> \<bar>m_fxOptionCalibrationErrors s3 ! j\<bar> < bootstrapTolerance (m_config s)"
    using gate_loop[OF st(3), where errs=m_fxOptionCalibrationErrors
        and gated="\<lambda>c i. fx_calibrationType (fxConfigs c ! i) = CalibrationType_Bootstrap
          \<and> \<not> fxSkipped (fxConfigs c ! i)"]
      calibrateFx_step(1) calibrateFx_effect(1,2) ns(1) cfgs(1)
    by simp
  have g5: "\<forall>j<length (eqConfigs (m_config s)).
      eq_calibrationType (eqConfigs (m_config s) ! j) = CalibrationType_Bootstrap
      \<and> \<not> eqSkipped (eqConfigs (m_config s) ! j)
      \<longrightarrow> \<bar>m_eqOptionCalibrationErrors s5 ! j\<bar> < bootstrapTolerance (m_config s)"
    using gate_loop[OF st(5), where errs=m_eqOptionCalibrationErrors
        and gated="\<lambda>c i. eq_calibrationType (eqConfigs c ! i) = CalibrationType_Bootstrap
          \<and> \<not> eqSkipped (eqConfigs c ! i)"]
      calibrateEq_step(1) calibrateEq_effect(1,2) ns(2) cfgs(2)
    by simp
  have g7: "\<forall>j<length (infConfigs (m_config s)).
      inf_calibrationType (infConfigs (m_config s) ! j) = CalibrationType_Bootstrap
      \<and> \<not> infSkipped (infConfigs (m_config s) ! j)
      \<longrightarrow> \<bar>m_infCapFloorCalibrationErrors s7 ! j\<bar> < bootstrapTolerance (m_config s)"
    using gate_loop[OF st(7), where errs=m_infCapFloorCalibrationErrors
        and gated="\<lambda>c i. inf_calibrationType (infConfigs c ! i) = CalibrationType_Bootstrap
          \<and> \<not> infSkipped (infConfigs c ! i)"]
      calibrateInf_step(1) calibrateInf_effect(1,2) ns(3) cfgs(3)
    by simp
  have "preserves (\<lambda>s s'. m_fxOptionCalibrationErrors s' = m_fxOptionCalibrationErrors s)
      (sequence (drop 3 (cascade w)))"
    by (rule keeps_sequence) (rule cascade_keeps(2))
  moreover have "sequence (drop 3 (cascade w)) s3 = (None, s')"
    using st(4-9) by (simp add: cascade_def)
  ultimately have e3: "m_fxOptionCalibrationErrors s' = m_fxOptionCalibrationErrors s3"
    by (rule keepsD)
  have "preserves (\<lambda>s s'. m_eqOptionCalibrationErrors s' = m_eqOptionCalibrationErrors s)
      (sequence (drop 5 (cascade w)))"
    by (rule keeps_sequence) (rule cascade_keeps(3))
  moreover have "sequence (drop 5 (cascade w)) s5 = (None, s')"
    using st(6-9) by (simp add: cascade_def)
  ultimately have e5: "m_eqOptionCalibrationErrors s' = m_eqOptionCalibrationErrors s5"
    by (rule keepsD)
  have "preserves (\<lambda>s s'. m_infCapFloorCalibrationErrors s' = m_infCapFloorCalibrationErrors s)
      (sequence (drop 7 (cascade w)))"
    by (rule keeps_sequence) (rule cascade_keeps(4))
  moreover have "sequence (drop 7 (cascade w)) s7 = (None, s')"
    using st(8,9) by (simp add: cascade_def)
  ultimately have e7: "m_infCapFloorCalibrationErrors s' = m_infCapFloorCalibrationErrors s7"
    by (rule keepsD)
  show "withinTolerance s'"
    unfolding withinTolerance_def cfgs(4) e3 e5 e7 using g3 g5 g7 by simp
  have m2: "m_model s2 = Some m" using l1 l2 mo by simp
  have m3: "m_model s3 = Some (calibrated (concat (map (fxCalibrations (m_config s))
      [0..<length (fxConfigs (m_config s))])) m)"
    using model_loop[OF st(3) m2, where cs=fxCalibrations] calibrateFx_step(1) calibrateFx_effect(3)
      ns(1) cfgs(1)
    by simp
  then have m4: "m_model s4 = Some (calibrated (concat (map (fxCalibrations (m_config s))
      [0..<length (fxConfigs (m_config s))])) m)"
    using l4 by simp
  have m5: "m_model s5 = Some (calibrated (concat (map (eqCalibrations (m_config s))
      [0..<length (eqConfigs (m_config s))]))
      (calibrated (concat (map (fxCalibrations (m_config s))
      [0..<length (fxConfigs (m_config s))])) m))"
    using model_loop[OF st(5) m4, where cs=eqCalibrations] calibrateEq_step(1) calibrateEq_effect(3)
      ns(2) cfgs(2)
    by simp
  then have m6: "m_model s6 = Some (calibrated (concat (map (eqCalibrations (m_config s))
      [0..<length (eqConfigs (m_config s))]))
      (calibrated (concat (map (fxCalibrations (m_config s))
      [0..<length (fxConfigs (m_config s))])) m))"
    using l6 by simp
  have m7: "m_model s7 = Some (calibrated (concat (map (infCalibrations (m_config s))
      [0..<length (infConfigs (m_config s))]))
      (calibrated (concat (map (eqCalibrations (m_config s))
      [0..<length (eqConfigs (m_config s))]))
      (calibrated (concat (map (fxCalibrations (m_config s))
      [0..<length (fxConfigs (m_config s))])) m)))"
    using model_loop[OF st(7) m6, where cs=infCalibrations] calibrateInf_step(1) calibrateInf_effect(3)
      ns(3) cfgs(3)
    by simp
  then have m8: "m_model s8 = Some (calibrated (specifiedCalibrations (m_config s)) m)"
    using l8 by (simp add: calibrated_simps specifiedCalibrations_def)
  show "m_model s' = Some ((calibrated (specifiedCalibrations (m_config s)) m)
           \<lparr>cam_updates := Suc (cam_updates m)\<rparr>)"
    using st(9) m8 by (auto simp: stage_defs calibrated_def)
  show "\<exists>s1 s2 s3 s4 s5 s6 s7 s8.
      forLoop (\<lambda>s. length (irBuilder s)) collectIrError s = (None, s1)
      \<and> m_swaptionCalibrationErrors s1 = map lgm_error (irBuilder s1)
      \<and> relinkDiscountCurves m_configurationFxCalibration s1 = (None, s2)
      \<and> linkedTo (m_configurationFxCalibration s) s2
      \<and> forLoop (\<lambda>s. length (fxParametrizations s)) (calibrateFx w) s2 = (None, s3)
      \<and> irDiscountCurves s3 = irDiscountCurves s2
      \<and> relinkDiscountCurves m_configurationEqCalibration s3 = (None, s4)
      \<and> linkedTo (m_configurationEqCalibration s) s4
      \<and> forLoop (\<lambda>s. length (eqParametrizations s)) (calibrateEq w) s4 = (None, s5)
      \<and> irDiscountCurves s5 = irDiscountCurves s4
      \<and> relinkDiscountCurves m_configurationFinalModel s5 = (None, s6)
      \<and> linkedTo (m_configurationFinalModel s) s6
      \<and> forLoop (\<lambda>s. length (infParametrizations s)) (calibrateInf w) s6 = (None, s7)
      \<and> irDiscountCurves s7 = irDiscountCurves s6
      \<and> relinkDiscountCurves m_configurationFinalModel s7 = (None, s8)
      \<and> irDiscountCurves s8 = irDiscountCurves s7
      \<and> modelUpdate s8 = (None, s')"
    using st r1' k2 k4 k6 l3 l5 l7 idem by blast
qed

lemma subModelsBuilt_cong:
  assumes "ctx a = ctx b" and "built a = built b"
  shows "subModelsBuilt w a = subModelsBuilt w b"
proof -
  have e: "m_market a = m_market b" "m_config a = m_config b"
    "m_configurationLgmCalibration a = m_configurationLgmCalibration b"
    "m_configurationFxCalibration a = m_configurationFxCalibration b"
    "m_configurationEqCalibration a = m_configurationEqCalibration b"
    "m_configurationInfCalibration a = m_configurationInfCalibration b"
    "irBuilder a = irBuilder b" "irParametrizations a = irParametrizations b"
    "fxParametrizations a = fxParametrizations b" "eqParametrizations a = eqParametrizations b"
    "infParametrizations a = infParametrizations b" "m_subBuilders a = m_subBuilders b"
    using assms by (simp_all add: ctx_def built_def)
  show ?thesis unfolding subModelsBuilt_def e by (rule refl)
qed

lemma jointModelOf_cong:
  assumes "ctx a = ctx b" and "built a = built b"
  shows "jointModelOf w a = jointModelOf w b"
proof -
  have e: "m_config a = m_config b" "irParametrizations a = irParametrizations b"
    "fxParametrizations a = fxParametrizations b" "eqParametrizations a = eqParametrizations b"
    "infParametrizations a = infParametrizations b"
    using assms by (simp_all add: ctx_def built_def)
  show ?thesis unfolding jointModelOf_def e by (rule refl)
qed

text \<open>
  C3: a build that completes has made its calls in the fixed cascade order: the rate
  sub-builders, then the FX, equity and inflation sub-builders, the correlation matrix,
  the joint model, the rate calibration errors, the relink to the FX-calibration
  configuration and the FX calibrations, the relink to the equity-calibration
  configuration and the equity calibrations, the relink to the final-model configuration
  and the inflation calibrations, the final relink to the final-model configuration and
  the refresh of the joint model. The calls have their effect in this order. The
  sub-models are those the sub-builders delivered and the joint model is constructed over
  them. The rate calibration errors recorded are those of the rate sub-builders. When the
  FX calibrations start, every discount curve handle is linked to the curve the market has
  under the FX-calibration configuration; when the equity calibrations start, under the
  equity-calibration configuration; when the inflation calibrations start and when the
  build ends, under the final-model configuration; no calibration moves a handle. The
  final relink leaves every discount curve handle linked as the preceding relink left it,
  and the refresh is the last step: the joint model has then undergone the calibrations of
  the FX, equity and inflation factors, in this order, and one refresh.
\<close>

theorem buildModel_order:
  assumes "buildModel w s = (None, s')"
  shows "trace s' = trace s @ specifiedOrder (m_config s) (m_configurationFxCalibration s)
            (m_configurationEqCalibration s) (m_configurationFinalModel s)
    \<and> (\<exists>s1 s2. sequence (construction w @ butlast (butlast (cascade w))) s = (None, s1)
          \<and> relinkDiscountCurves m_configurationFinalModel s1 = (None, s2)
          \<and> irDiscountCurves s2 = irDiscountCurves s1
          \<and> modelUpdate s2 = (None, s'))
    \<and> (\<exists>s0 s1 s2 s3 s4 s5 s6 s7 s8.
          sequence (construction w) s = (None, s0)
          \<and> subModelsBuilt w s0
          \<and> (\<exists>m. jointModelOf w s0 = Inr m \<and> m_model s0 = Some m)
          \<and> forLoop (\<lambda>s. length (irBuilder s)) collectIrError s0 = (None, s1)
          \<and> m_swaptionCalibrationErrors s1 = map lgm_error (irBuilder s1)
          \<and> relinkDiscountCurves m_configurationFxCalibration s1 = (None, s2)
          \<and> linkedTo (m_configurationFxCalibration s) s2
          \<and> forLoop (\<lambda>s. length (fxParametrizations s)) (calibrateFx w) s2 = (None, s3)
          \<and> irDiscountCurves s3 = irDiscountCurves s2
          \<and> relinkDiscountCurves m_configurationEqCalibration s3 = (None, s4)
          \<and> linkedTo (m_configurationEqCalibration s) s4
          \<and> forLoop (\<lambda>s. length (eqParametrizations s)) (calibrateEq w) s4 = (None, s5)
          \<and> irDiscountCurves s5 = irDiscountCurves s4
          \<and> relinkDiscountCurves m_configurationFinalModel s5 = (None, s6)
          \<and> linkedTo (m_configurationFinalModel s) s6
          \<and> forLoop (\<lambda>s. length (infParametrizations s)) (calibrateInf w) s6 = (None, s7)
          \<and> irDiscountCurves s7 = irDiscountCurves s6
          \<and> relinkDiscountCurves m_configurationFinalModel s7 = (None, s8)
          \<and> irDiscountCurves s8 = irDiscountCurves s7
          \<and> modelUpdate s8 = (None, s'))
    \<and> subModelsBuilt w s'
    \<and> m_swaptionCalibrationErrors s' = map lgm_error (irBuilder s')
    \<and> linkedTo (m_configurationFinalModel s) s'
    \<and> (\<exists>m. jointModelOf w s' = Inr m
          \<and> m_model s' = Some ((calibrated (specifiedCalibrations (m_config s)) m)
                \<lparr>cam_updates := Suc (cam_updates m)\<rparr>))"
proof -
  from assms obtain s0 where con: "sequence (construction w) s = (None, s0)"
    and cas: "sequence (cascade w) s0 = (None, s')"
    by (auto simp: buildModel_def sequence_append split: prod.splits option.splits)
  note k = construction_success[OF con]
  note cb = construction_built[OF con]
  from cb(2) obtain m where m: "jointModelOf w s0 = Inr m" "m_model s0 = Some m" by blast
  have c0: "m_config s0 = m_config s" "m_configurationFxCalibration s0 = m_configurationFxCalibration s"
    "m_configurationEqCalibration s0 = m_configurationEqCalibration s"
    "m_configurationFinalModel s0 = m_configurationFinalModel s"
    using k(1) by (simp_all add: ctx_def)
  note q = cascade_success[OF cas, unfolded c0, OF k(3-8)]
  note ce = cascade_effects[OF cas, unfolded c0, OF k(3-8) cb(3) m(2)]
  from q obtain s7 s8 where f: "sequence (butlast (butlast (cascade w))) s0 = (None, s7)"
    "relinkDiscountCurves m_configurationFinalModel s7 = (None, s8)"
    "irDiscountCurves s8 = irDiscountCurves s7" "modelUpdate s8 = (None, s')"
    by blast
  have 1: "trace s' = trace s @ specifiedOrder (m_config s) (m_configurationFxCalibration s)
            (m_configurationEqCalibration s) (m_configurationFinalModel s)"
    using q k(2) by (simp add: specifiedOrder_def)
  have "sequence (construction w @ butlast (butlast (cascade w))) s = (None, s7)"
    using con f(1) by (simp add: sequence_append)
  then have 2: "\<exists>s1 s2. sequence (construction w @ butlast (butlast (cascade w))) s = (None, s1)
          \<and> relinkDiscountCurves m_configurationFinalModel s1 = (None, s2)
          \<and> irDiscountCurves s2 = irDiscountCurves s1
          \<and> modelUpdate s2 = (None, s')"
    using f(2-4) by blast
  have jm: "\<exists>m. jointModelOf w s0 = Inr m \<and> m_model s0 = Some m" using m by simp
  have 3: "\<exists>s0 s1 s2 s3 s4 s5 s6 s7 s8.
          sequence (construction w) s = (None, s0)
          \<and> subModelsBuilt w s0
          \<and> (\<exists>m. jointModelOf w s0 = Inr m \<and> m_model s0 = Some m)
          \<and> forLoop (\<lambda>s. length (irBuilder s)) collectIrError s0 = (None, s1)
          \<and> m_swaptionCalibrationErrors s1 = map lgm_error (irBuilder s1)
          \<and> relinkDiscountCurves m_configurationFxCalibration s1 = (None, s2)
          \<and> linkedTo (m_configurationFxCalibration s) s2
          \<and> forLoop (\<lambda>s. length (fxParametrizations s)) (calibrateFx w) s2 = (None, s3)
          \<and> irDiscountCurves s3 = irDiscountCurves s2
          \<and> relinkDiscountCurves m_configurationEqCalibration s3 = (None, s4)
          \<and> linkedTo (m_configurationEqCalibration s) s4
          \<and> forLoop (\<lambda>s. length (eqParametrizations s)) (calibrateEq w) s4 = (None, s5)
          \<and> irDiscountCurves s5 = irDiscountCurves s4
          \<and> relinkDiscountCurves m_configurationFinalModel s5 = (None, s6)
          \<and> linkedTo (m_configurationFinalModel s) s6
          \<and> forLoop (\<lambda>s. length (infParametrizations s)) (calibrateInf w) s6 = (None, s7)
          \<and> irDiscountCurves s7 = irDiscountCurves s6
          \<and> relinkDiscountCurves m_configurationFinalModel s7 = (None, s8)
          \<and> irDiscountCurves s8 = irDiscountCurves s7
          \<and> modelUpdate s8 = (None, s')"
    using con cb(1) jm ce(1) by blast
  have cb': "ctx s' = ctx s0" "built s' = built s0" using q c0 k(1) by simp_all
  have 4: "subModelsBuilt w s'" using cb(1) subModelsBuilt_cong[OF cb'] by simp
  have 5: "\<exists>m. jointModelOf w s' = Inr m
          \<and> m_model s' = Some ((calibrated (specifiedCalibrations (m_config s)) m)
                \<lparr>cam_updates := Suc (cam_updates m)\<rparr>)"
    using m(1) ce(4) jointModelOf_cong[OF cb'] by simp
  show ?thesis using 1 2 3 4 ce(2) ce(5) 5 by (intro conjI)
qed

theorem buildModel_order_witness:
  "buildModel rateErrorCollaborators (exampleBuilder exampleConfig)
     = (None, snd (buildModel rateErrorCollaborators (exampleBuilder exampleConfig)))
   \<and> trace (snd (buildModel rateErrorCollaborators (exampleBuilder exampleConfig)))
     = [BuildModel, Build IR 0, Build IR 1, Build FX 0, Build EQ 0, Build INF_type 0,
        BuildCorrelationMatrix, BuildCrossAssetModel, IrError 0, IrError 1,
        LinkTo 0 ''fx'', LinkTo 1 ''fx'',
        SetPricingEngines FX 0, Calibrated (BsVolatilitiesIterative FX 0), LogCalibrationErrors FX 0,
        LinkTo 0 ''eq'', LinkTo 1 ''eq'',
        SetPricingEngines EQ 0, Calibrated (BsVolatilitiesGlobal EQ 0), LogCalibrationErrors EQ 0,
        LinkTo 0 ''final'', LinkTo 1 ''final'',
        SetPricingEngines INF_type 0, Calibrated Calibrate, LogCalibrationErrors INF_type 0,
        LinkTo 0 ''final'', LinkTo 1 ''final'', Update]
   \<and> m_swaptionCalibrationErrors (snd (buildModel rateErrorCollaborators (exampleBuilder exampleConfig)))
     = [1 / 2, 1 / 2]
   \<and> irDiscountCurves (snd (buildModel rateErrorCollaborators (exampleBuilder exampleConfig)))
     = [5, 5]
   \<and> subModelsBuilt rateErrorCollaborators
        (snd (buildModel rateErrorCollaborators (exampleBuilder exampleConfig)))
   \<and> m_model (snd (buildModel rateErrorCollaborators (exampleBuilder exampleConfig)))
     = Some (exampleModel\<lparr>cam_calibrations :=
          [BsVolatilitiesIterative FX 0, BsVolatilitiesGlobal EQ 0, Calibrate], cam_updates := 1\<rparr>)"
proof -
  let ?w = "rateErrorCollaborators" and ?s = "exampleBuilder exampleConfig"
  have "fst (buildModel ?w ?s) = None" by code_simp
  then have h: "buildModel ?w ?s = (None, snd (buildModel ?w ?s))"
    by (metis prod.collapse)
  have o: "specifiedOrder (m_config ?s) (m_configurationFxCalibration ?s)
            (m_configurationEqCalibration ?s) (m_configurationFinalModel ?s)
     = [BuildModel, Build IR 0, Build IR 1, Build FX 0, Build EQ 0, Build INF_type 0,
        BuildCorrelationMatrix, BuildCrossAssetModel, IrError 0, IrError 1,
        LinkTo 0 ''fx'', LinkTo 1 ''fx'',
        SetPricingEngines FX 0, Calibrated (BsVolatilitiesIterative FX 0), LogCalibrationErrors FX 0,
        LinkTo 0 ''eq'', LinkTo 1 ''eq'',
        SetPricingEngines EQ 0, Calibrated (BsVolatilitiesGlobal EQ 0), LogCalibrationErrors EQ 0,
        LinkTo 0 ''final'', LinkTo 1 ''final'',
        SetPricingEngines INF_type 0, Calibrated Calibrate, LogCalibrationErrors INF_type 0,
        LinkTo 0 ''final'', LinkTo 1 ''final'', Update]"
    by code_simp
  have t: "trace ?s = []" "m_configurationFinalModel ?s = ''final''"
    by (simp_all add: exampleBuilder_def emptyBuilder_def)
  have e: "map lgm_error (irBuilder (snd (buildModel ?w ?s))) = [1 / 2, 1 / 2]" by code_simp
  have d: "irDiscountCurves (snd (buildModel ?w ?s)) = [5, 5]" by code_simp
  have m: "m_model (snd (buildModel ?w ?s))
     = Some (exampleModel\<lparr>cam_calibrations :=
          [BsVolatilitiesIterative FX 0, BsVolatilitiesGlobal EQ 0, Calibrate], cam_updates := 1\<rparr>)"
    by code_simp
  show ?thesis using buildModel_order[OF h] h o t e d m by simp
qed

lemma emits_refl: "emits E s s"
  by (simp add: emits_def)

lemma emits_trans: "emits E a b \<Longrightarrow> emits E b c \<Longrightarrow> emits E a c"
  by (auto simp: emits_def)

lemma constructionEvents_buildEvents: "constructionEvents \<subseteq> buildEvents"
  by (auto simp: constructionEvents_def buildEvents_def)

lemma raises_sequence:
  assumes "\<And>f. f \<in> set fs \<Longrightarrow> raises f P"
  shows "raises (sequence fs) P"
  unfolding raises_def
proof (intro allI impI)
  fix s e s'
  assume "sequence fs s = (Some e, s')"
  then obtain f s1 where "f \<in> set fs" "f s1 = (Some e, s')" by (blast dest: sequence_Some)
  then show "P e" using assms by (auto simp: raises_def)
qed

lemma raises_forLoop:
  assumes "\<And>i. raises (body i) P"
  shows "raises (forLoop n body) P"
  unfolding raises_def
proof (intro allI impI)
  fix s e s'
  assume "forLoop n body s = (Some e, s')"
  then obtain i s1 where "body i s1 = (Some e, s')" by (blast dest: forLoop_Some)
  then show "P e" using assms by (auto simp: raises_def)
qed

lemma construction_stage_emits:
  "preserves (emits constructionEvents) checkMarket"
  "preserves (emits constructionEvents) checkIrConfigs"
  "preserves (emits constructionEvents) checkFxConfigs"
  "preserves (emits constructionEvents) resizeMembers"
  "preserves (emits constructionEvents) declareLocals"
  "preserves (emits constructionEvents) (buildIrParametrization w i)"
  "preserves (emits constructionEvents) checkIrParametrizations"
  "preserves (emits constructionEvents) setDomesticCcy"
  "preserves (emits constructionEvents) (buildFxParametrization w i)"
  "preserves (emits constructionEvents) (buildEqParametrization w i)"
  "preserves (emits constructionEvents) (buildInfParametrization w i)"
  "preserves (emits constructionEvents) collectParametrizations"
  "preserves (emits constructionEvents) checkParametrizationSizes"
  "preserves (emits constructionEvents) (buildCorrelationMatrix w)"
  by (auto simp: preserves_def emits_def constructionEvents_def stage_defs ctx_def Let_def
      split: option.splits sum.splits)

lemma construction_stage_raises:
  "raises checkMarket ordinary"
  "raises checkIrConfigs ordinary"
  "raises checkFxConfigs ordinary"
  "raises resizeMembers ordinary"
  "raises declareLocals ordinary"
  "raises (buildIrParametrization w i) ordinary"
  "raises checkIrParametrizations ordinary"
  "raises setDomesticCcy ordinary"
  "raises (buildFxParametrization w i) ordinary"
  "raises (buildEqParametrization w i) ordinary"
  "raises (buildInfParametrization w i) ordinary"
  "raises collectParametrizations ordinary"
  "raises (buildCorrelationMatrix w) ordinary"
  "raises (buildCrossAssetModel w) ordinary"
  "raises (collectIrError i) ordinary"
  "raises (relinkDiscountCurve cfg i) ordinary"
  "raises modelUpdate ordinary"
  by (auto simp: raises_def ordinary_def stage_defs Let_def
      split: option.splits sum.splits if_splits)

lemma cascade_stage_raises:
  "raises (calibrateFx w i) (\<lambda>e. e \<noteq> IrFxParametrizationSize)"
  "raises (calibrateEq w i) (\<lambda>e. e \<noteq> IrFxParametrizationSize)"
  "raises (calibrateInf w i) (\<lambda>e. e \<noteq> IrFxParametrizationSize)"
  by (auto simp: raises_def stage_defs Let_def
      split: option.splits sum.splits if_splits)

lemma cascade_stage_proceeds:
  "preserves proceeds (buildCrossAssetModel w)"
  "preserves proceeds (collectIrError i)"
  "preserves proceeds (relinkDiscountCurve cfg i)"
  "preserves proceeds (calibrateFx w i)"
  "preserves proceeds (calibrateEq w i)"
  "preserves proceeds (calibrateInf w i)"
  "preserves proceeds modelUpdate"
  by (auto simp: preserves_def proceeds_def emits_def buildEvents_def stage_defs ctx_def built_def
      Let_def split: option.splits sum.splits)

lemma proceeds_refl: "proceeds s s"
  by (simp add: proceeds_def emits_refl)

lemma proceeds_trans: "proceeds a b \<Longrightarrow> proceeds b c \<Longrightarrow> proceeds a c"
  by (auto simp: proceeds_def intro: emits_trans)

lemma subModels_emits:
  "preserves (emits constructionEvents)
     (sequence (tl (subModels w) @ [checkParametrizationSizes, buildCorrelationMatrix w]))"
  by (rule preserves_sequence[OF emits_refl emits_trans])
    (auto simp: subModels_def
      intro: construction_stage_emits preserves_forLoop[OF emits_refl emits_trans])

lemma cascade_proceeds: "preserves proceeds (sequence (buildCrossAssetModel w # cascade w))"
  by (rule preserves_sequence[OF proceeds_refl proceeds_trans])
    (auto simp: cascade_def relinkDiscountCurves_def
      intro: cascade_stage_proceeds preserves_forLoop[OF proceeds_refl proceeds_trans])

lemma subModels_raises: "raises (sequence (subModels w)) ordinary"
  by (rule raises_sequence)
    (auto simp: subModels_def intro: construction_stage_raises raises_forLoop,
     simp add: raises_def)

lemma cascade_raises:
  "raises (sequence ([buildCorrelationMatrix w, buildCrossAssetModel w] @ cascade w))
     (\<lambda>e. e \<noteq> IrFxParametrizationSize)"
proof -
  have o: "\<And>f. raises f ordinary \<Longrightarrow> raises f (\<lambda>e. e \<noteq> IrFxParametrizationSize)"
    by (auto simp: raises_def ordinary_def)
  show ?thesis
    by (rule raises_sequence)
      (auto simp: cascade_def relinkDiscountCurves_def
        intro: o construction_stage_raises cascade_stage_raises raises_forLoop)
qed

lemma buildModel_split:
  "buildModel w s =
     (case sequence (tl (subModels w) @ [checkParametrizationSizes, buildCorrelationMatrix w])
             (called BuildModel s) of
        (Some e, s1) \<Rightarrow> (Some e, s1)
      | (None, s1) \<Rightarrow> sequence (buildCrossAssetModel w # cascade w) s1)"
proof -
  let ?P = "tl (subModels w) @ [checkParametrizationSizes, buildCorrelationMatrix w]"
  let ?Q = "buildCrossAssetModel w # cascade w"
  let ?a = "\<lambda>s. (None :: Error option, called BuildModel s)"
  have "construction w @ cascade w = (?a # ?P) @ ?Q"
    by (simp add: construction_def subModels_def)
  then have "buildModel w s = sequence ((?a # ?P) @ ?Q) s"
    by (simp only: buildModel_def)
  also have "\<dots> = (case sequence (?a # ?P) s of
        (Some e, s1) \<Rightarrow> (Some e, s1) | (None, s1) \<Rightarrow> sequence ?Q s1)"
    by (rule sequence_append)
  also have "sequence (?a # ?P) s = sequence ?P (called BuildModel s)"
    by simp
  finally show ?thesis .
qed

lemma buildIr_trace: "trace (snd (buildIrParametrization w i s)) = trace s @ [Build IR i]"
  by (auto simp: stage_defs Let_def split: option.splits sum.splits)

lemma buildIr_first:
  assumes "0 < n s"
  shows "\<exists>t. trace (snd (forLoop n (buildIrParametrization w) s)) = trace s @ Build IR 0 # t"
proof -
  let ?body = "buildIrParametrization w"
  have upt: "[0..<n s] = 0 # [Suc 0..<n s]" using assms by (simp add: upt_conv_Cons)
  obtain x s1 where b: "?body 0 s = (x, s1)" by (cases "?body 0 s")
  have t1: "trace s1 = trace s @ [Build IR 0]" using buildIr_trace[of w 0 s] b by simp
  show ?thesis
  proof (cases x)
    case (Some e)
    then have "forLoop n ?body s = (Some e, s1)" using b by (simp add: forLoop_def upt)
    then show ?thesis using t1 by simp
  next
    case None
    then have f: "forLoop n ?body s = sequence (map ?body [Suc 0..<n s]) s1"
      using b by (simp add: forLoop_def upt)
    have "preserves (emits constructionEvents) (sequence (map ?body [Suc 0..<n s]))"
      by (rule preserves_sequence[OF emits_refl emits_trans])
        (auto intro: construction_stage_emits)
    then have "emits constructionEvents s1 (snd (sequence (map ?body [Suc 0..<n s]) s1))"
      by (simp add: preserves_def)
    then show ?thesis using f t1 by (auto simp: emits_def)
  qed
qed

text \<open>
  C1: with a market given, a build whose number of FX configurations is not the number
  of rate configurations minus one throws a configuration error and leaves the builder
  as it was, save for the entry of the call in the log: no sub-builder has been
  constructed and no calibration has run. With consistent counts the build goes on to
  construct the first rate sub-builder. The later check of the assembled parametrization
  counts never fails in any build, since the assembled counts are those of the
  configurations.
\<close>

theorem buildModel_factor_counts:
  assumes "m_market s \<noteq> None"
  shows "(int (length (fxConfigs (m_config s))) \<noteq> int (length (irConfigs (m_config s))) - 1 \<longrightarrow>
           (\<exists>e. buildModel w s = (Some e, called BuildModel s) \<and> errorClass e = ConfigurationError))
    \<and> (int (length (fxConfigs (m_config s))) = int (length (irConfigs (m_config s))) - 1 \<longrightarrow>
           (\<exists>t. trace (snd (buildModel w s)) = trace s @ BuildModel # Build IR 0 # t))
    \<and> fst (buildModel w s) \<noteq> Some IrFxParametrizationSize"
proof (intro conjI impI)
  assume ne: "int (length (fxConfigs (m_config s))) \<noteq> int (length (irConfigs (m_config s))) - 1"
  show "\<exists>e. buildModel w s = (Some e, called BuildModel s) \<and> errorClass e = ConfigurationError"
  proof (cases "length (irConfigs (m_config s)) = 0")
    case True
    then have "buildModel w s = (Some MissingIrConfigurations, called BuildModel s)"
      using assms by (simp add: buildModel_def construction_def subModels_def stage_defs)
    then show ?thesis by simp
  next
    case False
    then have "buildModel w s = (Some (FxIrConfigurationSize (length (fxConfigs (m_config s)))
        (length (irConfigs (m_config s)))), called BuildModel s)"
      using assms ne by (simp add: buildModel_def construction_def subModels_def stage_defs)
    then show ?thesis by simp
  qed
next
  assume eq: "int (length (fxConfigs (m_config s))) = int (length (irConfigs (m_config s))) - 1"
  let ?irLoop = "forLoop (\<lambda>s. length (irConfigs (m_config s))) (buildIrParametrization w)"
  let ?R = "[checkIrParametrizations, setDomesticCcy,
      forLoop (\<lambda>s. length (fxConfigs (m_config s))) (buildFxParametrization w),
      forLoop (\<lambda>s. length (eqConfigs (m_config s))) (buildEqParametrization w),
      forLoop (\<lambda>s. length (infConfigs (m_config s))) (buildInfParametrization w),
      collectParametrizations, checkParametrizationSizes, buildCorrelationMatrix w]"
  let ?Q = "buildCrossAssetModel w # cascade w"
  let ?s6 = "snd (declareLocals (snd (resizeMembers (called BuildModel s))))"
  have n: "length (irConfigs (m_config s)) = length (fxConfigs (m_config s)) + 1" using eq by simp
  have ne: "irConfigs (m_config s) \<noteq> []" using n by auto
  have s6: "trace ?s6 = trace s @ [BuildModel]" "m_config ?s6 = m_config s"
    by (simp_all add: stage_defs Let_def)
  have P: "sequence (tl (subModels w) @ [checkParametrizationSizes, buildCorrelationMatrix w])
      (called BuildModel s) = sequence (?irLoop # ?R) ?s6"
    using assms n ne by (simp add: subModels_def stage_defs Let_def)
  obtain x s7 where l: "?irLoop ?s6 = (x, s7)" by (cases "?irLoop ?s6")
  have "0 < length (irConfigs (m_config ?s6))" using n s6(2) by simp
  from buildIr_first[of "\<lambda>s. length (irConfigs (m_config s))" ?s6 w, OF this] l
  obtain t1 where t1: "trace s7 = trace s @ BuildModel # Build IR 0 # t1"
    using s6(1) by auto
  show "\<exists>t. trace (snd (buildModel w s)) = trace s @ BuildModel # Build IR 0 # t"
  proof (cases x)
    case (Some e)
    then have "buildModel w s = (Some e, s7)" using l P by (simp add: buildModel_split)
    then show ?thesis using t1 by simp
  next
    case None
    obtain y s8 where r: "sequence ?R s7 = (y, s8)" by (cases "sequence ?R s7")
    have "preserves (emits constructionEvents) (sequence ?R)"
      by (rule preserves_sequence[OF emits_refl emits_trans])
        (auto intro: construction_stage_emits preserves_forLoop[OF emits_refl emits_trans])
    then have "emits constructionEvents s7 s8" using r by (auto simp: preserves_def dest: spec[of _ s7])
    then obtain t2 where t2: "trace s8 = trace s7 @ t2" by (auto simp: emits_def)
    show ?thesis
    proof (cases y)
      case (Some e)
      then have "buildModel w s = (Some e, s8)" using l P r None by (simp add: buildModel_split)
      then show ?thesis using t1 t2 by simp
    next
      case None': None
      have b: "buildModel w s = sequence ?Q s8" using l P r None None' by (simp add: buildModel_split)
      have "proceeds s8 (snd (sequence ?Q s8))" using cascade_proceeds[of w] by (simp add: preserves_def)
      then obtain t3 where "trace (snd (sequence ?Q s8)) = trace s8 @ t3"
        by (auto simp: proceeds_def emits_def)
      then show ?thesis using b t1 t2 by simp
    qed
  qed
next
  let ?T = "[buildCorrelationMatrix w, buildCrossAssetModel w] @ cascade w"
  have split: "buildModel w s = (case sequence (subModels w) s of
        (Some e, s1) \<Rightarrow> (Some e, s1)
      | (None, s1) \<Rightarrow> sequence (checkParametrizationSizes # ?T) s1)"
  proof -
    have "construction w @ cascade w = subModels w @ (checkParametrizationSizes # ?T)"
      by (simp add: construction_def)
    then have "buildModel w s = sequence (subModels w @ (checkParametrizationSizes # ?T)) s"
      by (simp only: buildModel_def)
    then show ?thesis by (simp only: sequence_append)
  qed
  obtain x s1 where a: "sequence (subModels w) s = (x, s1)" by (cases "sequence (subModels w) s")
  show "fst (buildModel w s) \<noteq> Some IrFxParametrizationSize"
  proof (cases x)
    case (Some e)
    then have "ordinary e" using a subModels_raises[of w] by (auto simp: raises_def)
    then show ?thesis using split a Some by (simp add: ordinary_def)
  next
    case None
    note k = subModels_success[OF a[unfolded None]]
    have c: "checkParametrizationSizes s1 = (None, s1)"
      using k(3,6,9) by (simp add: stage_defs)
    then have b: "buildModel w s = sequence ?T s1" using split a None by simp
    show ?thesis
    proof
      assume "fst (buildModel w s) = Some IrFxParametrizationSize"
      then have "sequence ?T s1 = (Some IrFxParametrizationSize, snd (sequence ?T s1))"
        using b by (metis prod.collapse)
      then show False using cascade_raises[of w] unfolding raises_def by blast
    qed
  qed
qed

theorem buildModel_factor_counts_witness:
  "(\<exists>e. buildModel (exampleCollaborators 0) (exampleBuilder mismatchedConfig)
          = (Some e, called BuildModel (exampleBuilder mismatchedConfig))
        \<and> errorClass e = ConfigurationError)
   \<and> (\<exists>t. trace (snd (buildModel (exampleCollaborators 0) (exampleBuilder exampleConfig)))
          = BuildModel # Build IR 0 # t)"
proof -
  have m: "m_market (exampleBuilder c) \<noteq> None" for c
    by (simp add: exampleBuilder_def emptyBuilder_def)
  have 1: "int (length (fxConfigs (m_config (exampleBuilder mismatchedConfig))))
      \<noteq> int (length (irConfigs (m_config (exampleBuilder mismatchedConfig)))) - 1"
    by (simp add: exampleBuilder_def emptyBuilder_def mismatchedConfig_def exampleConfig_def)
  have 2: "int (length (fxConfigs (m_config (exampleBuilder exampleConfig))))
      = int (length (irConfigs (m_config (exampleBuilder exampleConfig)))) - 1"
    by (simp add: exampleBuilder_def emptyBuilder_def exampleConfig_def)
  have t: "trace (exampleBuilder exampleConfig) = []"
    by (simp add: exampleBuilder_def emptyBuilder_def)
  show ?thesis
    using buildModel_factor_counts[OF m, of mismatchedConfig "exampleCollaborators 0"]
      buildModel_factor_counts[OF m, of exampleConfig "exampleCollaborators 0"] 1 2 t
    by simp
qed

text \<open>
  C10: a build that gets as far as constructing the joint model has checked the
  currencies: every FX configuration \<open>i\<close> has the currency code of rate parametrization
  \<open>i + 1\<close> as its foreign currency and the currency of the first rate parametrization
  as its domestic currency, and the currency of every equity configuration is among the
  configured rate currencies. A build that completes has constructed the joint model, so
  a build in which one of these fails throws before the joint model is constructed.
\<close>

theorem buildModel_currency_checks:
  assumes "buildModel w s = (r, s')"
  shows "(BuildCrossAssetModel \<in> set (drop (length (trace s)) (trace s')) \<longrightarrow>
            length (irParametrizations s') = length (fxConfigs (m_config s)) + 1
          \<and> (\<forall>i<length (fxConfigs (m_config s)). fxChecked w s' i)
          \<and> (\<forall>i<length (eqConfigs (m_config s)). eqChecked w s' i))
    \<and> (r = None \<longrightarrow> BuildCrossAssetModel \<in> set (drop (length (trace s)) (trace s')))"
proof -
  let ?P = "tl (subModels w) @ [checkParametrizationSizes, buildCorrelationMatrix w]"
  let ?Q = "buildCrossAssetModel w # cascade w"
  let ?s0 = "called BuildModel s"
  obtain x s1 where p: "sequence ?P ?s0 = (x, s1)" by (cases "sequence ?P ?s0")
  have "emits constructionEvents ?s0 s1"
    using subModels_emits[of w] p by (auto simp: preserves_def dest: spec[of _ ?s0])
  then obtain t where t: "trace s1 = trace s @ BuildModel # t" "set t \<subseteq> constructionEvents"
    by (auto simp: emits_def called_def)
  have notin: "BuildCrossAssetModel \<notin> set (BuildModel # t)"
    using t(2) by (auto simp: constructionEvents_def)
  show ?thesis
  proof (cases x)
    case (Some e)
    then have "buildModel w s = (Some e, s1)" using p by (simp add: buildModel_split)
    then have "r = Some e" "s' = s1" using assms by simp_all
    then show ?thesis using t(1) notin by simp
  next
    case None
    have q: "sequence ?Q s1 = (r, s')" using p None assms by (simp add: buildModel_split)
    have "proceeds s1 s'" using cascade_proceeds[of w] q by (auto simp: preserves_def dest: spec[of _ s1])
    then have k1: "ctx s' = ctx s1" "built s' = built s1"
      and "\<exists>u. trace s' = trace s1 @ u"
      by (auto simp: proceeds_def emits_def)
    then obtain u where u: "trace s' = trace s1 @ u" by blast
    have "sequence (subModels w @ [checkParametrizationSizes, buildCorrelationMatrix w]) s = (None, s1)"
      using p None by (simp add: subModels_def)
    then obtain sa sb where sub: "sequence (subModels w) s = (None, sa)"
      and c1: "checkParametrizationSizes sa = (None, sb)"
      and c2: "buildCorrelationMatrix w sb = (None, s1)"
      by (auto simp: sequence_append split: prod.splits option.splits)
    note k = subModels_success[OF sub]
    have k2: "ctx s1 = ctx sa" "irParametrizations s1 = irParametrizations sa"
      using c1 c2 by (auto simp: stage_defs ctx_def split: if_splits sum.splits)
    have cfg: "m_config s' = m_config sa" "irParametrizations s' = irParametrizations sa"
      "m_config sa = m_config s"
      using k1 k2 k(1) by (simp_all add: ctx_def built_def)
    have fx: "\<And>j. fxChecked w s' j = fxChecked w sa j"
      unfolding fxChecked_def cfg(1,2) by (rule refl)
    have eq: "\<And>j. eqChecked w s' j = eqChecked w sa j"
      unfolding eqChecked_def cfg(1) by (rule refl)
    have first: "length (irParametrizations s') = length (fxConfigs (m_config s)) + 1
          \<and> (\<forall>i<length (fxConfigs (m_config s)). fxChecked w s' i)
          \<and> (\<forall>i<length (eqConfigs (m_config s)). eqChecked w s' i)"
      using k(3,9,12,13) fx eq cfg(2) by simp
    have second: "r = None \<longrightarrow> BuildCrossAssetModel \<in> set (drop (length (trace s)) (trace s'))"
    proof
      assume "r = None"
      then have "buildModel w s = (None, s')" using assms by simp
      then obtain sc where "sequence (construction w) s = (None, sc)"
        and cas: "sequence (cascade w) sc = (None, s')"
        by (auto simp: buildModel_def sequence_append split: prod.splits option.splits)
      note c = construction_success(2)[OF this(1)]
      have "preserves proceeds (sequence (cascade w))"
        by (rule preserves_sequence[OF proceeds_refl proceeds_trans])
          (auto simp: cascade_def relinkDiscountCurves_def
            intro: cascade_stage_proceeds preserves_forLoop[OF proceeds_refl proceeds_trans])
      then have "proceeds sc s'" using cas by (auto simp: preserves_def dest: spec[of _ sc])
      then obtain v where "trace s' = trace sc @ v" by (auto simp: proceeds_def emits_def)
      then show "BuildCrossAssetModel \<in> set (drop (length (trace s)) (trace s'))"
        using c by simp
    qed
    show ?thesis using first second by blast
  qed
qed

theorem buildModel_currency_checks_witness:
  "BuildCrossAssetModel \<in> set (drop (length (trace (exampleBuilder exampleConfig)))
      (trace (snd (buildModel (exampleCollaborators 0) (exampleBuilder exampleConfig)))))
   \<and> fxChecked (exampleCollaborators 0)
        (snd (buildModel (exampleCollaborators 0) (exampleBuilder exampleConfig))) 0
   \<and> eqChecked (exampleCollaborators 0)
        (snd (buildModel (exampleCollaborators 0) (exampleBuilder exampleConfig))) 0"
proof -
  let ?w = "exampleCollaborators 0" and ?s = "exampleBuilder exampleConfig"
  have 1: "BuildCrossAssetModel \<in> set (drop (length (trace ?s)) (trace (snd (buildModel ?w ?s))))"
    by code_simp
  have 2: "length (fxConfigs (m_config ?s)) = 1" "length (eqConfigs (m_config ?s)) = 1"
    by (simp_all add: exampleBuilder_def emptyBuilder_def exampleConfig_def)
  have "buildModel ?w ?s = (fst (buildModel ?w ?s), snd (buildModel ?w ?s))" by simp
  from buildModel_currency_checks[OF this] 1 2 show ?thesis by simp
qed

lemma calibrateFx_run:
  assumes "m_model s = Some m" and "\<not> fxSkipped (fxConfigs (m_config s) ! i)"
  shows "trace (snd (calibrateFx w i s)) = trace s
      @ [SetPricingEngines FX i, Calibrated (fxCalibration (fxConfigs (m_config s) ! i) i),
         LogCalibrationErrors FX i]"
    and "fst (calibrateFx w i s) =
      gateOutcome (fx_calibrationType (fxConfigs (m_config s) ! i) = CalibrationType_Bootstrap)
        (m_fxOptionCalibrationErrors (snd (calibrateFx w i s)) ! i) (bootstrapTolerance (m_config s))"
    and "m_model (snd (calibrateFx w i s))
      = Some (m\<lparr>cam_calibrations := cam_calibrations m @ [fxCalibration (fxConfigs (m_config s) ! i) i]\<rparr>)"
  using assms by (auto simp: stage_defs gateOutcome_def Let_def)

lemma calibrateEq_run:
  assumes "m_model s = Some m" and "\<not> eqSkipped (eqConfigs (m_config s) ! i)"
    and "ccyIndex w m (p_currency (eqParametrizations s ! i)) = Inr k"
  shows "trace (snd (calibrateEq w i s)) = trace s
      @ [SetPricingEngines EQ i, Calibrated (eqCalibration (eqConfigs (m_config s) ! i) i),
         LogCalibrationErrors EQ i]"
    and "fst (calibrateEq w i s) =
      gateOutcome (eq_calibrationType (eqConfigs (m_config s) ! i) = CalibrationType_Bootstrap)
        (m_eqOptionCalibrationErrors (snd (calibrateEq w i s)) ! i) (bootstrapTolerance (m_config s))"
    and "m_model (snd (calibrateEq w i s))
      = Some (m\<lparr>cam_calibrations := cam_calibrations m @ [eqCalibration (eqConfigs (m_config s) ! i) i]\<rparr>)"
  using assms by (auto simp: stage_defs gateOutcome_def Let_def)

lemma calibrateInf_run:
  assumes "m_model s = Some m" and "\<not> infSkipped (infConfigs (m_config s) ! i)"
    and "m_market s = Some mk"
    and "zeroInflationIndex mk (p_name (infParametrizations s ! i)) (m_configurationInfCalibration s) = Inr b"
  shows "trace (snd (calibrateInf w i s)) = trace s
      @ [SetPricingEngines INF_type i, Calibrated (infCalibration (infConfigs (m_config s) ! i) i),
         LogCalibrationErrors INF_type i]"
    and "fst (calibrateInf w i s) =
      gateOutcome (inf_calibrationType (infConfigs (m_config s) ! i) = CalibrationType_Bootstrap)
        (m_infCapFloorCalibrationErrors (snd (calibrateInf w i s)) ! i) (bootstrapTolerance (m_config s))"
    and "m_model (snd (calibrateInf w i s))
      = Some (m\<lparr>cam_calibrations := cam_calibrations m @ [infCalibration (infConfigs (m_config s) ! i) i]\<rparr>)"
  using assms by (auto simp: stage_defs gateOutcome_def Let_def)


lemma calibrate_tolerance:
  "calibrateFx w i s = (Some e, s') \<Longrightarrow> errorClass e = CalibrationToleranceError \<Longrightarrow>
     fx_calibrationType (fxConfigs (m_config s') ! i) = CalibrationType_Bootstrap
     \<and> \<not> fxSkipped (fxConfigs (m_config s') ! i)
     \<and> \<not> \<bar>m_fxOptionCalibrationErrors s' ! i\<bar> < bootstrapTolerance (m_config s')
     \<and> e = CalibrationErrorExceedsTolerance (m_fxOptionCalibrationErrors s' ! i)
           (bootstrapTolerance (m_config s'))"
  "calibrateEq w i s = (Some e, s') \<Longrightarrow> errorClass e = CalibrationToleranceError \<Longrightarrow>
     eq_calibrationType (eqConfigs (m_config s') ! i) = CalibrationType_Bootstrap
     \<and> \<not> eqSkipped (eqConfigs (m_config s') ! i)
     \<and> \<not> \<bar>m_eqOptionCalibrationErrors s' ! i\<bar> < bootstrapTolerance (m_config s')
     \<and> e = CalibrationErrorExceedsTolerance (m_eqOptionCalibrationErrors s' ! i)
           (bootstrapTolerance (m_config s'))"
  "calibrateInf w i s = (Some e, s') \<Longrightarrow> errorClass e = CalibrationToleranceError \<Longrightarrow>
     inf_calibrationType (infConfigs (m_config s') ! i) = CalibrationType_Bootstrap
     \<and> \<not> infSkipped (infConfigs (m_config s') ! i)
     \<and> \<not> \<bar>m_infCapFloorCalibrationErrors s' ! i\<bar> < bootstrapTolerance (m_config s')
     \<and> e = CalibrationErrorExceedsTolerance (m_infCapFloorCalibrationErrors s' ! i)
           (bootstrapTolerance (m_config s'))"
  by (auto simp: stage_defs Let_def split: option.splits sum.splits if_splits)

lemma exampleBuilt2_facts:
  "m_model exampleBuilt2 = Some exampleModel"
  "m_market exampleBuilt2 = Some exampleMarket"
  "m_config exampleBuilt2 = exampleConfig2"
  "m_configurationInfCalibration exampleBuilt2 = ''inf''"
proof -
  let ?w = "exampleCollaborators 0" and ?s = "exampleBuilder exampleConfig2"
  show "m_model exampleBuilt2 = Some exampleModel" by code_simp
  have "fst (sequence (construction ?w) ?s) = None" by code_simp
  then have "sequence (construction ?w) ?s = (None, exampleBuilt2)"
    unfolding exampleBuilt2_def by (metis prod.collapse)
  from construction_success(1)[OF this]
  show "m_market exampleBuilt2 = Some exampleMarket" "m_config exampleBuilt2 = exampleConfig2"
    "m_configurationInfCalibration exampleBuilt2 = ''inf''"
    by (simp_all add: ctx_def exampleBuilder_def emptyBuilder_def)
qed





text \<open>
  The equity stage does not look at the calibration type when it decides whether to skip:
  an equity factor of type None that asks for its volatility to be fitted is calibrated
  globally, where the FX and inflation stages skip a factor of type None.
\<close>

lemma calibrateEq_type_none_example:
  "eqConfigs (m_config exampleBuilt) ! 0 = exampleEq
   \<and> eq_calibrationType exampleEq = CalibrationType_None
   \<and> eq_calibrateSigma exampleEq
   \<and> trace (snd (calibrateEq (exampleCollaborators 0) 0 exampleBuilt)) = trace exampleBuilt
       @ [SetPricingEngines EQ 0, Calibrated (BsVolatilitiesGlobal EQ 0), LogCalibrationErrors EQ 0]"
  by code_simp

text \<open>
  A recorded error whose magnitude equals the tolerance does not exceed it, and the
  build throws all the same.
\<close>

theorem bootstrap_tolerance_counterexample:
  "fx_calibrationType (fxConfigs exampleConfig ! 0) = CalibrationType_Bootstrap
   \<and> fst (buildModel (exampleCollaborators (1 / 100)) (exampleBuilder exampleConfig))
       = Some (CalibrationErrorExceedsTolerance (1 / 100) (1 / 100))
   \<and> m_fxOptionCalibrationErrors
        (snd (buildModel (exampleCollaborators (1 / 100)) (exampleBuilder exampleConfig))) ! 0 = 1 / 100
   \<and> bootstrapTolerance exampleConfig = 1 / 100
   \<and> \<not> \<bar>1 / 100 :: real\<bar> > 1 / 100"
  by code_simp

lemma sequence_Some_rel:
  assumes "\<And>s. R s s" and "\<And>a b c. R a b \<Longrightarrow> R b c \<Longrightarrow> R a c"
    and "\<And>f. f \<in> set fs \<Longrightarrow> preserves R f"
    and "sequence fs s = (Some e, s')"
  shows "\<exists>f\<in>set fs. \<exists>s1. R s s1 \<and> f s1 = (Some e, s')"
  using assms(3,4)
proof (induction fs arbitrary: s)
  case Nil
  then show ?case by simp
next
  case (Cons a fs)
  obtain x s1 where a: "a s = (x, s1)" by (cases "a s")
  show ?case
  proof (cases x)
    case None
    then have r: "sequence fs s1 = (Some e, s')" using a Cons.prems(2) by simp
    have "R s s1" using Cons.prems(1)[of a] a by (auto simp: preserves_def dest: spec[of _ s])
    moreover obtain f s2 where "f \<in> set fs" "R s1 s2" "f s2 = (Some e, s')"
      using Cons.IH[OF _ r] Cons.prems(1) by auto
    ultimately show ?thesis using assms(2) by (metis list.set_intros(2))
  next
    case (Some e1)
    then have "a s = (Some e, s')" using a Cons.prems(2) by simp
    then show ?thesis using assms(1) by auto
  qed
qed

lemma buildModel_ctx: "ctx (snd (buildModel w s)) = ctx s"
proof -
  let ?P = "tl (subModels w) @ [checkParametrizationSizes, buildCorrelationMatrix w]"
  let ?Q = "buildCrossAssetModel w # cascade w"
  let ?s0 = "called BuildModel s"
  obtain x s1 where p: "sequence ?P ?s0 = (x, s1)" by (cases "sequence ?P ?s0")
  have "emits constructionEvents ?s0 s1"
    using subModels_emits[of w] p by (auto simp: preserves_def dest: spec[of _ ?s0])
  then have c1: "ctx s1 = ctx s" by (simp add: emits_def called_def ctx_def)
  show ?thesis
  proof (cases x)
    case (Some e)
    then show ?thesis using p c1 by (simp add: buildModel_split)
  next
    case None
    have "proceeds s1 (snd (sequence ?Q s1))" using cascade_proceeds[of w] by (simp add: preserves_def)
    then show ?thesis using p c1 None by (simp add: buildModel_split proceeds_def emits_def)
  qed
qed

lemma construction_raises:
  "raises (sequence (construction w)) (\<lambda>e. errorClass e \<noteq> CalibrationToleranceError)"
proof -
  have 1: "raises (sequence (subModels w)) (\<lambda>e. errorClass e \<noteq> CalibrationToleranceError)"
    using subModels_raises[of w] by (auto simp: raises_def ordinary_def)
  have 2: "raises checkParametrizationSizes (\<lambda>e. errorClass e \<noteq> CalibrationToleranceError)"
    by (auto simp: raises_def stage_defs split: if_splits)
  have 3: "raises (buildCorrelationMatrix w) (\<lambda>e. errorClass e \<noteq> CalibrationToleranceError)"
    "raises (buildCrossAssetModel w) (\<lambda>e. errorClass e \<noteq> CalibrationToleranceError)"
    using construction_stage_raises(13,14)[of w] by (auto simp: raises_def ordinary_def)
  have "sequence (construction w) = sequence [sequence (subModels w), checkParametrizationSizes,
      buildCorrelationMatrix w, buildCrossAssetModel w]"
    by (rule ext) (simp add: construction_def sequence_append split: prod.splits option.splits)
  moreover have "raises (sequence [sequence (subModels w), checkParametrizationSizes,
      buildCorrelationMatrix w, buildCrossAssetModel w]) (\<lambda>e. errorClass e \<noteq> CalibrationToleranceError)"
    by (rule raises_sequence) (use 1 2 3 in auto)
  ultimately show ?thesis by simp
qed

lemma cascade_preserves_proceeds: "f \<in> set (cascade w) \<Longrightarrow> preserves proceeds f"
  by (auto simp: cascade_def relinkDiscountCurves_def
      intro: cascade_stage_proceeds preserves_forLoop[OF proceeds_refl proceeds_trans])

lemma collectIrError_never_fails:
  "fst (forLoop (\<lambda>s. length (irBuilder s)) collectIrError s) = None"
proof (rule ccontr)
  assume "fst (forLoop (\<lambda>s. length (irBuilder s)) collectIrError s) \<noteq> None"
  then obtain e s' where "forLoop (\<lambda>s. length (irBuilder s)) collectIrError s = (Some e, s')"
    by (metis not_Some_eq prod.collapse)
  then obtain i s1 where "collectIrError i s1 = (Some e, s')" by (blast dest: forLoop_Some)
  then show False by (simp add: collectIrError_def)
qed

lemma buildModel_tolerance:
  assumes b: "buildModel w s0 = (Some e, s')" and c: "errorClass e = CalibrationToleranceError"
  shows "toleranceBreach s' e"
proof -
  have cfg: "m_config s' = m_config s0" using buildModel_ctx[of w s0] b by (simp add: ctx_def)
  obtain x sc where con: "sequence (construction w) s0 = (x, sc)"
    by (cases "sequence (construction w) s0")
  show ?thesis
  proof (cases x)
    case (Some e1)
    then have "sequence (construction w) s0 = (Some e, s')"
      using b con by (simp add: buildModel_def sequence_append)
    then show ?thesis using construction_raises[of w] c by (auto simp: raises_def)
  next
    case None
    then have cas: "sequence (cascade w) sc = (Some e, s')"
      using b con by (simp add: buildModel_def sequence_append)
    note k = construction_success[OF con[unfolded None]]
    have ksc: "m_config sc = m_config s0" using k(1) by (simp add: ctx_def)
    have "\<exists>f\<in>set (cascade w). \<exists>s1. proceeds sc s1 \<and> f s1 = (Some e, s')"
    proof (rule sequence_Some_rel[where R=proceeds])
      show "\<And>s. proceeds s s" by (rule proceeds_refl)
      show "\<And>a b c. proceeds a b \<Longrightarrow> proceeds b c \<Longrightarrow> proceeds a c" by (rule proceeds_trans)
      show "\<And>f. f \<in> set (cascade w) \<Longrightarrow> preserves proceeds f" by (rule cascade_preserves_proceeds)
      show "sequence (cascade w) sc = (Some e, s')" by (rule cas)
    qed
    then obtain f s1 where f: "f \<in> set (cascade w)" and r: "proceeds sc s1" and fs: "f s1 = (Some e, s')"
      by blast
    have bl: "built s1 = built sc" using r by (simp add: proceeds_def)
    from f consider
        (ir) "f = forLoop (\<lambda>s. length (irBuilder s)) collectIrError"
      | (relink) cfg where "f = relinkDiscountCurves cfg"
      | (fx) "f = forLoop (\<lambda>s. length (fxParametrizations s)) (calibrateFx w)"
      | (eq) "f = forLoop (\<lambda>s. length (eqParametrizations s)) (calibrateEq w)"
      | (inf) "f = forLoop (\<lambda>s. length (infParametrizations s)) (calibrateInf w)"
      | (upd) "f = modelUpdate"
      by (auto simp: cascade_def)
    then show ?thesis
    proof cases
      case ir
      then show ?thesis using fs collectIrError_never_fails[of s1] by simp
    next
      case relink
      have "raises f ordinary" unfolding relink relinkDiscountCurves_def
        by (rule raises_forLoop) (rule construction_stage_raises)
      then show ?thesis using fs c by (auto simp: raises_def ordinary_def)
    next
      case fx
      then obtain i s2 where i: "i < length (fxParametrizations s1)"
        and st: "calibrateFx w i s2 = (Some e, s')"
        using fs by (blast dest: forLoop_Some)
      have "i < length (fxConfigs (m_config s'))" using i bl k(6) cfg by (simp add: built_def)
      then show ?thesis using calibrate_tolerance(1)[OF st c] unfolding toleranceBreach_def by blast
    next
      case eq
      then obtain i s2 where i: "i < length (eqParametrizations s1)"
        and st: "calibrateEq w i s2 = (Some e, s')"
        using fs by (blast dest: forLoop_Some)
      have "i < length (eqConfigs (m_config s'))" using i bl k(7) cfg by (simp add: built_def)
      then show ?thesis using calibrate_tolerance(2)[OF st c] unfolding toleranceBreach_def by blast
    next
      case inf
      then obtain i s2 where i: "i < length (infParametrizations s1)"
        and st: "calibrateInf w i s2 = (Some e, s')"
        using fs by (blast dest: forLoop_Some)
      have "i < length (infConfigs (m_config s'))" using i bl k(8) cfg by (simp add: built_def)
      then show ?thesis using calibrate_tolerance(3)[OF st c] unfolding toleranceBreach_def by blast
    next
      case upd
      then show ?thesis using fs c construction_stage_raises(17) by (auto simp: raises_def ordinary_def)
    qed
  qed
qed

lemma gateOutcome_iff:
  "gateOutcome b e t \<noteq> None \<longleftrightarrow> b \<and> t \<le> \<bar>e\<bar>"
  "gateOutcome b e t = Some x \<Longrightarrow> errorClass x = CalibrationToleranceError"
  by (auto simp: gateOutcome_def split: if_splits)

lemma calibrate_recorded:
  assumes "m_model s = Some m"
  shows "\<not> fxSkipped (fxConfigs (m_config s) ! i) \<Longrightarrow>
      i < length (m_fxOptionCalibrationErrors s) \<Longrightarrow> i < length (m_fxOptionBaskets s) \<Longrightarrow>
      m_fxOptionCalibrationErrors (snd (calibrateFx w i s)) ! i
        = logCalibrationErrors w
            (setPricingEngine (AnalyticCcLgmFxOptionEngine i True) (m_fxOptionBaskets s ! i))
            (fxParametrizations s ! i) (irParametrizations s ! 0)
            (calibrated [fxCalibration (fxConfigs (m_config s) ! i) i] m) (irDiscountCurves s)"
    and "\<not> eqSkipped (eqConfigs (m_config s) ! i) \<Longrightarrow>
      ccyIndex w m (p_currency (eqParametrizations s ! i)) = Inr k \<Longrightarrow>
      i < length (m_eqOptionCalibrationErrors s) \<Longrightarrow> i < length (m_eqOptionBaskets s) \<Longrightarrow>
      m_eqOptionCalibrationErrors (snd (calibrateEq w i s)) ! i
        = logCalibrationErrors w
            (setPricingEngine (AnalyticXAssetLgmEquityOptionEngine i k) (m_eqOptionBaskets s ! i))
            (eqParametrizations s ! i) (irParametrizations s ! 0)
            (calibrated [eqCalibration (eqConfigs (m_config s) ! i) i] m) (irDiscountCurves s)"
    and "\<not> infSkipped (infConfigs (m_config s) ! i) \<Longrightarrow>
      m_market s = Some mk \<Longrightarrow>
      zeroInflationIndex mk (p_name (infParametrizations s ! i)) (m_configurationInfCalibration s) = Inr b \<Longrightarrow>
      i < length (m_infCapFloorCalibrationErrors s) \<Longrightarrow> i < length (m_infCapFloorBaskets s) \<Longrightarrow>
      m_infCapFloorCalibrationErrors (snd (calibrateInf w i s)) ! i
        = logCalibrationErrors w
            (setPricingEngine (AnalyticDkCpiCapFloorEngine i b) (m_infCapFloorBaskets s ! i))
            (infParametrizations s ! i) (irParametrizations s ! 0)
            (calibrated [infCalibration (infConfigs (m_config s) ! i) i] m) (irDiscountCurves s)"
  using assms by (auto simp: stage_defs calibrated_def Let_def)

lemma gateOutcome_guard:
  "gateOutcome b e t \<noteq> None \<longleftrightarrow> b \<and> \<not> \<bar>e\<bar> < t"
  by (auto simp: gateOutcome_def)

lemma breach_not_within: "toleranceBreach s e \<Longrightarrow> \<not> withinTolerance s"
  unfolding toleranceBreach_def withinTolerance_def by blast

lemma buildModel_completed:
  assumes "buildModel w s = (None, s')"
  shows "withinTolerance s'" and "subModelsBuilt w s'"
    and "m_swaptionCalibrationErrors s' = map lgm_error (irBuilder s')"
    and "\<exists>m. jointModelOf w s' = Inr m
          \<and> m_model s' = Some ((calibrated (specifiedCalibrations (m_config s)) m)
                \<lparr>cam_updates := Suc (cam_updates m)\<rparr>)"
proof -
  from assms obtain s0 where con: "sequence (construction w) s = (None, s0)"
    and cas: "sequence (cascade w) s0 = (None, s')"
    by (auto simp: buildModel_def sequence_append split: prod.splits option.splits)
  note k = construction_success[OF con]
  note cb = construction_built[OF con]
  from cb(2) obtain m where m: "jointModelOf w s0 = Inr m" "m_model s0 = Some m" by blast
  have c0: "m_config s0 = m_config s" using k(1) by (simp add: ctx_def)
  note q = cascade_success[OF cas, unfolded c0, OF k(3-8)]
  note ce = cascade_effects[OF cas, unfolded c0, OF k(3-8) cb(3) m(2)]
  show "withinTolerance s'" by (rule ce(3))
  show "m_swaptionCalibrationErrors s' = map lgm_error (irBuilder s')" by (rule ce(2))
  have cb': "ctx s' = ctx s0" "built s' = built s0" using q by simp_all
  then show "subModelsBuilt w s'" using cb(1) subModelsBuilt_cong by blast
  show "\<exists>m. jointModelOf w s' = Inr m
          \<and> m_model s' = Some ((calibrated (specifiedCalibrations (m_config s)) m)
                \<lparr>cam_updates := Suc (cam_updates m)\<rparr>)"
    using m(1) ce(4) jointModelOf_cong[OF cb'] by simp
qed

text \<open>
  C2, with the comparison as the code makes it: for an FX, equity or inflation factor
  that is calibrated, the calibration step throws exactly when the type is Bootstrap and
  the magnitude of the recorded error is not strictly below the bootstrap tolerance (an
  error whose magnitude equals the tolerance throws), and what it throws is a calibration
  tolerance error; the error recorded is the one reported for the basket with its engines
  attached, the calibrated joint model and the discount curves as they are linked.
  Collecting the rate errors never throws, whatever their magnitude, and records the error
  of each rate sub-builder. A calibration tolerance error thrown by a build comes from a
  calibrated FX, equity or inflation factor of type Bootstrap whose recorded error has a
  magnitude that is not below the tolerance: never from a rate factor and never from a
  factor of another type. A build that completes has every calibrated FX, equity and
  inflation factor of type Bootstrap within the tolerance, and its rate errors are those of
  the rate sub-builders constructed from the market and the rate configurations. So a
  build that completes or throws a calibration tolerance error throws exactly when some
  calibrated factor of type Bootstrap is not within the tolerance.
\<close>

theorem bootstrap_tolerance_gate:
  assumes "m_model s = Some m"
    and "ccyIndex w m (p_currency (eqParametrizations s ! i)) = Inr k"
    and "m_market s = Some mk"
    and "zeroInflationIndex mk (p_name (infParametrizations s ! i)) (m_configurationInfCalibration s) = Inr b"
  shows "(\<not> fxSkipped (fxConfigs (m_config s) ! i) \<longrightarrow>
           (fst (calibrateFx w i s) \<noteq> None \<longleftrightarrow>
              fx_calibrationType (fxConfigs (m_config s) ! i) = CalibrationType_Bootstrap
              \<and> \<not> \<bar>m_fxOptionCalibrationErrors (snd (calibrateFx w i s)) ! i\<bar>
                    < bootstrapTolerance (m_config s))
           \<and> (\<forall>e. fst (calibrateFx w i s) = Some e \<longrightarrow> errorClass e = CalibrationToleranceError)
           \<and> (i < length (m_fxOptionCalibrationErrors s) \<and> i < length (m_fxOptionBaskets s) \<longrightarrow>
                m_fxOptionCalibrationErrors (snd (calibrateFx w i s)) ! i
                  = logCalibrationErrors w
                      (setPricingEngine (AnalyticCcLgmFxOptionEngine i True) (m_fxOptionBaskets s ! i))
                      (fxParametrizations s ! i) (irParametrizations s ! 0)
                      (calibrated [fxCalibration (fxConfigs (m_config s) ! i) i] m)
                      (irDiscountCurves s)))
    \<and> (\<not> eqSkipped (eqConfigs (m_config s) ! i) \<longrightarrow>
           (fst (calibrateEq w i s) \<noteq> None \<longleftrightarrow>
              eq_calibrationType (eqConfigs (m_config s) ! i) = CalibrationType_Bootstrap
              \<and> \<not> \<bar>m_eqOptionCalibrationErrors (snd (calibrateEq w i s)) ! i\<bar>
                    < bootstrapTolerance (m_config s))
           \<and> (\<forall>e. fst (calibrateEq w i s) = Some e \<longrightarrow> errorClass e = CalibrationToleranceError)
           \<and> (i < length (m_eqOptionCalibrationErrors s) \<and> i < length (m_eqOptionBaskets s) \<longrightarrow>
                m_eqOptionCalibrationErrors (snd (calibrateEq w i s)) ! i
                  = logCalibrationErrors w
                      (setPricingEngine (AnalyticXAssetLgmEquityOptionEngine i k) (m_eqOptionBaskets s ! i))
                      (eqParametrizations s ! i) (irParametrizations s ! 0)
                      (calibrated [eqCalibration (eqConfigs (m_config s) ! i) i] m)
                      (irDiscountCurves s)))
    \<and> (\<not> infSkipped (infConfigs (m_config s) ! i) \<longrightarrow>
           (fst (calibrateInf w i s) \<noteq> None \<longleftrightarrow>
              inf_calibrationType (infConfigs (m_config s) ! i) = CalibrationType_Bootstrap
              \<and> \<not> \<bar>m_infCapFloorCalibrationErrors (snd (calibrateInf w i s)) ! i\<bar>
                    < bootstrapTolerance (m_config s))
           \<and> (\<forall>e. fst (calibrateInf w i s) = Some e \<longrightarrow> errorClass e = CalibrationToleranceError)
           \<and> (i < length (m_infCapFloorCalibrationErrors s) \<and> i < length (m_infCapFloorBaskets s) \<longrightarrow>
                m_infCapFloorCalibrationErrors (snd (calibrateInf w i s)) ! i
                  = logCalibrationErrors w
                      (setPricingEngine (AnalyticDkCpiCapFloorEngine i b) (m_infCapFloorBaskets s ! i))
                      (infParametrizations s ! i) (irParametrizations s ! 0)
                      (calibrated [infCalibration (infConfigs (m_config s) ! i) i] m)
                      (irDiscountCurves s)))
    \<and> fst (forLoop (\<lambda>s. length (irBuilder s)) collectIrError s) = None
    \<and> (length (m_swaptionCalibrationErrors s) = length (irBuilder s) \<longrightarrow>
          m_swaptionCalibrationErrors (snd (forLoop (\<lambda>s. length (irBuilder s)) collectIrError s))
            = map lgm_error (irBuilder s))
    \<and> (\<forall>e s'. buildModel w s0 = (Some e, s') \<and> errorClass e = CalibrationToleranceError
          \<longrightarrow> toleranceBreach s' e)
    \<and> (\<forall>s'. buildModel w s0 = (None, s') \<longrightarrow>
          withinTolerance s'
          \<and> m_swaptionCalibrationErrors s' = map lgm_error (irBuilder s')
          \<and> (\<exists>mk. m_market s' = Some mk
                \<and> map Inr (irBuilder s')
                    = map (\<lambda>ir. newLgmBuilder w mk ir (m_configurationLgmCalibration s')
                             (bootstrapTolerance (m_config s'))) (irConfigs (m_config s'))))
    \<and> (\<forall>r s'. buildModel w s0 = (r, s')
          \<and> (r = None \<or> (\<exists>e. r = Some e \<and> errorClass e = CalibrationToleranceError))
          \<longrightarrow> (r \<noteq> None \<longleftrightarrow> \<not> withinTolerance s'))"
proof (intro conjI impI allI)
  assume n: "\<not> fxSkipped (fxConfigs (m_config s) ! i)"
  note r = calibrateFx_run(2)[OF assms(1) n, of w]
  show "fst (calibrateFx w i s) \<noteq> None \<longleftrightarrow>
      fx_calibrationType (fxConfigs (m_config s) ! i) = CalibrationType_Bootstrap
      \<and> \<not> \<bar>m_fxOptionCalibrationErrors (snd (calibrateFx w i s)) ! i\<bar> < bootstrapTolerance (m_config s)"
    by (subst r) (rule gateOutcome_guard)
  {
    fix e assume "fst (calibrateFx w i s) = Some e"
    then show "errorClass e = CalibrationToleranceError" using r gateOutcome_iff(2) by metis
  }
  assume "i < length (m_fxOptionCalibrationErrors s) \<and> i < length (m_fxOptionBaskets s)"
  then show "m_fxOptionCalibrationErrors (snd (calibrateFx w i s)) ! i
      = logCalibrationErrors w
          (setPricingEngine (AnalyticCcLgmFxOptionEngine i True) (m_fxOptionBaskets s ! i))
          (fxParametrizations s ! i) (irParametrizations s ! 0)
          (calibrated [fxCalibration (fxConfigs (m_config s) ! i) i] m) (irDiscountCurves s)"
    using calibrate_recorded(1)[OF assms(1) n] by simp
next
  assume n: "\<not> eqSkipped (eqConfigs (m_config s) ! i)"
  note r = calibrateEq_run(2)[OF assms(1) n assms(2)]
  show "fst (calibrateEq w i s) \<noteq> None \<longleftrightarrow>
      eq_calibrationType (eqConfigs (m_config s) ! i) = CalibrationType_Bootstrap
      \<and> \<not> \<bar>m_eqOptionCalibrationErrors (snd (calibrateEq w i s)) ! i\<bar> < bootstrapTolerance (m_config s)"
    by (subst r) (rule gateOutcome_guard)
  {
    fix e assume "fst (calibrateEq w i s) = Some e"
    then show "errorClass e = CalibrationToleranceError" using r gateOutcome_iff(2) by metis
  }
  assume "i < length (m_eqOptionCalibrationErrors s) \<and> i < length (m_eqOptionBaskets s)"
  then show "m_eqOptionCalibrationErrors (snd (calibrateEq w i s)) ! i
      = logCalibrationErrors w
          (setPricingEngine (AnalyticXAssetLgmEquityOptionEngine i k) (m_eqOptionBaskets s ! i))
          (eqParametrizations s ! i) (irParametrizations s ! 0)
          (calibrated [eqCalibration (eqConfigs (m_config s) ! i) i] m) (irDiscountCurves s)"
    using calibrate_recorded(2)[OF assms(1) n assms(2)] by simp
next
  assume n: "\<not> infSkipped (infConfigs (m_config s) ! i)"
  note r = calibrateInf_run(2)[OF assms(1) n assms(3,4), of w]
  show "fst (calibrateInf w i s) \<noteq> None \<longleftrightarrow>
      inf_calibrationType (infConfigs (m_config s) ! i) = CalibrationType_Bootstrap
      \<and> \<not> \<bar>m_infCapFloorCalibrationErrors (snd (calibrateInf w i s)) ! i\<bar> < bootstrapTolerance (m_config s)"
    by (subst r) (rule gateOutcome_guard)
  {
    fix e assume "fst (calibrateInf w i s) = Some e"
    then show "errorClass e = CalibrationToleranceError" using r gateOutcome_iff(2) by metis
  }
  assume "i < length (m_infCapFloorCalibrationErrors s) \<and> i < length (m_infCapFloorBaskets s)"
  then show "m_infCapFloorCalibrationErrors (snd (calibrateInf w i s)) ! i
      = logCalibrationErrors w
          (setPricingEngine (AnalyticDkCpiCapFloorEngine i b) (m_infCapFloorBaskets s ! i))
          (infParametrizations s ! i) (irParametrizations s ! 0)
          (calibrated [infCalibration (infConfigs (m_config s) ! i) i] m) (irDiscountCurves s)"
    using calibrate_recorded(3)[OF assms(1) n assms(3,4)] by simp
next
  show "fst (forLoop (\<lambda>s. length (irBuilder s)) collectIrError s) = None"
    by (rule collectIrError_never_fails)
next
  assume l: "length (m_swaptionCalibrationErrors s) = length (irBuilder s)"
  have "forLoop (\<lambda>s. length (irBuilder s)) collectIrError s
      = (None, snd (forLoop (\<lambda>s. length (irBuilder s)) collectIrError s))"
    using collectIrError_never_fails[of s] by (metis prod.collapse)
  from collectIrError_recorded[OF this l]
  show "m_swaptionCalibrationErrors (snd (forLoop (\<lambda>s. length (irBuilder s)) collectIrError s))
      = map lgm_error (irBuilder s)" .
next
  fix e s'
  assume "buildModel w s0 = (Some e, s') \<and> errorClass e = CalibrationToleranceError"
  then show "toleranceBreach s' e" using buildModel_tolerance by blast
next
  fix s'
  assume h: "buildModel w s0 = (None, s')"
  show "withinTolerance s'" by (rule buildModel_completed(1)[OF h])
  show "m_swaptionCalibrationErrors s' = map lgm_error (irBuilder s')"
    by (rule buildModel_completed(3)[OF h])
  show "\<exists>mk. m_market s' = Some mk
      \<and> map Inr (irBuilder s')
          = map (\<lambda>ir. newLgmBuilder w mk ir (m_configurationLgmCalibration s')
                   (bootstrapTolerance (m_config s'))) (irConfigs (m_config s'))"
    using buildModel_completed(2)[OF h] by (auto simp: subModelsBuilt_def split: option.splits)
next
  fix r s'
  assume h: "buildModel w s0 = (r, s')
      \<and> (r = None \<or> (\<exists>e. r = Some e \<and> errorClass e = CalibrationToleranceError))"
  show "r \<noteq> None \<longleftrightarrow> \<not> withinTolerance s'"
  proof (cases r)
    case None
    then show ?thesis using h buildModel_completed(1) by blast
  next
    case (Some e)
    then have "toleranceBreach s' e" using h buildModel_tolerance by auto
    then show ?thesis using Some breach_not_within by blast
  qed
qed

theorem bootstrap_tolerance_gate_witness:
  "fst (calibrateFx (exampleCollaborators (1 / 100)) 0 exampleBuilt2) \<noteq> None
   \<and> fst (calibrateEq (exampleCollaborators (1 / 100)) 0 exampleBuilt2) \<noteq> None
   \<and> fst (calibrateInf (exampleCollaborators (1 / 100)) 0 exampleBuilt2) \<noteq> None
   \<and> fst (forLoop (\<lambda>s. length (irBuilder s)) collectIrError exampleBuilt2) = None
   \<and> toleranceBreach (snd (buildModel (exampleCollaborators (1 / 100)) (exampleBuilder exampleConfig)))
        (CalibrationErrorExceedsTolerance (1 / 100) (1 / 100))
   \<and> buildModel rateErrorCollaborators (exampleBuilder exampleConfig2)
       = (None, snd (buildModel rateErrorCollaborators (exampleBuilder exampleConfig2)))
   \<and> m_swaptionCalibrationErrors (snd (buildModel rateErrorCollaborators (exampleBuilder exampleConfig2)))
       = [1 / 2, 1 / 2]
   \<and> \<bar>m_fxOptionCalibrationErrors
         (snd (buildModel rateErrorCollaborators (exampleBuilder exampleConfig2))) ! 0\<bar> < 1 / 100
   \<and> \<bar>m_eqOptionCalibrationErrors
         (snd (buildModel rateErrorCollaborators (exampleBuilder exampleConfig2))) ! 0\<bar> < 1 / 100
   \<and> \<bar>m_infCapFloorCalibrationErrors
         (snd (buildModel rateErrorCollaborators (exampleBuilder exampleConfig2))) ! 0\<bar> < 1 / 100
   \<and> m_fxOptionCalibrationErrors
         (snd (buildModel rateErrorCollaborators (exampleBuilder exampleConfig2))) = [1 / 200]
   \<and> m_fxOptionCalibrationErrors (snd (calibrateFx (exampleCollaborators (1 / 100)) 0 exampleBuilt2)) ! 0
       = 1 / 100
   \<and> m_eqOptionCalibrationErrors (snd (calibrateEq (exampleCollaborators (1 / 100)) 0 exampleBuilt2)) ! 0
       = 1 / 100
   \<and> m_infCapFloorCalibrationErrors (snd (calibrateInf (exampleCollaborators (1 / 100)) 0 exampleBuilt2)) ! 0
       = 1 / 100
   \<and> m_swaptionCalibrationErrors
         (snd (forLoop (\<lambda>s. length (irBuilder s)) collectIrError exampleBuilt2))
       = map lgm_error (irBuilder exampleBuilt2)"
proof -
  let ?w = "exampleCollaborators (1 / 100)" and ?s0 = "exampleBuilder exampleConfig"
  let ?w2 = "rateErrorCollaborators" and ?s2 = "exampleBuilder exampleConfig2"
  have 2: "ccyIndex ?w exampleModel (p_currency (eqParametrizations exampleBuilt2 ! 0)) = Inr 0"
    "ccyIndex ?w2 exampleModel (p_currency (eqParametrizations exampleBuilt2 ! 0)) = Inr 0"
    by (simp_all add: exampleCollaborators_def rateErrorCollaborators_def)
  have 4: "zeroInflationIndex exampleMarket (p_name (infParametrizations exampleBuilt2 ! 0))
      (m_configurationInfCalibration exampleBuilt2) = Inr 100"
    by (simp add: exampleMarket_def)
  note g = bootstrap_tolerance_gate[OF exampleBuilt2_facts(1) 2(1) exampleBuilt2_facts(2) 4,
      where ?s0.0 = "exampleBuilder exampleConfig"]
  note g2 = bootstrap_tolerance_gate[OF exampleBuilt2_facts(1) 2(2) exampleBuilt2_facts(2) 4,
      where ?s0.0 = "exampleBuilder exampleConfig2"]
  have c: "\<not> fxSkipped (fxConfigs (m_config exampleBuilt2) ! 0)"
    "\<not> eqSkipped (eqConfigs (m_config exampleBuilt2) ! 0)"
    "\<not> infSkipped (infConfigs (m_config exampleBuilt2) ! 0)"
    "fx_calibrationType (fxConfigs (m_config exampleBuilt2) ! 0) = CalibrationType_Bootstrap"
    "eq_calibrationType (eqConfigs (m_config exampleBuilt2) ! 0) = CalibrationType_Bootstrap"
    "inf_calibrationType (infConfigs (m_config exampleBuilt2) ! 0) = CalibrationType_Bootstrap"
    "bootstrapTolerance (m_config exampleBuilt2) = 1 / 100"
    by (simp_all add: exampleBuilt2_facts(3) exampleConfig2_def exampleConfig_def exampleFx_def
        exampleEq_def exampleInf_def fxSkipped_def eqSkipped_def infSkipped_def)
  have n: "0 < length (m_fxOptionCalibrationErrors exampleBuilt2)"
    "0 < length (m_fxOptionBaskets exampleBuilt2)"
    "0 < length (m_eqOptionCalibrationErrors exampleBuilt2)"
    "0 < length (m_eqOptionBaskets exampleBuilt2)"
    "0 < length (m_infCapFloorCalibrationErrors exampleBuilt2)"
    "0 < length (m_infCapFloorBaskets exampleBuilt2)"
    "length (m_swaptionCalibrationErrors exampleBuilt2) = length (irBuilder exampleBuilt2)"
    by code_simp+
  have r: "m_fxOptionCalibrationErrors (snd (calibrateFx ?w 0 exampleBuilt2)) ! 0 = 1 / 100"
    "m_eqOptionCalibrationErrors (snd (calibrateEq ?w 0 exampleBuilt2)) ! 0 = 1 / 100"
    "m_infCapFloorCalibrationErrors (snd (calibrateInf ?w 0 exampleBuilt2)) ! 0 = 1 / 100"
    using g c(1-3) n(1-6) by (simp_all add: exampleCollaborators_def)
  have q: "m_swaptionCalibrationErrors
         (snd (forLoop (\<lambda>s. length (irBuilder s)) collectIrError exampleBuilt2))
       = map lgm_error (irBuilder exampleBuilt2)"
    using g n(7) by simp
  have "fst (buildModel ?w ?s0) = Some (CalibrationErrorExceedsTolerance (1 / 100) (1 / 100))"
    by code_simp
  then have b: "buildModel ?w ?s0
      = (Some (CalibrationErrorExceedsTolerance (1 / 100) (1 / 100)), snd (buildModel ?w ?s0))"
    by (metis prod.collapse)
  have t: "toleranceBreach (snd (buildModel ?w ?s0)) (CalibrationErrorExceedsTolerance (1 / 100) (1 / 100))"
    using g b by simp
  have 1: "fst (calibrateFx ?w 0 exampleBuilt2) \<noteq> None
   \<and> fst (calibrateEq ?w 0 exampleBuilt2) \<noteq> None
   \<and> fst (calibrateInf ?w 0 exampleBuilt2) \<noteq> None
   \<and> fst (forLoop (\<lambda>s. length (irBuilder s)) collectIrError exampleBuilt2) = None"
    using g c r by simp
  have "fst (buildModel ?w2 ?s2) = None" by code_simp
  then have h: "buildModel ?w2 ?s2 = (None, snd (buildModel ?w2 ?s2))"
    by (metis prod.collapse)
  from g2 h have k: "withinTolerance (snd (buildModel ?w2 ?s2))"
    "m_swaptionCalibrationErrors (snd (buildModel ?w2 ?s2))
      = map lgm_error (irBuilder (snd (buildModel ?w2 ?s2)))"
    by blast+
  have e: "map lgm_error (irBuilder (snd (buildModel ?w2 ?s2))) = [1 / 2, 1 / 2]" by code_simp
  have cfg: "m_config (snd (buildModel ?w2 ?s2)) = exampleConfig2"
    using buildModel_ctx[of ?w2 ?s2] by (simp add: ctx_def exampleBuilder_def emptyBuilder_def)
  have w: "\<bar>m_fxOptionCalibrationErrors (snd (buildModel ?w2 ?s2)) ! 0\<bar> < 1 / 100"
    "\<bar>m_eqOptionCalibrationErrors (snd (buildModel ?w2 ?s2)) ! 0\<bar> < 1 / 100"
    "\<bar>m_infCapFloorCalibrationErrors (snd (buildModel ?w2 ?s2)) ! 0\<bar> < 1 / 100"
    using k(1) unfolding withinTolerance_def cfg
    by (simp_all add: exampleConfig2_def exampleConfig_def exampleFx_def
        exampleEq_def exampleInf_def fxSkipped_def eqSkipped_def infSkipped_def)
  have f: "m_fxOptionCalibrationErrors (snd (buildModel ?w2 ?s2)) = [1 / 200]" by code_simp
  show ?thesis using 1 t h k(2) e w f r q by simp
qed

lemma requiresRecalibration_stale: "fst (requiresRecalibration s) = stale s"
  by (simp add: requiresRecalibration_def observerHasUpdated_def hasUpdated_def stale_def)

lemma performCalculations_fresh:
  "\<not> stale s \<Longrightarrow> performCalculations w s = (None, called (HasUpdated False) s)"
  by (simp add: performCalculations_def requiresRecalibration_def observerHasUpdated_def
      hasUpdated_def stale_def called_def)

lemma performCalculations_stale:
  "stale s \<Longrightarrow> performCalculations w s =
     (case buildModel w (rebuildStart s) of
        (None, s2) \<Rightarrow> (None, registerWithSubBuilders s2)
      | (Some e, s2) \<Rightarrow> (Some e, s2))"
  using requiresRecalibration_stale[of s]
  by (cases "requiresRecalibration s")
    (auto simp: performCalculations_def rebuildStart_def split: prod.splits option.splits)

lemma buildModel_trace:
  "\<exists>t. trace (snd (buildModel w s)) = trace s @ BuildModel # t \<and> set t \<subseteq> buildEvents"
proof -
  let ?P = "tl (subModels w) @ [checkParametrizationSizes, buildCorrelationMatrix w]"
  let ?Q = "buildCrossAssetModel w # cascade w"
  let ?s0 = "called BuildModel s"
  obtain x s1 where p: "sequence ?P ?s0 = (x, s1)" by (cases "sequence ?P ?s0")
  have "emits constructionEvents ?s0 s1"
    using subModels_emits[of w] p by (auto simp: preserves_def dest: spec[of _ ?s0])
  then obtain t where t: "trace s1 = trace s @ BuildModel # t" "set t \<subseteq> buildEvents"
    using constructionEvents_buildEvents by (auto simp: emits_def called_def)
  show ?thesis
  proof (cases x)
    case (Some e)
    then show ?thesis using p t by (simp add: buildModel_split)
  next
    case None
    have "proceeds s1 (snd (sequence ?Q s1))" using cascade_proceeds[of w] by (simp add: preserves_def)
    then obtain u where "trace (snd (sequence ?Q s1)) = trace s1 @ u" "set u \<subseteq> buildEvents"
      by (auto simp: proceeds_def emits_def)
    then have "trace (snd (buildModel w s)) = trace s @ BuildModel # (t @ u) \<and> set (t @ u) \<subseteq> buildEvents"
      using p t None by (simp add: buildModel_split)
    then show ?thesis by blast
  qed
qed

lemma buildModel_fresh:
  assumes "buildModel w s = (None, s')"
  shows "allFresh s'"
proof -
  from assms obtain sc where con: "sequence (construction w) s = (None, sc)"
    and cas: "sequence (cascade w) sc = (None, s')"
    by (auto simp: buildModel_def sequence_append split: prod.splits option.splits)
  note k = construction_success[OF con]
  have "preserves proceeds (sequence (cascade w))"
  proof (rule preserves_sequence)
    show "\<And>s. proceeds s s" by (rule proceeds_refl)
    show "\<And>a b c. proceeds a b \<Longrightarrow> proceeds b c \<Longrightarrow> proceeds a c" by (rule proceeds_trans)
    show "\<And>f. f \<in> set (cascade w) \<Longrightarrow> preserves proceeds f" by (rule cascade_preserves_proceeds)
  qed
  then have "proceeds sc s'" using cas by (auto simp: preserves_def dest: spec[of _ sc])
  then have "m_subBuilders s' = m_subBuilders sc" by (simp add: proceeds_def built_def)
  then show ?thesis using k(10) by (simp add: allFresh_def)
qed

lemma rebuildStart_observer:
  "updated (m_marketObserver (rebuildStart s)) = False"
  "m_observables (rebuildStart s) = m_observables s - set (m_subBuilders s)"
  "\<exists>q. trace (rebuildStart s) = trace s @ q @ [HasUpdated True]
       \<and> (q = [] \<or> q = [HasUpdated False])
       \<and> (q = [] \<longleftrightarrow> list_ex sb_requiresRecalibration (m_subBuilders s))"
  by (auto simp: rebuildStart_def unregisterWithSubBuilders_def observerHasUpdated_def
      hasUpdated_def requiresRecalibration_def called_def)

lemma buildEvents_quiet:
  assumes "set t \<subseteq> buildEvents"
  shows "filter isQuery t = []" and "count_list t BuildModel = 0"
proof -
  have "\<forall>e\<in>set t. \<not> isQuery e \<and> e \<noteq> BuildModel"
    using assms by (auto simp: buildEvents_def isQuery_def split: Event.splits)
  then show "filter isQuery t = []" "count_list t BuildModel = 0"
    by (auto simp: filter_empty_conv count_list_0_iff)
qed

lemma performCalculations_rebuild:
  assumes "stale s"
  shows "\<exists>t. trace (snd (performCalculations w s)) = trace (rebuildStart s) @ BuildModel # t
          \<and> set t \<subseteq> buildEvents"
    and "m_marketObserver (snd (performCalculations w s)) = m_marketObserver (rebuildStart s)"
proof -
  let ?b = "buildModel w (rebuildStart s)"
  have s: "snd (performCalculations w s)
      = (case fst ?b of None \<Rightarrow> registerWithSubBuilders (snd ?b) | Some e \<Rightarrow> snd ?b)"
    using performCalculations_stale[OF assms, of w]
    by (cases ?b) (auto split: option.splits)
  have t: "trace (snd (performCalculations w s)) = trace (snd ?b)"
    and o: "m_marketObserver (snd (performCalculations w s)) = m_marketObserver (snd ?b)"
    unfolding s by (auto simp: registerWithSubBuilders_def split: option.splits)
  show "\<exists>t. trace (snd (performCalculations w s)) = trace (rebuildStart s) @ BuildModel # t
          \<and> set t \<subseteq> buildEvents"
    using buildModel_trace[of w "rebuildStart s"] t by simp
  show "m_marketObserver (snd (performCalculations w s)) = m_marketObserver (rebuildStart s)"
    using buildModel_ctx[of w "rebuildStart s"] o by (simp add: ctx_def)
qed

text \<open>
  C6, as the code has it: the decision whether to rebuild queries the market observer
  once, without reset, when no sub-builder requires recalibration, and not at all when
  one does; it never changes the flag. A whole \<open>performCalculations\<close> makes one
  query with reset exactly when it rebuilds, after the query of the decision if there was
  one. Whatever happened, the flag is clear afterwards, so a decision that follows with
  no new quote change gets no change reported by the observer.
\<close>

theorem observer_queries:
  "drop (length (trace s)) (trace (snd (requiresRecalibration s)))
      = (if list_ex sb_requiresRecalibration (m_subBuilders s) then [] else [HasUpdated False])
   \<and> m_marketObserver (snd (requiresRecalibration s)) = m_marketObserver s
   \<and> filter isQuery (drop (length (trace s)) (trace (snd (performCalculations w s))))
      = (if list_ex sb_requiresRecalibration (m_subBuilders s) then [HasUpdated True]
         else if updated (m_marketObserver s) then [HasUpdated False, HasUpdated True]
         else [HasUpdated False])
   \<and> updated (m_marketObserver (snd (performCalculations w s))) = False
   \<and> fst (observerHasUpdated False (snd (performCalculations w s))) = False"
proof -
  have 1: "drop (length (trace s)) (trace (snd (requiresRecalibration s)))
      = (if list_ex sb_requiresRecalibration (m_subBuilders s) then [] else [HasUpdated False])"
    and 2: "m_marketObserver (snd (requiresRecalibration s)) = m_marketObserver s"
    by (simp_all add: requiresRecalibration_def observerHasUpdated_def hasUpdated_def called_def)
  have 3: "filter isQuery (drop (length (trace s)) (trace (snd (performCalculations w s))))
      = (if list_ex sb_requiresRecalibration (m_subBuilders s) then [HasUpdated True]
         else if updated (m_marketObserver s) then [HasUpdated False, HasUpdated True]
         else [HasUpdated False])"
    and 4: "updated (m_marketObserver (snd (performCalculations w s))) = False"
  proof -
    show "filter isQuery (drop (length (trace s)) (trace (snd (performCalculations w s))))
      = (if list_ex sb_requiresRecalibration (m_subBuilders s) then [HasUpdated True]
         else if updated (m_marketObserver s) then [HasUpdated False, HasUpdated True]
         else [HasUpdated False])"
    proof (cases "stale s")
      case False
      then show ?thesis
        using performCalculations_fresh[OF False, of w]
        by (simp add: stale_def called_def isQuery_def)
    next
      case True
      from performCalculations_rebuild(1)[OF True, of w] obtain t
        where t: "trace (snd (performCalculations w s)) = trace (rebuildStart s) @ BuildModel # t"
          "set t \<subseteq> buildEvents" by blast
      from rebuildStart_observer(3)[of s] obtain q
        where q: "trace (rebuildStart s) = trace s @ q @ [HasUpdated True]"
          "q = [] \<or> q = [HasUpdated False]"
          "q = [] \<longleftrightarrow> list_ex sb_requiresRecalibration (m_subBuilders s)" by blast
      have "filter isQuery (drop (length (trace s)) (trace (snd (performCalculations w s))))
          = q @ [HasUpdated True]"
        using t q(1,2) buildEvents_quiet(1)[OF t(2)] by (auto simp: isQuery_def)
      then show ?thesis using q(2,3) True by (auto simp: stale_def)
    qed
    show "updated (m_marketObserver (snd (performCalculations w s))) = False"
    proof (cases "stale s")
      case False
      then show ?thesis
        using performCalculations_fresh[OF False, of w] by (simp add: stale_def called_def)
    next
      case True
      then show ?thesis
        using performCalculations_rebuild(2)[OF True, of w] rebuildStart_observer(1)[of s] by simp
    qed
  qed
  have 5: "fst (observerHasUpdated False (snd (performCalculations w s))) = False"
    using 4 by (simp add: observerHasUpdated_def hasUpdated_def)
  show ?thesis using 1 2 3 4 5 by blast
qed

text \<open>
  A decision taken because a sub-builder requires recalibration does not query the
  observer at all; a rebuild caused by a changed quote queries it twice, once in the
  decision and once to reset it.
\<close>

theorem observer_queries_counterexample:
  "fst (requiresRecalibration staleBuilder)
   \<and> filter isQuery (trace (snd (requiresRecalibration staleBuilder))) = []
   \<and> \<not> list_ex sb_requiresRecalibration (m_subBuilders (exampleBuilder exampleConfig))
   \<and> filter isQuery (trace (snd (performCalculations (exampleCollaborators 0)
        (exampleBuilder exampleConfig)))) = [HasUpdated False, HasUpdated True]"
  by code_simp

lemma accessors_fresh:
  assumes "\<not> stale s"
  shows "model w s = (Inr (m_model s), called (HasUpdated False) s)"
    and "swaptionCalibrationErrors w s
          = (Inr (m_swaptionCalibrationErrors s), called (HasUpdated False) s)"
    and "fxOptionCalibrationErrors w s
          = (Inr (m_fxOptionCalibrationErrors s), called (HasUpdated False) s)"
    and "eqOptionCalibrationErrors w s
          = (Inr (m_eqOptionCalibrationErrors s), called (HasUpdated False) s)"
    and "infCapFloorCalibrationErrors w s
          = (Inr (m_infCapFloorCalibrationErrors s), called (HasUpdated False) s)"
  using performCalculations_fresh[OF assms, of w]
  by (simp_all add: model_def swaptionCalibrationErrors_def fxOptionCalibrationErrors_def
      eqOptionCalibrationErrors_def infCapFloorCalibrationErrors_def accessor_def calculate_def
      called_def)

lemma accessors_after:
  assumes "calculate w s = (None, s1)"
  shows "fst (model w s) = Inr (m_model s1)"
    and "fst (swaptionCalibrationErrors w s) = Inr (m_swaptionCalibrationErrors s1)"
    and "fst (fxOptionCalibrationErrors w s) = Inr (m_fxOptionCalibrationErrors s1)"
    and "fst (eqOptionCalibrationErrors w s) = Inr (m_eqOptionCalibrationErrors s1)"
    and "fst (infCapFloorCalibrationErrors w s) = Inr (m_infCapFloorCalibrationErrors s1)"
  using assms
  by (simp_all add: model_def swaptionCalibrationErrors_def fxOptionCalibrationErrors_def
      eqOptionCalibrationErrors_def infCapFloorCalibrationErrors_def accessor_def)

lemma quote_change_is_lazy:
  "stale (correlationQuoteChanged s)"
  "m_model (correlationQuoteChanged s) = m_model s"
  "trace (correlationQuoteChanged s) = trace s"
  by (simp_all add: correlationQuoteChanged_def quoteChanged_def stale_def)

lemma rebuildStart_eq:
  "rebuildStart s = s
     \<lparr>m_marketObserver := (m_marketObserver s)\<lparr>updated := False\<rparr>,
      m_observables := m_observables s - set (m_subBuilders s),
      trace := trace s
        @ (if list_ex sb_requiresRecalibration (m_subBuilders s) then [] else [HasUpdated False])
        @ [HasUpdated True]\<rparr>"
  by (simp add: rebuildStart_def unregisterWithSubBuilders_def observerHasUpdated_def
      hasUpdated_def requiresRecalibration_def called_def)

lemma registered_cong:
  "subModelsBuilt w (s\<lparr>m_observables := x\<rparr>) = subModelsBuilt w s"
  "jointModelOf w (s\<lparr>m_observables := x\<rparr>) = jointModelOf w s"
  by (auto simp: subModelsBuilt_def jointModelOf_def split: option.splits sum.splits)

lemma accessors_calculate:
  "model w s = (case calculate w s of
      (Some e, s') \<Rightarrow> (Inl e, s') | (None, s') \<Rightarrow> (Inr (m_model s'), s'))"
  "swaptionCalibrationErrors w s = (case calculate w s of
      (Some e, s') \<Rightarrow> (Inl e, s') | (None, s') \<Rightarrow> (Inr (m_swaptionCalibrationErrors s'), s'))"
  "fxOptionCalibrationErrors w s = (case calculate w s of
      (Some e, s') \<Rightarrow> (Inl e, s') | (None, s') \<Rightarrow> (Inr (m_fxOptionCalibrationErrors s'), s'))"
  "eqOptionCalibrationErrors w s = (case calculate w s of
      (Some e, s') \<Rightarrow> (Inl e, s') | (None, s') \<Rightarrow> (Inr (m_eqOptionCalibrationErrors s'), s'))"
  "infCapFloorCalibrationErrors w s = (case calculate w s of
      (Some e, s') \<Rightarrow> (Inl e, s') | (None, s') \<Rightarrow> (Inr (m_infCapFloorCalibrationErrors s'), s'))"
  by (simp_all add: model_def swaptionCalibrationErrors_def fxOptionCalibrationErrors_def
      eqOptionCalibrationErrors_def infCapFloorCalibrationErrors_def accessor_def)

lemma calculate_rebuilt:
  assumes "stale s" and "calculate w s = (None, s')"
  shows "\<exists>s2. buildModel w (rebuildStart s) = (None, s2)
          \<and> s' = s2\<lparr>m_observables := m_observables s2 \<union> set (m_subBuilders s2)\<rparr>"
    and "m_observables s' = (m_observables s - set (m_subBuilders s)) \<union> set (m_subBuilders s')"
    and "subModelsBuilt w s'"
    and "\<exists>m. jointModelOf w s' = Inr m
          \<and> m_model s' = Some ((calibrated (specifiedCalibrations (m_config s)) m)
                \<lparr>cam_updates := Suc (cam_updates m)\<rparr>)"
    and "m_swaptionCalibrationErrors s' = map lgm_error (irBuilder s')"
    and "\<not> stale s'"
proof -
  obtain x s2 where b: "buildModel w (rebuildStart s) = (x, s2)"
    by (cases "buildModel w (rebuildStart s)")
  have x: "x = None" and s': "s' = s2\<lparr>m_observables := m_observables s2 \<union> set (m_subBuilders s2)\<rparr>"
    using assms performCalculations_stale[OF assms(1), of w] b
    by (auto simp: calculate_def registerWithSubBuilders_def split: option.splits)
  have b': "buildModel w (rebuildStart s) = (None, s2)" using b x by simp
  show "\<exists>s2. buildModel w (rebuildStart s) = (None, s2)
          \<and> s' = s2\<lparr>m_observables := m_observables s2 \<union> set (m_subBuilders s2)\<rparr>"
    using b' s' by blast
  have c: "ctx s2 = ctx (rebuildStart s)" using buildModel_ctx[of w "rebuildStart s"] b by simp
  then have o: "m_observables s2 = m_observables s - set (m_subBuilders s)"
    "m_config (rebuildStart s) = m_config s" "updated (m_marketObserver s2) = False"
    using rebuildStart_observer(1,2)[of s] by (simp_all add: ctx_def rebuildStart_eq)
  show "m_observables s' = (m_observables s - set (m_subBuilders s)) \<union> set (m_subBuilders s')"
    using s' o(1) by simp
  note bc = buildModel_completed[OF b']
  show "subModelsBuilt w s'" using bc(2) unfolding s' registered_cong .
  show "\<exists>m. jointModelOf w s' = Inr m
          \<and> m_model s' = Some ((calibrated (specifiedCalibrations (m_config s)) m)
                \<lparr>cam_updates := Suc (cam_updates m)\<rparr>)"
    using bc(4) unfolding s' registered_cong o(2) by simp
  show "m_swaptionCalibrationErrors s' = map lgm_error (irBuilder s')"
    using bc(3) s' by simp
  have "allFresh s2" using buildModel_fresh b' by blast
  then show "\<not> stale s'" using o(3) s' by (simp add: stale_def allFresh_def)
qed

lemma calculate_failed:
  assumes "stale s" and "calculate w s = (Some e, s')"
  shows "buildModel w (rebuildStart s) = (Some e, s')"
    and "m_observables s' = m_observables s - set (m_subBuilders s)"
proof -
  obtain x s2 where b: "buildModel w (rebuildStart s) = (x, s2)"
    by (cases "buildModel w (rebuildStart s)")
  show 1: "buildModel w (rebuildStart s) = (Some e, s')"
    using assms performCalculations_stale[OF assms(1), of w] b
    by (auto simp: calculate_def split: option.splits)
  have "ctx s' = ctx (rebuildStart s)" using buildModel_ctx[of w "rebuildStart s"] 1 by simp
  then show "m_observables s' = m_observables s - set (m_subBuilders s)"
    using rebuildStart_observer(2)[of s] by (simp add: ctx_def)
qed

text \<open>
  C4: recalculation is pulled by the accessors. Every accessor (the model handle and the
  four calibration error vectors) runs \<open>calculate\<close>, nothing else changes the
  builder, and the accessor answers from the builder as the calculation leaves it: the
  member after the calculation, or the error the calculation threw. If some sub-builder
  requires recalibration or the market observer reports a changed correlation quote, the
  access resets the observer, unregisters from the current sub-builders, runs
  \<open>buildModel\<close> once and, when the build completes, registers with the new
  sub-builders: the builder is then registered with what it was registered with before,
  less the old sub-builders, and with the new ones; the model it answers is the joint
  model constructed anew over the new sub-models, calibrated and refreshed; the rate errors
  are those of the new rate sub-builders; and the builder is no longer stale. When the
  build throws, the accessor passes the error on and the builder stays unregistered from
  the old sub-builders. Otherwise \<open>buildModel\<close> is not run and the cached model
  and errors are returned, the builder being unchanged apart from the logged query. A
  changed correlation quote alone makes the builder stale and leaves the model as it is.
\<close>

theorem lazy_recalculation:
  "(if stale s
    then calculate w s =
           (case buildModel w (rebuildStart s) of
              (None, s2) \<Rightarrow> (None, registerWithSubBuilders s2)
            | (Some e, s2) \<Rightarrow> (Some e, s2))
         \<and> m_observables (rebuildStart s) = m_observables s - set (m_subBuilders s)
         \<and> rebuildStart s = s
             \<lparr>m_marketObserver := (m_marketObserver s)\<lparr>updated := False\<rparr>,
              m_observables := m_observables s - set (m_subBuilders s),
              trace := trace s
                @ (if list_ex sb_requiresRecalibration (m_subBuilders s) then [] else [HasUpdated False])
                @ [HasUpdated True]\<rparr>
         \<and> (\<forall>s'. calculate w s = (None, s') \<longrightarrow>
               (\<exists>s2. buildModel w (rebuildStart s) = (None, s2)
                  \<and> s' = s2\<lparr>m_observables := m_observables s2 \<union> set (m_subBuilders s2)\<rparr>)
               \<and> m_observables s'
                   = (m_observables s - set (m_subBuilders s)) \<union> set (m_subBuilders s')
               \<and> subModelsBuilt w s'
               \<and> (\<exists>m. jointModelOf w s' = Inr m
                     \<and> m_model s' = Some ((calibrated (specifiedCalibrations (m_config s)) m)
                           \<lparr>cam_updates := Suc (cam_updates m)\<rparr>))
               \<and> m_swaptionCalibrationErrors s' = map lgm_error (irBuilder s')
               \<and> \<not> stale s'
               \<and> model w s = (Inr (m_model s'), s')
               \<and> swaptionCalibrationErrors w s = (Inr (m_swaptionCalibrationErrors s'), s')
               \<and> fxOptionCalibrationErrors w s = (Inr (m_fxOptionCalibrationErrors s'), s')
               \<and> eqOptionCalibrationErrors w s = (Inr (m_eqOptionCalibrationErrors s'), s')
               \<and> infCapFloorCalibrationErrors w s = (Inr (m_infCapFloorCalibrationErrors s'), s'))
         \<and> (\<forall>e s'. calculate w s = (Some e, s') \<longrightarrow>
               buildModel w (rebuildStart s) = (Some e, s')
               \<and> m_observables s' = m_observables s - set (m_subBuilders s)
               \<and> model w s = (Inl e, s')
               \<and> swaptionCalibrationErrors w s = (Inl e, s')
               \<and> fxOptionCalibrationErrors w s = (Inl e, s')
               \<and> eqOptionCalibrationErrors w s = (Inl e, s')
               \<and> infCapFloorCalibrationErrors w s = (Inl e, s'))
    else calculate w s = (None, called (HasUpdated False) s)
         \<and> model w s = (Inr (m_model s), called (HasUpdated False) s)
         \<and> swaptionCalibrationErrors w s
             = (Inr (m_swaptionCalibrationErrors s), called (HasUpdated False) s)
         \<and> fxOptionCalibrationErrors w s
             = (Inr (m_fxOptionCalibrationErrors s), called (HasUpdated False) s)
         \<and> eqOptionCalibrationErrors w s
             = (Inr (m_eqOptionCalibrationErrors s), called (HasUpdated False) s)
         \<and> infCapFloorCalibrationErrors w s
             = (Inr (m_infCapFloorCalibrationErrors s), called (HasUpdated False) s))
   \<and> count_list (trace (snd (calculate w s))) BuildModel
       = count_list (trace s) BuildModel + (if stale s then 1 else 0)
   \<and> snd (model w s) = snd (calculate w s)
   \<and> snd (swaptionCalibrationErrors w s) = snd (calculate w s)
   \<and> snd (fxOptionCalibrationErrors w s) = snd (calculate w s)
   \<and> snd (eqOptionCalibrationErrors w s) = snd (calculate w s)
   \<and> snd (infCapFloorCalibrationErrors w s) = snd (calculate w s)
   \<and> stale (correlationQuoteChanged s)
   \<and> m_model (correlationQuoteChanged s) = m_model s
   \<and> trace (correlationQuoteChanged s) = trace s"
proof -
  note qc = quote_change_is_lazy[of s]
  have acc: "snd (accessor w member s) = snd (calculate w s)" for member :: "CrossAssetModelBuilder \<Rightarrow> 'a"
    by (cases "calculate w s") (auto simp: accessor_def split: option.splits)
  have snds: "snd (model w s) = snd (calculate w s)"
    "snd (swaptionCalibrationErrors w s) = snd (calculate w s)"
    "snd (fxOptionCalibrationErrors w s) = snd (calculate w s)"
    "snd (eqOptionCalibrationErrors w s) = snd (calculate w s)"
    "snd (infCapFloorCalibrationErrors w s) = snd (calculate w s)"
    by (simp_all add: model_def swaptionCalibrationErrors_def fxOptionCalibrationErrors_def
        eqOptionCalibrationErrors_def infCapFloorCalibrationErrors_def acc)
  show ?thesis
  proof (cases "stale s")
    case False
    have "count_list (trace (snd (calculate w s))) BuildModel = count_list (trace s) BuildModel"
      using performCalculations_fresh[OF False, of w] by (simp add: calculate_def called_def)
    moreover have "calculate w s = (None, called (HasUpdated False) s)"
      using performCalculations_fresh[OF False, of w] by (simp add: calculate_def)
    ultimately show ?thesis
      using False snds accessors_fresh[OF False, of w] qc by simp
  next
    case True
    from performCalculations_rebuild(1)[OF True, of w] obtain t
      where t: "trace (snd (performCalculations w s)) = trace (rebuildStart s) @ BuildModel # t"
        "set t \<subseteq> buildEvents" by blast
    from rebuildStart_observer(3)[of s] obtain q
      where q: "trace (rebuildStart s) = trace s @ q @ [HasUpdated True]"
        "q = [] \<or> q = [HasUpdated False]" by blast
    have n: "count_list (trace (snd (calculate w s))) BuildModel = count_list (trace s) BuildModel + 1"
      using t q buildEvents_quiet(2)[OF t(2)] by (auto simp: calculate_def)
    have a: "calculate w s =
           (case buildModel w (rebuildStart s) of
              (None, s2) \<Rightarrow> (None, registerWithSubBuilders s2)
            | (Some e, s2) \<Rightarrow> (Some e, s2))"
      using performCalculations_stale[OF True, of w] by (simp add: calculate_def)
    have ok: "\<forall>s'. calculate w s = (None, s') \<longrightarrow>
               (\<exists>s2. buildModel w (rebuildStart s) = (None, s2)
                  \<and> s' = s2\<lparr>m_observables := m_observables s2 \<union> set (m_subBuilders s2)\<rparr>)
               \<and> m_observables s'
                   = (m_observables s - set (m_subBuilders s)) \<union> set (m_subBuilders s')
               \<and> subModelsBuilt w s'
               \<and> (\<exists>m. jointModelOf w s' = Inr m
                     \<and> m_model s' = Some ((calibrated (specifiedCalibrations (m_config s)) m)
                           \<lparr>cam_updates := Suc (cam_updates m)\<rparr>))
               \<and> m_swaptionCalibrationErrors s' = map lgm_error (irBuilder s')
               \<and> \<not> stale s'
               \<and> model w s = (Inr (m_model s'), s')
               \<and> swaptionCalibrationErrors w s = (Inr (m_swaptionCalibrationErrors s'), s')
               \<and> fxOptionCalibrationErrors w s = (Inr (m_fxOptionCalibrationErrors s'), s')
               \<and> eqOptionCalibrationErrors w s = (Inr (m_eqOptionCalibrationErrors s'), s')
               \<and> infCapFloorCalibrationErrors w s = (Inr (m_infCapFloorCalibrationErrors s'), s')"
    proof (intro allI impI)
      fix s'
      assume c: "calculate w s = (None, s')"
      note r = calculate_rebuilt[OF True c]
      have v: "model w s = (Inr (m_model s'), s')"
        "swaptionCalibrationErrors w s = (Inr (m_swaptionCalibrationErrors s'), s')"
        "fxOptionCalibrationErrors w s = (Inr (m_fxOptionCalibrationErrors s'), s')"
        "eqOptionCalibrationErrors w s = (Inr (m_eqOptionCalibrationErrors s'), s')"
        "infCapFloorCalibrationErrors w s = (Inr (m_infCapFloorCalibrationErrors s'), s')"
        using c by (simp_all add: accessors_calculate)
      show "(\<exists>s2. buildModel w (rebuildStart s) = (None, s2)
                  \<and> s' = s2\<lparr>m_observables := m_observables s2 \<union> set (m_subBuilders s2)\<rparr>)
               \<and> m_observables s'
                   = (m_observables s - set (m_subBuilders s)) \<union> set (m_subBuilders s')
               \<and> subModelsBuilt w s'
               \<and> (\<exists>m. jointModelOf w s' = Inr m
                     \<and> m_model s' = Some ((calibrated (specifiedCalibrations (m_config s)) m)
                           \<lparr>cam_updates := Suc (cam_updates m)\<rparr>))
               \<and> m_swaptionCalibrationErrors s' = map lgm_error (irBuilder s')
               \<and> \<not> stale s'
               \<and> model w s = (Inr (m_model s'), s')
               \<and> swaptionCalibrationErrors w s = (Inr (m_swaptionCalibrationErrors s'), s')
               \<and> fxOptionCalibrationErrors w s = (Inr (m_fxOptionCalibrationErrors s'), s')
               \<and> eqOptionCalibrationErrors w s = (Inr (m_eqOptionCalibrationErrors s'), s')
               \<and> infCapFloorCalibrationErrors w s = (Inr (m_infCapFloorCalibrationErrors s'), s')"
        using r v by (intro conjI)
    qed
    have ko: "\<forall>e s'. calculate w s = (Some e, s') \<longrightarrow>
               buildModel w (rebuildStart s) = (Some e, s')
               \<and> m_observables s' = m_observables s - set (m_subBuilders s)
               \<and> model w s = (Inl e, s')
               \<and> swaptionCalibrationErrors w s = (Inl e, s')
               \<and> fxOptionCalibrationErrors w s = (Inl e, s')
               \<and> eqOptionCalibrationErrors w s = (Inl e, s')
               \<and> infCapFloorCalibrationErrors w s = (Inl e, s')"
    proof (intro allI impI)
      fix e s'
      assume c: "calculate w s = (Some e, s')"
      note r = calculate_failed[OF True c]
      have v: "model w s = (Inl e, s')"
        "swaptionCalibrationErrors w s = (Inl e, s')"
        "fxOptionCalibrationErrors w s = (Inl e, s')"
        "eqOptionCalibrationErrors w s = (Inl e, s')"
        "infCapFloorCalibrationErrors w s = (Inl e, s')"
        using c by (simp_all add: accessors_calculate)
      show "buildModel w (rebuildStart s) = (Some e, s')
               \<and> m_observables s' = m_observables s - set (m_subBuilders s)
               \<and> model w s = (Inl e, s')
               \<and> swaptionCalibrationErrors w s = (Inl e, s')
               \<and> fxOptionCalibrationErrors w s = (Inl e, s')
               \<and> eqOptionCalibrationErrors w s = (Inl e, s')
               \<and> infCapFloorCalibrationErrors w s = (Inl e, s')"
        using r v by (intro conjI)
    qed
    show ?thesis
      unfolding if_P[OF True]
      using a rebuildStart_observer(2)[of s] rebuildStart_eq[of s] ok ko n snds qc
      by (intro conjI)
  qed
qed

text \<open>
  C5: after an access that has completed, a second access with nothing changed in
  between does not run \<open>buildModel\<close> again, and returns the same model and the
  same four calibration error vectors as the first.
\<close>

theorem second_access_unchanged:
  assumes "calculate w s = (None, s1)"
  shows "calculate w s1 = (None, called (HasUpdated False) s1)
    \<and> fst (model w s1) = fst (model w s)
    \<and> fst (swaptionCalibrationErrors w s1) = fst (swaptionCalibrationErrors w s)
    \<and> fst (fxOptionCalibrationErrors w s1) = fst (fxOptionCalibrationErrors w s)
    \<and> fst (eqOptionCalibrationErrors w s1) = fst (eqOptionCalibrationErrors w s)
    \<and> fst (infCapFloorCalibrationErrors w s1) = fst (infCapFloorCalibrationErrors w s)
    \<and> count_list (trace (snd (calculate w s1))) BuildModel = count_list (trace s1) BuildModel"
proof -
  have fresh: "\<not> stale s1"
  proof (cases "stale s")
    case False
    then have "s1 = called (HasUpdated False) s"
      using assms performCalculations_fresh[OF False, of w] by (simp add: calculate_def)
    then show ?thesis using False by (simp add: stale_def called_def)
  next
    case True
    obtain x s2 where b: "buildModel w (rebuildStart s) = (x, s2)"
      by (cases "buildModel w (rebuildStart s)")
    have x: "x = None" and s1: "s1 = registerWithSubBuilders s2"
      using assms performCalculations_stale[OF True, of w] b
      by (auto simp: calculate_def split: option.splits)
    have f: "allFresh s2" using buildModel_fresh b x by blast
    have "ctx s2 = ctx (rebuildStart s)" using buildModel_ctx[of w "rebuildStart s"] b by simp
    then have "updated (m_marketObserver s2) = False"
      using rebuildStart_observer(1)[of s] by (simp add: ctx_def)
    then show ?thesis using f s1 by (simp add: stale_def allFresh_def registerWithSubBuilders_def)
  qed
  have c: "calculate w s1 = (None, called (HasUpdated False) s1)"
    using performCalculations_fresh[OF fresh, of w] by (simp add: calculate_def)
  have n: "count_list (trace (snd (calculate w s1))) BuildModel = count_list (trace s1) BuildModel"
    using c by (simp add: called_def)
  show ?thesis
    using c n accessors_fresh[OF fresh, of w] accessors_after[OF assms] by simp
qed

lemma staleBuilder_rebuilt:
  "calculate (exampleCollaborators 0) staleBuilder
     = (None, snd (calculate (exampleCollaborators 0) staleBuilder))"
proof -
  have "fst (calculate (exampleCollaborators 0) staleBuilder) = None" by code_simp
  then show ?thesis by (metis prod.collapse)
qed

theorem second_access_unchanged_witness:
  "calculate (exampleCollaborators 0) staleBuilder
     = (None, snd (calculate (exampleCollaborators 0) staleBuilder))
   \<and> fst (model (exampleCollaborators 0) (snd (calculate (exampleCollaborators 0) staleBuilder)))
       = fst (model (exampleCollaborators 0) staleBuilder)
   \<and> count_list (trace (snd (calculate (exampleCollaborators 0)
          (snd (calculate (exampleCollaborators 0) staleBuilder))))) BuildModel
       = count_list (trace (snd (calculate (exampleCollaborators 0) staleBuilder))) BuildModel"
  using second_access_unchanged[OF staleBuilder_rebuilt] staleBuilder_rebuilt by blast

lemma staleRegistered_rebuilt:
  "calculate (exampleCollaborators 0) staleRegistered
     = (None, snd (calculate (exampleCollaborators 0) staleRegistered))"
proof -
  have "fst (calculate (exampleCollaborators 0) staleRegistered) = None" by code_simp
  then show ?thesis by (metis prod.collapse)
qed

theorem lazy_recalculation_witness:
  "stale staleBuilder
   \<and> count_list (trace (snd (calculate (exampleCollaborators 0) staleBuilder))) BuildModel = 1
   \<and> \<not> stale exampleCalibrated
   \<and> model (exampleCollaborators 0) exampleCalibrated
       = (Inr (m_model exampleCalibrated), called (HasUpdated False) exampleCalibrated)
   \<and> count_list (trace (snd (calculate (exampleCollaborators 0) exampleCalibrated))) BuildModel
       = count_list (trace exampleCalibrated) BuildModel
   \<and> stale staleRegistered
   \<and> m_observables staleRegistered
       = {\<lparr>sb_type = IR, sb_index = 0, sb_requiresRecalibration = True\<rparr>}
   \<and> m_observables (snd (calculate (exampleCollaborators 0) staleRegistered))
       = {newSubBuilder IR 0, newSubBuilder IR 1, newSubBuilder FX 0, newSubBuilder EQ 0,
          newSubBuilder INF_type 0}
   \<and> m_model staleRegistered = None
   \<and> fst (model (exampleCollaborators 0) staleRegistered)
       = Inr (Some (exampleModel\<lparr>cam_calibrations :=
            [BsVolatilitiesIterative FX 0, BsVolatilitiesGlobal EQ 0, Calibrate], cam_updates := 1\<rparr>))
   \<and> snd (model (exampleCollaborators 0) staleRegistered)
       = snd (calculate (exampleCollaborators 0) staleRegistered)"
proof -
  let ?w = "exampleCollaborators 0"
  let ?r = "snd (calculate ?w staleRegistered)"
  have 1: "stale staleBuilder" by code_simp
  have 2: "\<not> stale exampleCalibrated" by code_simp
  have 3: "count_list (trace staleBuilder) BuildModel = 0" by code_simp
  have 4: "stale staleRegistered" by code_simp
  note k = lazy_recalculation[of staleBuilder "exampleCollaborators 0", unfolded if_P[OF 1]]
  note l = lazy_recalculation[of exampleCalibrated "exampleCollaborators 0", unfolded if_not_P[OF 2]]
  note r = lazy_recalculation[of staleRegistered "exampleCollaborators 0", unfolded if_P[OF 4]]
  from k have "count_list (trace (snd (calculate ?w staleBuilder))) BuildModel
      = count_list (trace staleBuilder) BuildModel + 1" by blast
  then have a: "count_list (trace (snd (calculate ?w staleBuilder))) BuildModel = 1"
    using 3 by simp
  from l have b: "model ?w exampleCalibrated
       = (Inr (m_model exampleCalibrated), called (HasUpdated False) exampleCalibrated)" by blast
  from l have "count_list (trace (snd (calculate ?w exampleCalibrated))) BuildModel
       = count_list (trace exampleCalibrated) BuildModel + 0" by blast
  then have c: "count_list (trace (snd (calculate ?w exampleCalibrated))) BuildModel
       = count_list (trace exampleCalibrated) BuildModel" by simp
  from r staleRegistered_rebuilt have o: "m_observables ?r
      = (m_observables staleRegistered - set (m_subBuilders staleRegistered)) \<union> set (m_subBuilders ?r)"
    and m: "model ?w staleRegistered = (Inr (m_model ?r), ?r)"
    by blast+
  have 5: "m_observables staleRegistered
       = {\<lparr>sb_type = IR, sb_index = 0, sb_requiresRecalibration = True\<rparr>}"
    "m_subBuilders staleRegistered = [\<lparr>sb_type = IR, sb_index = 0, sb_requiresRecalibration = True\<rparr>]"
    "m_model staleRegistered = None"
    by (simp_all add: staleRegistered_def staleBuilder_def exampleBuilder_def emptyBuilder_def)
  have 6: "m_subBuilders ?r = [newSubBuilder IR 0, newSubBuilder IR 1, newSubBuilder FX 0,
      newSubBuilder EQ 0, newSubBuilder INF_type 0]"
    by code_simp
  have 7: "m_model ?r = Some (exampleModel\<lparr>cam_calibrations :=
            [BsVolatilitiesIterative FX 0, BsVolatilitiesGlobal EQ 0, Calibrate], cam_updates := 1\<rparr>)"
    by code_simp
  have d: "m_observables ?r
       = {newSubBuilder IR 0, newSubBuilder IR 1, newSubBuilder FX 0, newSubBuilder EQ 0,
          newSubBuilder INF_type 0}"
    unfolding o 5 6 by simp
  have e: "fst (model ?w staleRegistered) = Inr (Some (exampleModel\<lparr>cam_calibrations :=
            [BsVolatilitiesIterative FX 0, BsVolatilitiesGlobal EQ 0, Calibrate], cam_updates := 1\<rparr>))"
    "snd (model ?w staleRegistered) = ?r"
    unfolding m by (simp_all add: 7)
  show ?thesis using 1 2 4 a b c 5(1,3) d e by (intro conjI)
qed

text \<open>
  The builder of the example, as its constructor leaves it.
\<close>

lemma exampleCalibrated_constructed:
  "newCrossAssetModelBuilder (exampleCollaborators 0) (Some exampleMarket) exampleConfig
     ''lgm'' ''fx'' ''eq'' ''inf'' ''final'' = Inr exampleCalibrated"
proof -
  let ?w = "exampleCollaborators 0" and ?s = "exampleBuilder exampleConfig"
  have "fst (buildModel ?w ?s) = None" by code_simp
  then have b: "buildModel ?w ?s = (None, snd (buildModel ?w ?s))" by (metis prod.collapse)
  have c: "correlations exampleConfig = []" by (simp add: exampleConfig_def)
  have e: "emptyBuilder (Some exampleMarket) exampleConfig ''lgm'' ''fx'' ''eq'' ''inf'' ''final'' = ?s"
    by (simp add: exampleBuilder_def)
  show ?thesis
    unfolding newCrossAssetModelBuilder_def e exampleCalibrated_def c
    by (subst b) simp
qed

theorem observer_queries_witness:
  "filter isQuery (drop (length (trace staleBuilder))
       (trace (snd (performCalculations (exampleCollaborators 0) staleBuilder)))) = [HasUpdated True]
   \<and> updated (m_marketObserver (snd (performCalculations (exampleCollaborators 0) staleBuilder))) = False
   \<and> filter isQuery (drop (length (trace exampleCalibrated))
       (trace (snd (performCalculations (exampleCollaborators 0) exampleCalibrated)))) = [HasUpdated False]"
proof -
  have 1: "list_ex sb_requiresRecalibration (m_subBuilders staleBuilder)" by code_simp
  have 2: "\<not> list_ex sb_requiresRecalibration (m_subBuilders exampleCalibrated)" by code_simp
  have 3: "\<not> updated (m_marketObserver exampleCalibrated)" by code_simp
  note a = observer_queries[of staleBuilder "exampleCollaborators 0", unfolded if_P[OF 1]]
  note b = observer_queries[of exampleCalibrated "exampleCollaborators 0", unfolded if_not_P[OF 2] if_not_P[OF 3]]
  show ?thesis using a b by blast
qed

end
